theory Spec2Isabelle
  imports Main
begin

section \<open>Python values\<close>

text \<open>
  The scripts exchange JSON with the shop's API and hold what \<open>response.json()\<close>
  returns in ordinary Python variables. A parsed value is modelled by \<open>json\<close>;
  \<open>JNull\<close> is Python's \<open>None\<close>. A dict is an association list read with
  \<open>map_of\<close>: the first binding of a key is the dict's binding for it. Numbers are
  the integers (status codes, stock counts).
\<close>

datatype json =
    JNull
  | JBool bool
  | JNum int
  | JStr string
  | JList "json list"
  | JDict "(string \<times> json) list"

text \<open>Python truthiness, as used by \<open>if not x:\<close> and \<open>if x:\<close>.\<close>

fun truthy :: "json \<Rightarrow> bool" where
  "truthy JNull = False"
| "truthy (JBool b) = b"
| "truthy (JNum n) = (n \<noteq> 0)"
| "truthy (JStr s) = (s \<noteq> [])"
| "truthy (JList xs) = (xs \<noteq> [])"
| "truthy (JDict kvs) = (kvs \<noteq> [])"

text \<open>
  What a Python operation raises is a value: \<open>Inl\<close> of the exception, or
  \<open>Inr\<close> of the result.
\<close>

datatype exn =
    AttributeError
  | KeyError
  | TypeError
  | IndexError
  | JSONDecodeError
  | RequestException

text \<open>\<open>d.get(k, default)\<close>: only a dict has the method.\<close>

fun dict_get :: "json \<Rightarrow> string \<Rightarrow> json \<Rightarrow> exn + json" where
  "dict_get (JDict kvs) k d = Inr (case map_of kvs k of None \<Rightarrow> d | Some v \<Rightarrow> v)"
| "dict_get _ k d = Inl AttributeError"

text \<open>\<open>d[k]\<close> for a string key \<open>k\<close>.\<close>

fun subscript :: "json \<Rightarrow> string \<Rightarrow> exn + json" where
  "subscript (JDict kvs) k = (case map_of kvs k of None \<Rightarrow> Inl KeyError | Some v \<Rightarrow> Inr v)"
| "subscript _ k = Inl TypeError"

text \<open>\<open>d[k] = v\<close> and \<open>d.update(e)\<close> on association lists.\<close>

fun dict_set :: "('k \<times> 'v) list \<Rightarrow> 'k \<Rightarrow> 'v \<Rightarrow> ('k \<times> 'v) list" where
  "dict_set [] k v = [(k, v)]"
| "dict_set ((k', v') # kvs) k v =
     (if k' = k then (k, v) # kvs else (k', v') # dict_set kvs k v)"

definition dict_update :: "('k \<times> 'v) list \<Rightarrow> ('k \<times> 'v) list \<Rightarrow> ('k \<times> 'v) list" where
  "dict_update d e = foldl (\<lambda>acc (k, v). dict_set acc k v) d e"

text \<open>\<open>x[0]\<close>: the first element of a list, the first character of a string.\<close>

fun first_item :: "json \<Rightarrow> exn + json" where
  "first_item (JList []) = Inl IndexError"
| "first_item (JList (x # xs)) = Inr x"
| "first_item (JStr []) = Inl IndexError"
| "first_item (JStr (c # cs)) = Inr (JStr [c])"
| "first_item (JDict kvs) = Inl KeyError"
| "first_item _ = Inl TypeError"

text \<open>\<open>for x in v\<close>: the elements iterated over.\<close>

fun py_iter :: "json \<Rightarrow> exn + json list" where
  "py_iter (JList xs) = Inr xs"
| "py_iter (JStr cs) = Inr (map (\<lambda>c. JStr [c]) cs)"
| "py_iter (JDict kvs) = Inr (map JStr (remdups (map fst kvs)))"
| "py_iter _ = Inl TypeError"

text \<open>\<open>x > 0\<close>\<close>

fun gt_zero :: "json \<Rightarrow> exn + bool" where
  "gt_zero (JNum n) = Inr (0 < n)"
| "gt_zero (JBool b) = Inr b"
| "gt_zero _ = Inl TypeError"

text \<open>Sequencing of operations that may raise: the first exception ends the sequence.\<close>

fun and_then :: "exn + 'a \<Rightarrow> ('a \<Rightarrow> exn + 'b) \<Rightarrow> exn + 'b" where
  "and_then (Inl e) f = Inl e"
| "and_then (Inr x) f = f x"

text \<open>\<open>str(n)\<close> for an integer.\<close>

fun str_nat :: "nat \<Rightarrow> string" where
  "str_nat n =
     (if n < 10 then [''0123456789'' ! n]
      else str_nat (n div 10) @ [''0123456789'' ! (n mod 10)])"

declare str_nat.simps [simp del]

definition str_int :: "int \<Rightarrow> string" where
  "str_int i = (if i < 0 then ''-'' @ str_nat (nat (- i)) else str_nat (nat i))"

section \<open>Randomness\<close>

text \<open>
  A source of randomness is the infinite sequence of its future draws. Choosing from a
  sequence takes the next draw as an index into it and leaves the rest of the source.
  (\<open>random.choice\<close> and \<open>secrets.choice\<close> raise on an empty sequence; every
  sequence the scripts choose from is a non-empty literal.)
\<close>

type_synonym source = "nat \<Rightarrow> nat"

definition choice :: "'a list \<Rightarrow> source \<Rightarrow> 'a \<times> source" where
  "choice seq src = (seq ! (src 0 mod length seq), \<lambda>i. src (Suc i))"

text \<open>\<open>''.join(choice(seq) for _ in range(n))\<close>\<close>

fun choices :: "'a list \<Rightarrow> nat \<Rightarrow> source \<Rightarrow> 'a list \<times> source" where
  "choices seq 0 src = ([], src)"
| "choices seq (Suc n) src =
     (case choice seq src of (c, src1) \<Rightarrow>
        (case choices seq n src1 of (cs, src2) \<Rightarrow> (c # cs, src2)))"

section \<open>adyen\_encryption.py: MockAdyenEncryption\<close>

definition adyen_prefix :: string where
  "adyen_prefix = ''adyenjs_0_1_25$''"

definition mock_chars :: string where
  "mock_chars = ''ABCDEFGHIJKLMNOPQRSTUVWXYZabcdefghijklmnopqrstuvwxyz0123456789+/=''"

definition generate_mock_encrypted_string :: "nat \<Rightarrow> source \<Rightarrow> string \<times> source" where
  "generate_mock_encrypted_string n src = choices mock_chars n src"

text \<open>
  The four fields are built in the order of the dict literal; \<open>card_data\<close> is a
  parameter the body never reads.
\<close>

definition mock_encrypt_card_data :: "json \<Rightarrow> source \<Rightarrow> json \<times> source" where
  "mock_encrypt_card_data card_data src =
     (case generate_mock_encrypted_string 64 src of (s1, src1) \<Rightarrow>
      case generate_mock_encrypted_string 32 src1 of (s2, src2) \<Rightarrow>
      case generate_mock_encrypted_string 32 src2 of (s3, src3) \<Rightarrow>
      case generate_mock_encrypted_string 32 src3 of (s4, src4) \<Rightarrow>
        (JDict
          [(''encryptedCardNumber'', JStr (adyen_prefix @ ''MEEwEAYHKoZIzj0CAQYFK4EEACIDYgAE'' @ s1)),
           (''encryptedExpiryMonth'', JStr (adyen_prefix @ ''MEEwEAYHKoZIzj0CAQYFK4EEACIDYgAE'' @ s2)),
           (''encryptedExpiryYear'', JStr (adyen_prefix @ ''MEEwEAYHKoZIzj0CAQYFK4EEACIDYgAE'' @ s3)),
           (''encryptedSecurityCode'', JStr (adyen_prefix @ ''MEEwEAYHKoZIzj0CAQYFK4EEACIDYgAE'' @ s4))],
         src4))"

section \<open>The clock, the network and the checkout object\<close>

text \<open>
  The tracking headers are computed from the module \<open>random\<close> and from
  \<open>time.time()\<close>. The environment \<open>env\<close> holds both: the source of random
  draws and the future readings of \<open>int(time.time() * 1000)\<close>.
\<close>

record env =
  rnd :: source
  clock :: "nat \<Rightarrow> int"

definition hex :: "nat \<Rightarrow> env \<Rightarrow> string \<times> env" where
  "hex n e = (case choices ''0123456789abcdef'' n (rnd e) of (cs, r) \<Rightarrow> (cs, e\<lparr>rnd := r\<rparr>))"

definition time_ms :: "env \<Rightarrow> int \<times> env" where
  "time_ms e = (clock e 0, e\<lparr>clock := \<lambda>i. clock e (Suc i)\<rparr>)"

text \<open>
  A request is what the script hands to \<open>session.get\<close> or \<open>session.post\<close>:
  the URL, the \<open>headers=\<close> argument and, for a POST, the \<open>json=\<close> argument.
  (The default headers and the cookie jar live inside \<open>requests.Session\<close>, which merges
  them into every request; the scripts set them once, in \<open>_setup_session\<close>.)

  The answer to a request is either a response, with its \<open>status_code\<close> and with what
  \<open>response.json()\<close> returns (\<open>Inl\<close> when the body is not JSON and the call
  raises), or a fault: the exchange itself raises (timeout, connection reset).
  \<open>response.text\<close> is only ever logged and is left out.
\<close>

type_synonym headers = "(string \<times> string) list"

datatype request =
    GET (req_url: string) (req_headers: headers)
  | POST (req_url: string) (req_headers: headers) (req_json: json)
where
  "req_json (GET u h) = JNull"

datatype reply =
    Reply int "exn + json"
  | Fault

text \<open>
  The object: the attributes \<open>cart_id\<close> and \<open>guest_id\<close> of the checkout classes,
  together with the world the object acts on: the answers the server will give, in
  order, the exchanges made so far, each with its answer, and the environment. When no
  answer is left the exchange faults.
\<close>

record session =
  cart_id :: json
  guest_id :: json
  replies :: "reply list"
  trace :: "(request \<times> reply) list"
  environ :: env

definition exchange :: "request \<Rightarrow> session \<Rightarrow> reply \<times> session" where
  "exchange rq s =
     (case replies s of
        [] \<Rightarrow> (Fault, s\<lparr>trace := trace s @ [(rq, Fault)]\<rparr>)
      | r # rs \<Rightarrow> (r, s\<lparr>replies := rs, trace := trace s @ [(rq, r)]\<rparr>))"

text \<open>The answer the next exchange will get.\<close>

definition next_reply :: "session \<Rightarrow> reply" where
  "next_reply s = (case replies s of [] \<Rightarrow> Fault | r # rs \<Rightarrow> r)"

text \<open>\<open>__init__\<close>: no cart and no guest yet.\<close>

definition new_session :: "reply list \<Rightarrow> env \<Rightarrow> session" where
  "new_session rs e =
     \<lparr>cart_id = JNull, guest_id = JNull, replies = rs, trace = [], environ = e\<rparr>"

definition base_url :: string where
  "base_url = ''https://www.footlocker.com''"

definition api_base :: string where
  "api_base = ''https://www.footlocker.com/zgw''"

section \<open>footlocker\_checkout.py: FootlockerCheckout\<close>

definition FC_get_tracking_headers :: "env \<Rightarrow> headers \<times> env" where
  "FC_get_tracking_headers e0 =
     (case time_ms e0 of (t, e1) \<Rightarrow>
      case hex 16 e1 of (nr_id, e2) \<Rightarrow>
      case hex 32 e2 of (nr_tr, e3) \<Rightarrow>
      case hex 32 e3 of (tp_trace, e4) \<Rightarrow>
      case hex 16 e4 of (tp_span, e5) \<Rightarrow>
      case hex 8 e5 of (r1, e6) \<Rightarrow>
      case hex 4 e6 of (r2, e7) \<Rightarrow>
      case hex 4 e7 of (r3, e8) \<Rightarrow>
      case hex 12 e8 of (r4, e9) \<Rightarrow>
        ([(''newrelic'',
             ''{\"v\":[0,1],\"d\":{\"ty\":\"Browser\",\"ac\":\"2684125\",\"ap\":\"655559411\",\"id\":\"''
             @ nr_id @ ''\",\"tr\":\"'' @ nr_tr @ ''\",\"ti\":'' @ str_int t
             @ '',\"tk\":\"3671077\"}}''),
          (''traceparent'', ''00-'' @ tp_trace @ ''-'' @ tp_span @ ''-01''),
          (''x-fl-request-id'', r1 @ ''-'' @ r2 @ ''-11f0-'' @ r3 @ ''-'' @ r4)],
         e9))"

definition FC_initialize_session :: "session \<Rightarrow> bool \<times> session" where
  "FC_initialize_session s =
     (case exchange (GET base_url []) s of
        (Fault, s1) \<Rightarrow> (False, s1)
      | (Reply status_code body, s1) \<Rightarrow> (status_code = 200, s1))"

definition FC_get_product_details :: "string \<Rightarrow> session \<Rightarrow> json \<times> session" where
  "FC_get_product_details sku s =
     (case FC_get_tracking_headers (environ s) of (h, e) \<Rightarrow>
      case exchange
             (GET (api_base @ ''/product-core/v1/pdp/sku/'' @ sku)
                  (dict_update h [(''x-kpsdk-v'', ''j-1.1.0'')]))
             (s\<lparr>environ := e\<rparr>) of
        (Fault, s1) \<Rightarrow> (JNull, s1)
      | (Reply status_code body, s1) \<Rightarrow>
          if status_code = 200 then
            (case body of
               Inl x \<Rightarrow> (JNull, s1)
             | Inr product_data \<Rightarrow>
                 (case dict_get product_data ''name'' (JStr ''Unknown'') of
                    Inl x \<Rightarrow> (JNull, s1)
                  | Inr name \<Rightarrow> (product_data, s1)))
          else (JNull, s1))"

definition FC_add_to_cart :: "string \<Rightarrow> string \<Rightarrow> int \<Rightarrow> session \<Rightarrow> bool \<times> session" where
  "FC_add_to_cart sku sz quantity s =
     (case FC_get_product_details sku s of (product, s0) \<Rightarrow>
      if \<not> truthy product then (False, s0)
      else
        case FC_get_tracking_headers (environ s0) of (h, e) \<Rightarrow>
        case exchange
               (POST (api_base @ ''/carts-experience/carts-experience-service/site/fl/cart/add'')
                     (dict_update h
                        [(''content-type'', ''application/json''),
                         (''x-api-lang'', ''en-US''),
                         (''x-kpsdk-v'', ''j-1.1.0'')])
                     (JDict
                        [(''sku'', JStr sku),
                         (''size'', JStr sz),
                         (''quantity'', JNum quantity),
                         (''fulfillmentType'', JStr ''JC''),
                         (''selectedSizeGroup'', JStr []),
                         (''selectedSizeValue'', JStr [])]))
               (s0\<lparr>environ := e\<rparr>) of
          (Fault, s1) \<Rightarrow> (False, s1)
        | (Reply status_code body, s1) \<Rightarrow>
            if status_code = 200 then
              (case body of
                 Inl x \<Rightarrow> (False, s1)
               | Inr cart_data \<Rightarrow>
                   (case dict_get cart_data ''cartId'' JNull of
                      Inl x \<Rightarrow> (False, s1)
                    | Inr cid \<Rightarrow> (True, s1\<lparr>cart_id := cid\<rparr>)))
            else (False, s1))"

text \<open>
  The log line of \<open>get_updated_cart\<close> formats
  \<open>cart_data.get('totalPriceWithTax', {}).get('formattedValue', 'N/A')\<close>, which raises
  when the total is present and is not a dict.
\<close>

definition formatted_total :: "json \<Rightarrow> exn + json" where
  "formatted_total cart_data =
     and_then (dict_get cart_data ''totalPriceWithTax'' (JDict []))
       (\<lambda>price. dict_get price ''formattedValue'' (JStr ''N/A''))"

definition FC_get_updated_cart :: "session \<Rightarrow> json \<times> session" where
  "FC_get_updated_cart s =
     (case FC_get_tracking_headers (environ s) of (h, e) \<Rightarrow>
      case exchange
             (GET (api_base @ ''/carts-experience/carts-experience-service/site/fl/cart/getUpdatedCart'')
                  (dict_update h
                     [(''accept'', ''application/json''),
                      (''x-api-lang'', ''en-US''),
                      (''x-kpsdk-v'', ''j-1.1.0'')]))
             (s\<lparr>environ := e\<rparr>) of
        (Fault, s1) \<Rightarrow> (JNull, s1)
      | (Reply status_code body, s1) \<Rightarrow>
          if status_code = 200 then
            (case body of
               Inl x \<Rightarrow> (JNull, s1)
             | Inr cart_data \<Rightarrow>
                 (case dict_get cart_data ''cartId'' JNull of
                    Inl x \<Rightarrow> (JNull, s1)
                  | Inr cid \<Rightarrow>
                      (case formatted_total cart_data of
                         Inl x \<Rightarrow> (JNull, s1\<lparr>cart_id := cid\<rparr>)
                       | Inr amount \<Rightarrow> (cart_data, s1\<lparr>cart_id := cid\<rparr>))))
          else (JNull, s1))"

definition FC_checkout_as_guest :: "session \<Rightarrow> bool \<times> session" where
  "FC_checkout_as_guest s =
     (case FC_get_updated_cart s of (cart_data, s0) \<Rightarrow>
      if \<not> truthy cart_data then (False, s0)
      else
        case FC_get_tracking_headers (environ s0) of (h, e) \<Rightarrow>
        case exchange
               (GET (api_base @ ''/carts-experience/carts-experience-service/site/fl/cart/getUpdatedCart'')
                    (dict_update h
                       [(''accept'', ''application/json''),
                        (''referer'', ''https://www.footlocker.com/checkout''),
                        (''x-api-lang'', ''en-US''),
                        (''x-kpsdk-v'', ''j-1.1.0'')]))
               (s0\<lparr>environ := e\<rparr>) of
          (Fault, s1) \<Rightarrow> (False, s1)
        | (Reply status_code body, s1) \<Rightarrow>
            if status_code = 200 then
              (case body of
                 Inl x \<Rightarrow> (False, s1)
               | Inr checkout_data \<Rightarrow>
                   (case and_then (dict_get checkout_data ''user'' (JDict []))
                           (\<lambda>user_info. dict_get user_info ''id'' JNull) of
                      Inl x \<Rightarrow> (False, s1)
                    | Inr gid \<Rightarrow> (True, s1\<lparr>guest_id := gid\<rparr>)))
            else (False, s1))"

definition FC_submit_shipping_info :: "json \<Rightarrow> session \<Rightarrow> bool \<times> session" where
  "FC_submit_shipping_info shipping_info s =
     (case FC_get_tracking_headers (environ s) of (h, e) \<Rightarrow>
      case exchange
             (POST (api_base @ ''/checkout/shipping'')
                   (dict_update h
                      [(''content-type'', ''application/json''),
                       (''x-api-lang'', ''en-US''),
                       (''x-kpsdk-v'', ''j-1.1.0'')])
                   shipping_info)
             (s\<lparr>environ := e\<rparr>) of
        (Fault, s1) \<Rightarrow> (False, s1)
      | (Reply status_code body, s1) \<Rightarrow> (status_code = 200, s1))"

definition FC_submit_payment_info :: "json \<Rightarrow> session \<Rightarrow> bool \<times> session" where
  "FC_submit_payment_info payment_info s =
     (case FC_get_tracking_headers (environ s) of (h, e) \<Rightarrow>
      case exchange
             (POST (api_base @ ''/checkout/payment'')
                   (dict_update h
                      [(''content-type'', ''application/json''),
                       (''x-api-lang'', ''en-US''),
                       (''x-kpsdk-v'', ''j-1.1.0'')])
                   payment_info)
             (s\<lparr>environ := e\<rparr>) of
        (Fault, s1) \<Rightarrow> (False, s1)
      | (Reply status_code body, s1) \<Rightarrow> (status_code = 200, s1))"

definition FC_place_order :: "session \<Rightarrow> json \<times> session" where
  "FC_place_order s =
     (case FC_get_tracking_headers (environ s) of (h, e) \<Rightarrow>
      case exchange
             (POST (api_base @ ''/checkout/placeorder'')
                   (dict_update h
                      [(''content-type'', ''application/json''),
                       (''x-api-lang'', ''en-US''),
                       (''x-kpsdk-v'', ''j-1.1.0'')])
                   (JDict [(''cartId'', cart_id s), (''guestId'', guest_id s)]))
             (s\<lparr>environ := e\<rparr>) of
        (Fault, s1) \<Rightarrow> (JNull, s1)
      | (Reply status_code body, s1) \<Rightarrow>
          if status_code = 200 then
            (case body of
               Inl x \<Rightarrow> (JNull, s1)
             | Inr order_data \<Rightarrow>
                 (case dict_get order_data ''orderId'' (JStr ''N/A'') of
                    Inl x \<Rightarrow> (JNull, s1)
                  | Inr oid \<Rightarrow> (order_data, s1)))
          else (JNull, s1))"

text \<open>
  The flow. Every executor catches what its body raises, so the flow's own handler is
  never entered.
\<close>

definition FC_complete_checkout_flow ::
  "string \<Rightarrow> string \<Rightarrow> json \<Rightarrow> json \<Rightarrow> session \<Rightarrow> bool \<times> session" where
  "FC_complete_checkout_flow sku sz shipping_info payment_info s =
     (case FC_initialize_session s of (r1, s1) \<Rightarrow>
      if \<not> r1 then (False, s1)
      else
        case FC_add_to_cart sku sz 1 s1 of (r2, s2) \<Rightarrow>
        if \<not> r2 then (False, s2)
        else
          case FC_checkout_as_guest s2 of (r3, s3) \<Rightarrow>
          if \<not> r3 then (False, s3)
          else
            case FC_submit_shipping_info shipping_info s3 of (r4, s4) \<Rightarrow>
            if \<not> r4 then (False, s4)
            else
              case FC_submit_payment_info payment_info s4 of (r5, s5) \<Rightarrow>
              if \<not> r5 then (False, s5)
              else
                case FC_place_order s5 of (order_result, s6) \<Rightarrow>
                if truthy order_result then (True, s6) else (False, s6))"

section \<open>config.py\<close>

definition ak_bmsc_fl_com :: string where
  "ak_bmsc_fl_com = ''0crWWT42ZZJrWrJm0d1AlHuZ9zhvanN7AHGkKcyPvWqJhKXWU8etGwodKFUmkVe2YiNp4v3BABFd2SbvJ7epV04o0WSLCMmOTOuk8tVq5sPHEVANXgBbbXHN0QvoxW2laffvh9XeFZ7clJSkirYKoBIm8r3kQbPwrAbSU4ibtrF''"

text \<open>The product catalogue; prices are whole dollars in the file (160.00, 120.00).\<close>

datatype product =
  Product (p_sku: string) (p_name: string) (p_available_sizes: "string list") (p_price: int)

definition PRODUCTS :: "(string \<times> product) list" where
  "PRODUCTS =
     [(''jordan_5_retro'',
         Product ''H7980100'' ''Jordan Air Jordan 5 Retro OG - Boys' Grade School''
           [''03.5'', ''04.0'', ''04.5'', ''05.0'', ''05.5'', ''06.0''] 160),
      (''other_product'',
         Product ''S001AS9'' ''Sample Product'' [''08.0'', ''09.0'', ''10.0''] 120)]"

definition SHIPPING_INFO :: json where
  "SHIPPING_INFO =
     JDict
       [(''firstName'', JStr ''John''),
        (''lastName'', JStr ''Doe''),
        (''address1'', JStr ''123 Main Street''),
        (''address2'', JStr []),
        (''city'', JStr ''New York''),
        (''state'', JStr ''NY''),
        (''zipCode'', JStr ''10001''),
        (''country'', JStr ''US''),
        (''phone'', JStr ''555-123-4567''),
        (''email'', JStr ''john.doe@example.com'')]"

definition PAYMENT_INFO :: json where
  "PAYMENT_INFO =
     JDict
       [(''paymentType'', JStr ''CREDITCARD''),
        (''cardNumber'', JStr ''4111111111111111''),
        (''expiryMonth'', JStr ''12''),
        (''expiryYear'', JStr ''2025''),
        (''cvv'', JStr ''123''),
        (''nameOnCard'', JStr ''John Doe''),
        (''billingAddress'',
           JDict
             [(''firstName'', JStr ''John''),
              (''lastName'', JStr ''Doe''),
              (''address1'', JStr ''123 Main Street''),
              (''city'', JStr ''New York''),
              (''state'', JStr ''NY''),
              (''zipCode'', JStr ''10001''),
              (''country'', JStr ''US'')])]"

section \<open>footlocker\_checkout.py: ImprovedFootlockerCheckout\<close>

text \<open>The headers of this class are literals: a captured request, replayed.\<close>

definition IC_get_tracking_headers :: "env \<Rightarrow> headers \<times> env" where
  "IC_get_tracking_headers e =
     ([(''newrelic'', ''eyJ2IjpbMCwxXSwiZCI6eyJ0eSI6IkJyb3dzZXIiLCJhYyI6IjI2ODQxMjUiLCJhcCI6IjY1NTU1OTQxMSIsImlkIjoiMmVlYzJjZDRhNTAzNzE2NSIsInRyIjoiYWEzNmVmOTQ3NzIxNTZjMTE4YTNlODFlZWQ1ZjljOTUiLCJ0aSI6MTc1MTQxNDAyMzEyNCwidGsiOiIzNjcxMDc3In19''),
       (''priority'', ''u=1, i''),
       (''referer'', base_url @ ''/''),
       (''sec-ch-ua'', ''\"Not)A;Brand\";v=\"8\", \"Chromium\";v=\"138\", \"Google Chrome\";v=\"138\"''),
       (''sec-ch-ua-mobile'', ''?0''),
       (''sec-ch-ua-platform'', ''\"Windows\"''),
       (''traceparent'', ''00-aa36ef94772156c118a3e81eed5f9c95-2eec2cd4a5037165-01''),
       (''tracestate'', ''3671077@nr=0-1-2684125-655559411-2eec2cd4a5037165----1751414023124''),
       (''x-kpsdk-ct'', ak_bmsc_fl_com),
       (''x-kpsdk-v'', ''j-1.1.0'')],
      e)"

text \<open>
  On a 403 the method prints the banner and the instructions for refreshing the
  cookies; what it returns is \<open>None\<close>, as for any other status but 200.
\<close>

datatype printed = AUTHENTICATION_ERROR | COOKIE_UPDATE_INSTRUCTIONS

definition IC_check_product_availability ::
  "string \<Rightarrow> session \<Rightarrow> (json \<times> printed list) \<times> session" where
  "IC_check_product_availability sku s =
     (case IC_get_tracking_headers (environ s) of (h, e) \<Rightarrow>
      case exchange
             (GET (api_base @ ''/product-core/v1/pdp/sku/'' @ sku)
                  (dict_update h [(''accept'', ''*/*''), (''x-api-lang'', ''en-US'')]))
             (s\<lparr>environ := e\<rparr>) of
        (Fault, s1) \<Rightarrow> ((JNull, []), s1)
      | (Reply status_code body, s1) \<Rightarrow>
          if status_code = 200 then
            (case body of
               Inl x \<Rightarrow> ((JNull, []), s1)
             | Inr product_data \<Rightarrow>
                 (case dict_get product_data ''name'' (JStr ''Unknown'') of
                    Inl x \<Rightarrow> ((JNull, []), s1)
                  | Inr name \<Rightarrow> ((product_data, []), s1)))
          else if status_code = 403 then
            ((JNull, [AUTHENTICATION_ERROR, COOKIE_UPDATE_INSTRUCTIONS]), s1)
          else ((JNull, []), s1))"

section \<open>enhanced\_checkout.py: EnhancedFootlockerCheckout\<close>

definition EC_get_tracking_headers :: "env \<Rightarrow> headers \<times> env" where
  "EC_get_tracking_headers e0 =
     (case time_ms e0 of (t, e1) \<Rightarrow>
      case hex 32 e1 of (trace_id, e2) \<Rightarrow>
      case hex 16 e2 of (span_id, e3) \<Rightarrow>
      case hex 8 e3 of (r1, e4) \<Rightarrow>
      case hex 12 e4 of (r2, e5) \<Rightarrow>
        ([(''newrelic'',
             ''{\"v\": [0, 1], \"d\": {\"ty\": \"Browser\", \"ac\": \"2684125\", \"ap\": \"655559411\", \"id\": \"''
             @ span_id @ ''\", \"tr\": \"'' @ trace_id @ ''\", \"ti\": '' @ str_int t
             @ '', \"tk\": \"3671077\"}}''),
          (''traceparent'', ''00-'' @ trace_id @ ''-'' @ span_id @ ''-01''),
          (''tracestate'',
             ''3671077@nr=0-1-2684125-655559411-'' @ span_id @ ''----'' @ str_int t),
          (''x-fl-request-id'', r1 @ ''-56d8-11f0-af56-'' @ r2),
          (''x-kpsdk-v'', ''j-1.1.0''),
          (''priority'', ''u=1, i'')],
         e5))"

text \<open>\<open>[size['id'] for size in sizes if size.get('stock', 0) > 0]\<close>\<close>

fun available_ids :: "json list \<Rightarrow> exn + json list" where
  "available_ids [] = Inr []"
| "available_ids (entry # rest) =
     and_then (dict_get entry ''stock'' (JNum 0)) (\<lambda>stock.
     and_then (gt_zero stock) (\<lambda>in_stock.
       if in_stock then
         and_then (subscript entry ''id'') (\<lambda>i.
         and_then (available_ids rest) (\<lambda>ids. Inr (i # ids)))
       else available_ids rest))"

text \<open>
  What the body of \<open>check_product_availability\<close> does with a parsed answer: the log
  line reads the name, the sizes in stock are collected and stored in the payload under
  \<open>available_sizes\<close>.
\<close>

definition with_available_sizes :: "json \<Rightarrow> exn + json" where
  "with_available_sizes product_data =
     and_then (dict_get product_data ''name'' (JStr ''Unknown'')) (\<lambda>name.
     and_then (dict_get product_data ''variantOptions'' (JDict [])) (\<lambda>options.
     and_then (dict_get options ''size'' (JList [])) (\<lambda>sizes.
     and_then (py_iter sizes) (\<lambda>entries.
     and_then (available_ids entries) (\<lambda>ids.
       case product_data of
         JDict kvs \<Rightarrow> Inr (JDict (dict_set kvs ''available_sizes'' (JList ids)))
       | _ \<Rightarrow> Inl TypeError)))))"

definition EC_check_product_availability :: "string \<Rightarrow> session \<Rightarrow> json \<times> session" where
  "EC_check_product_availability sku s =
     (case EC_get_tracking_headers (environ s) of (h, e) \<Rightarrow>
      case exchange (GET (api_base @ ''/product-core/v1/pdp/sku/'' @ sku) h)
             (s\<lparr>environ := e\<rparr>) of
        (Fault, s1) \<Rightarrow> (JNull, s1)
      | (Reply status_code body, s1) \<Rightarrow>
          if status_code = 200 then
            (case body of
               Inl x \<Rightarrow> (JNull, s1)
             | Inr product_data \<Rightarrow>
                 (case with_available_sizes product_data of
                    Inl x \<Rightarrow> (JNull, s1)
                  | Inr result \<Rightarrow> (result, s1)))
          else (JNull, s1))"

definition EC_add_to_cart_real :: "string \<Rightarrow> string \<Rightarrow> int \<Rightarrow> session \<Rightarrow> json \<times> session" where
  "EC_add_to_cart_real sku sz quantity s =
     (case EC_get_tracking_headers (environ s) of (h, e) \<Rightarrow>
      case exchange
             (POST (api_base @ ''/carts-experience/carts-experience-service/site/fl/cart/add'')
                   (dict_update h
                      [(''accept'', ''application/json''),
                       (''content-type'', ''application/json''),
                       (''x-api-lang'', ''en-US''),
                       (''x-api-simulation'', ''undefined'')])
                   (JDict
                      [(''productCode'', JStr sku),
                       (''quantity'', JNum quantity),
                       (''size'', JStr sz),
                       (''fulfillmentType'', JStr ''JC'')]))
             (s\<lparr>environ := e\<rparr>) of
        (Fault, s1) \<Rightarrow> (JDict [], s1)
      | (Reply status_code body, s1) \<Rightarrow>
          if status_code = 200 \<or> status_code = 201 then
            (case body of
               Inl x \<Rightarrow> (JDict [], s1)
             | Inr cart_data \<Rightarrow>
                 (case dict_get cart_data ''cartId'' JNull of
                    Inl x \<Rightarrow> (JDict [], s1)
                  | Inr cid \<Rightarrow> (cart_data, s1\<lparr>cart_id := cid\<rparr>)))
          else (JDict [], s1))"

definition EC_get_cart_status :: "session \<Rightarrow> json \<times> session" where
  "EC_get_cart_status s =
     (case EC_get_tracking_headers (environ s) of (h, e) \<Rightarrow>
      case exchange
             (GET (api_base @ ''/carts-experience/carts-experience-service/site/fl/cart/getUpdatedCart'')
                  (dict_update h
                     [(''accept'', ''application/json''),
                      (''accept-language'', ''undefined''),
                      (''x-api-lang'', ''en-US''),
                      (''x-api-simulation'', ''undefined''),
                      (''referer'', ''https://www.footlocker.com/checkout'')]))
             (s\<lparr>environ := e\<rparr>) of
        (Fault, s1) \<Rightarrow> (JNull, s1)
      | (Reply status_code body, s1) \<Rightarrow>
          if status_code = 200 then
            (case body of
               Inl x \<Rightarrow> (JNull, s1)
             | Inr cart_data \<Rightarrow>
                 (case dict_get cart_data ''cartId'' JNull of
                    Inl x \<Rightarrow> (JNull, s1)
                  | Inr cid \<Rightarrow>
                      (case and_then (dict_get cart_data ''user'' (JDict []))
                              (\<lambda>user_info. dict_get user_info ''id'' JNull) of
                         Inl x \<Rightarrow> (JNull, s1\<lparr>cart_id := cid\<rparr>)
                       | Inr gid \<Rightarrow>
                           (case formatted_total cart_data of
                              Inl x \<Rightarrow> (JNull, s1\<lparr>cart_id := cid, guest_id := gid\<rparr>)
                            | Inr amount \<Rightarrow>
                                (cart_data, s1\<lparr>cart_id := cid, guest_id := gid\<rparr>)))))
          else (JNull, s1))"

text \<open>The payload of \<open>set_shipping_address\<close>; a missing key raises.\<close>

definition EC_address_payload :: "json \<Rightarrow> exn + json" where
  "EC_address_payload shipping_info =
     and_then (subscript shipping_info ''firstName'') (\<lambda>firstName.
     and_then (subscript shipping_info ''lastName'') (\<lambda>lastName.
     and_then (subscript shipping_info ''address1'') (\<lambda>line1.
     and_then (dict_get shipping_info ''address2'' (JStr [])) (\<lambda>line2.
     and_then (subscript shipping_info ''city'') (\<lambda>town.
     and_then (subscript shipping_info ''state'') (\<lambda>region.
     and_then (subscript shipping_info ''zipCode'') (\<lambda>postalCode.
     and_then (subscript shipping_info ''country'') (\<lambda>country.
     and_then (subscript shipping_info ''phone'') (\<lambda>phone.
     and_then (subscript shipping_info ''email'') (\<lambda>email.
       Inr (JDict
         [(''shippingAddress'',
             JDict
               [(''firstName'', firstName),
                (''lastName'', lastName),
                (''line1'', line1),
                (''line2'', line2),
                (''town'', town),
                (''region'', JDict [(''isocode'', region)]),
                (''postalCode'', postalCode),
                (''country'', JDict [(''isocode'', country)]),
                (''phone'', phone),
                (''email'', email)])])))))))))))"

definition EC_set_shipping_address :: "json \<Rightarrow> session \<Rightarrow> bool \<times> session" where
  "EC_set_shipping_address shipping_info s =
     (case EC_get_tracking_headers (environ s) of (h, e) \<Rightarrow>
      case EC_address_payload shipping_info of
        Inl x \<Rightarrow> (False, s\<lparr>environ := e\<rparr>)
      | Inr address_payload \<Rightarrow>
          (case exchange
                  (POST (api_base @ ''/carts-experience/carts-experience-service/site/fl/cart/setShippingAddress'')
                        (dict_update h
                           [(''accept'', ''application/json''),
                            (''content-type'', ''application/json''),
                            (''x-api-lang'', ''en-US''),
                            (''referer'', ''https://www.footlocker.com/checkout'')])
                        address_payload)
                  (s\<lparr>environ := e\<rparr>) of
             (Fault, s1) \<Rightarrow> (False, s1)
           | (Reply status_code body, s1) \<Rightarrow> (status_code = 200, s1)))"

definition EC_quick_add_and_checkout :: "string \<Rightarrow> string \<Rightarrow> session \<Rightarrow> bool \<times> session" where
  "EC_quick_add_and_checkout product_key sz s =
     (case map_of PRODUCTS product_key of
        None \<Rightarrow> (False, s)
      | Some product_info \<Rightarrow>
          (case EC_check_product_availability (p_sku product_info) s of (product_data, s1) \<Rightarrow>
           if \<not> truthy product_data then (False, s1)
           else
             case EC_add_to_cart_real (p_sku product_info) sz 1 s1 of (cart_result, s2) \<Rightarrow>
             if \<not> truthy cart_result then (False, s2)
             else
               case EC_get_cart_status s2 of (cart_status, s3) \<Rightarrow>
               if \<not> truthy cart_status then (False, s3)
               else
                 case EC_set_shipping_address SHIPPING_INFO s3 of (r4, s4) \<Rightarrow>
                 if \<not> r4 then (False, s4) else (True, s4)))"

section \<open>order\_placer.py: FootlockerOrderPlacer\<close>

definition OP_get_tracking_headers :: "env \<Rightarrow> headers \<times> env" where
  "OP_get_tracking_headers e0 =
     (case time_ms e0 of (t, e1) \<Rightarrow>
      case hex 8 e1 of (r1, e2) \<Rightarrow>
      case hex 4 e2 of (r2, e3) \<Rightarrow>
      case hex 4 e3 of (r3, e4) \<Rightarrow>
      case hex 12 e4 of (r4, e5) \<Rightarrow>
      case hex 16 e5 of (nr_id, e6) \<Rightarrow>
      case hex 32 e6 of (nr_tr, e7) \<Rightarrow>
      case hex 32 e7 of (tp_trace, e8) \<Rightarrow>
      case hex 16 e8 of (tp_span, e9) \<Rightarrow>
      case hex 16 e9 of (ts_span, e10) \<Rightarrow>
      case hex 32 e10 of (cd_id, e11) \<Rightarrow>
        ([(''newrelic'',
             ''{\"v\":[0,1],\"d\":{\"ty\":\"Browser\",\"ac\":\"2684125\",\"ap\":\"655559411\",\"id\":\"''
             @ nr_id @ ''\",\"tr\":\"'' @ nr_tr @ ''\",\"ti\":'' @ str_int t
             @ '',\"tk\":\"3671077\"}}''),
          (''priority'', ''u=1, i''),
          (''traceparent'', ''00-'' @ tp_trace @ ''-'' @ tp_span @ ''-01''),
          (''tracestate'',
             ''3671077@nr=0-1-2684125-655559411-'' @ ts_span @ ''-\"\"--'' @ str_int t),
          (''x-api-lang'', ''en-US''),
          (''x-api-simulation'', ''undefined''),
          (''x-fl-request-id'', r1 @ ''-'' @ r2 @ ''-11f0-'' @ r3 @ ''-'' @ r4),
          (''x-kpsdk-cd'',
             ''{\"workTime\":'' @ str_int t @ '',\"id\":\"'' @ cd_id
             @ ''\",\"answers\":[9,7],\"duration\":98,\"d\":-439,\"st\":1751392861410,\"rst\":1751392860971}''),
          (''x-kpsdk-ct'', ak_bmsc_fl_com),
          (''x-kpsdk-v'', ''j-1.1.0'')],
         e11))"

definition OP_user_payload :: "json \<Rightarrow> exn + json" where
  "OP_user_payload user_info =
     and_then (dict_get user_info ''firstName'' JNull) (\<lambda>firstName.
     and_then (dict_get user_info ''lastName'' JNull) (\<lambda>lastName.
     and_then (dict_get user_info ''email'' JNull) (\<lambda>email.
     and_then (dict_get user_info ''phone'' JNull) (\<lambda>phone.
     and_then (dict_get user_info ''phoneCountry'' (JStr ''US'')) (\<lambda>phoneCountry.
       Inr (JDict
         [(''firstName'', firstName),
          (''lastName'', lastName),
          (''email'', email),
          (''phone'', phone),
          (''phoneCountry'', phoneCountry),
          (''payPalAlert'', JBool False)]))))))"

definition OP_submit_user_info :: "json \<Rightarrow> session \<Rightarrow> bool \<times> session" where
  "OP_submit_user_info user_info s =
     (case OP_get_tracking_headers (environ s) of (h, e) \<Rightarrow>
      case OP_user_payload user_info of
        Inl x \<Rightarrow> (False, s\<lparr>environ := e\<rparr>)
      | Inr payload \<Rightarrow>
          (case exchange
                  (POST (api_base @ ''/carts/co-cart-aggregation-service/site/fl/cart/userInfo'')
                        (dict_update h
                           [(''accept'', ''application/json''),
                            (''accept-language'', ''undefined'')])
                        payload)
                  (s\<lparr>environ := e\<rparr>) of
             (Fault, s1) \<Rightarrow> (False, s1)
           | (Reply status_code body, s1) \<Rightarrow> (status_code = 200, s1)))"

definition OP_verification_payload :: "json \<Rightarrow> exn + json" where
  "OP_verification_payload address =
     and_then (dict_get address ''country'' (JStr ''US'')) (\<lambda>isocode.
     and_then (dict_get address ''country'' (JStr ''US'')) (\<lambda>country_name.
     and_then (dict_get address ''state'' JNull) (\<lambda>isocodeShort.
     and_then (dict_get address ''address1'' JNull) (\<lambda>line1.
     and_then (dict_get address ''address2'' (JStr [])) (\<lambda>line2.
     and_then (dict_get address ''zipCode'' JNull) (\<lambda>postalCode.
     and_then (dict_get address ''city'' JNull) (\<lambda>town.
       Inr (JDict
         [(''country'', JDict [(''isocode'', isocode), (''name'', country_name)]),
          (''region'', JDict [(''isocodeShort'', isocodeShort)]),
          (''line1'', line1),
          (''line2'', line2),
          (''postalCode'', postalCode),
          (''town'', town)]))))))))"

text \<open>
  What \<open>verify_shipping_address\<close> returns for a parsed answer: the first suggested
  address when the decision is \<open>Accepted\<close> and there are suggestions, the whole
  answer otherwise.
\<close>

definition verified_of :: "json \<Rightarrow> exn + json" where
  "verified_of verification_result =
     and_then (dict_get verification_result ''decision'' (JStr ''Unknown'')) (\<lambda>logged.
     and_then (dict_get verification_result ''decision'' JNull) (\<lambda>decision.
       if decision = JStr ''Accepted'' then
         and_then (dict_get verification_result ''suggestedAddresses'' (JList [])) (\<lambda>suggested.
           if truthy suggested then first_item suggested else Inr verification_result)
       else Inr verification_result))"

definition OP_verify_shipping_address :: "json \<Rightarrow> session \<Rightarrow> json \<times> session" where
  "OP_verify_shipping_address address s =
     (case OP_get_tracking_headers (environ s) of (h, e) \<Rightarrow>
      case OP_verification_payload address of
        Inl x \<Rightarrow> (JNull, s\<lparr>environ := e\<rparr>)
      | Inr payload \<Rightarrow>
          (case exchange
                  (POST (api_base @ ''/address-verification/v0/address/verification'')
                        (dict_update h
                           [(''x-functions-key'',
                               ''m663XzcEgqHJqzbq4JH6FrDIStLZh4FMUMAzXct09W6HAzFuozxPuA=='')])
                        payload)
                  (s\<lparr>environ := e\<rparr>) of
             (Fault, s1) \<Rightarrow> (JNull, s1)
           | (Reply status_code body, s1) \<Rightarrow>
               if status_code = 200 then
                 (case body of
                    Inl x \<Rightarrow> (JNull, s1)
                  | Inr verification_result \<Rightarrow>
                      (case verified_of verification_result of
                         Inl x \<Rightarrow> (JNull, s1)
                       | Inr verified \<Rightarrow> (verified, s1)))
               else (JNull, s1)))"

text \<open>\<open>config.SHIPPING_INFO.get(k)\<close>: the configuration is a dict.\<close>

definition config_get :: "string \<Rightarrow> json" where
  "config_get k = (case dict_get SHIPPING_INFO k JNull of Inl x \<Rightarrow> JNull | Inr v \<Rightarrow> v)"

definition OP_shipping_payload :: "json \<Rightarrow> exn + json" where
  "OP_shipping_payload verified_address =
     and_then (dict_get verified_address ''line1'' JNull) (\<lambda>line1.
     and_then (dict_get verified_address ''line2'' (JStr [])) (\<lambda>line2.
     and_then (dict_get verified_address ''town'' JNull) (\<lambda>town.
     and_then (dict_get verified_address ''region'' (JDict [])) (\<lambda>region.
     and_then (dict_get region ''isocodeShort'' JNull) (\<lambda>isocodeShort.
     and_then (dict_get verified_address ''postalCode'' JNull) (\<lambda>postalCode.
     and_then (dict_get verified_address ''country'' (JDict [])) (\<lambda>country.
     and_then (dict_get country ''isocode'' (JStr ''US'')) (\<lambda>isocode.
       Inr (JDict
         [(''shippingAddress'',
             JDict
               [(''firstName'', config_get ''firstName''),
                (''lastName'', config_get ''lastName''),
                (''line1'', line1),
                (''line2'', line2),
                (''town'', town),
                (''region'', JDict [(''isocodeShort'', isocodeShort)]),
                (''postalCode'', postalCode),
                (''country'', JDict [(''isocode'', isocode)]),
                (''phone'', config_get ''phone''),
                (''email'', config_get ''email''),
                (''shippingAddress'', JBool True)])])))))))))"

definition OP_set_shipping_address :: "json \<Rightarrow> session \<Rightarrow> bool \<times> session" where
  "OP_set_shipping_address verified_address s =
     (case OP_get_tracking_headers (environ s) of (h, e) \<Rightarrow>
      case OP_shipping_payload verified_address of
        Inl x \<Rightarrow> (False, s\<lparr>environ := e\<rparr>)
      | Inr payload \<Rightarrow>
          (case exchange
                  (POST (api_base @ ''/carts-experience/carts-experience-service/site/fl/cart/address'')
                        h payload)
                  (s\<lparr>environ := e\<rparr>) of
             (Fault, s1) \<Rightarrow> (False, s1)
           | (Reply status_code body, s1) \<Rightarrow> (status_code = 200, s1)))"

definition OP_get_updated_cart_with_shipping :: "session \<Rightarrow> json \<times> session" where
  "OP_get_updated_cart_with_shipping s =
     (case OP_get_tracking_headers (environ s) of (h, e) \<Rightarrow>
      case exchange
             (GET (api_base @ ''/carts/co-cart-aggregation-service/site/fl/cart/userInfo'')
                  (dict_update h
                     [(''accept'', ''application/json''),
                      (''accept-language'', ''undefined'')]))
             (s\<lparr>environ := e\<rparr>) of
        (Fault, s1) \<Rightarrow> (JNull, s1)
      | (Reply status_code body, s1) \<Rightarrow>
          if status_code = 200 then
            (case body of
               Inl x \<Rightarrow> (JNull, s1)
             | Inr cart_data \<Rightarrow> (cart_data, s1))
          else (JNull, s1))"

text \<open>
  The two placeholders: the payload is prepared, nothing is sent, and the fixed answer
  is returned.
\<close>

definition OP_payment_payload :: "json \<Rightarrow> exn + json" where
  "OP_payment_payload payment_info =
     and_then (dict_get payment_info ''paymentType'' (JStr ''CREDITCARD'')) (\<lambda>ptype.
     and_then (dict_get payment_info ''cardNumber'' JNull) (\<lambda>cardNumber.
     and_then (dict_get payment_info ''expiryMonth'' JNull) (\<lambda>expiryMonth.
     and_then (dict_get payment_info ''expiryYear'' JNull) (\<lambda>expiryYear.
     and_then (dict_get payment_info ''cvv'' JNull) (\<lambda>cvv.
     and_then (dict_get payment_info ''nameOnCard'' JNull) (\<lambda>nameOnCard.
     and_then (dict_get payment_info ''billingAddress'' (JDict [])) (\<lambda>billingAddress.
       Inr (JDict
         [(''paymentMethod'',
             JDict
               [(''type'', ptype),
                (''cardNumber'', cardNumber),
                (''expiryMonth'', expiryMonth),
                (''expiryYear'', expiryYear),
                (''cvv'', cvv),
                (''nameOnCard'', nameOnCard)]),
          (''billingAddress'', billingAddress)]))))))))"

definition OP_submit_payment_info :: "json \<Rightarrow> session \<Rightarrow> bool \<times> session" where
  "OP_submit_payment_info payment_info s =
     (case OP_get_tracking_headers (environ s) of (h, e) \<Rightarrow>
      case OP_payment_payload payment_info of
        Inl x \<Rightarrow> (False, s\<lparr>environ := e\<rparr>)
      | Inr payload \<Rightarrow> (True, s\<lparr>environ := e\<rparr>))"

definition OP_place_final_order :: "session \<Rightarrow> json \<times> session" where
  "OP_place_final_order s =
     (case OP_get_tracking_headers (environ s) of (h, e) \<Rightarrow>
        (JDict
           [(''orderId'', JStr ''TEST-ORDER-12345''),
            (''status'', JStr ''TEST_MODE''),
            (''message'', JStr ''Order placement in test mode'')],
         s\<lparr>environ := e\<rparr>))"

definition OP_complete_order_flow :: "json \<Rightarrow> json \<Rightarrow> json \<Rightarrow> session \<Rightarrow> bool \<times> session" where
  "OP_complete_order_flow user_info shipping_address payment_info s =
     (case OP_submit_user_info user_info s of (r1, s1) \<Rightarrow>
      if \<not> r1 then (False, s1)
      else
        case OP_verify_shipping_address shipping_address s1 of (verified_address, s2) \<Rightarrow>
        if \<not> truthy verified_address then (False, s2)
        else
          case OP_set_shipping_address verified_address s2 of (r3, s3) \<Rightarrow>
          if \<not> r3 then (False, s3)
          else
            case OP_get_updated_cart_with_shipping s3 of (cart_data, s4) \<Rightarrow>
            if \<not> truthy cart_data then (False, s4)
            else
              case OP_submit_payment_info payment_info s4 of (r5, s5) \<Rightarrow>
              if \<not> r5 then (False, s5)
              else
                case OP_place_final_order s5 of (order_result, s6) \<Rightarrow>
                if \<not> truthy order_result then (False, s6) else (True, s6))"

section \<open>The orchestrator as the specification words it\<close>

text \<open>
  A stage takes the previous stage's result and the session and returns its own result
  and the session. The orchestrator runs the stages in the order of the list; it
  advances to the next stage only when the result of the current one counts as success
  (is truthy), and aborts with the session as the failing stage left it otherwise.
\<close>

type_synonym stage = "json \<Rightarrow> session \<Rightarrow> json \<times> session"

fun orchestrate :: "stage list \<Rightarrow> json \<Rightarrow> session \<Rightarrow> bool \<times> session" where
  "orchestrate [] v s = (True, s)"
| "orchestrate (e # es) v s =
     (case e v s of (r, s') \<Rightarrow> if truthy r then orchestrate es r s' else (False, s'))"

text \<open>An executor that returns a \<open>bool\<close>, as a stage.\<close>

definition as_stage :: "(session \<Rightarrow> bool \<times> session) \<Rightarrow> stage" where
  "as_stage f v s = (case f s of (ok, s') \<Rightarrow> (JBool ok, s'))"

section \<open>The identifier a sequence of answers leaves behind\<close>

text \<open>
  The cart id observed in a sequence of answers to cart requests, starting from a known
  one: each answer with status 200 whose body is a JSON object replaces it by its
  \<open>cartId\<close> field, \<open>None\<close> when the field is absent; any other answer leaves it.
\<close>

definition cart_id_after :: "json \<Rightarrow> reply \<Rightarrow> json" where
  "cart_id_after c r =
     (case r of
        Reply status_code (Inr (JDict kvs)) \<Rightarrow>
          if status_code = 200
          then (case map_of kvs ''cartId'' of None \<Rightarrow> JNull | Some v \<Rightarrow> v)
          else c
      | _ \<Rightarrow> c)"

definition observed_cart_id :: "json \<Rightarrow> reply list \<Rightarrow> json" where
  "observed_cart_id c rs = foldl cart_id_after c rs"

text \<open>
  The guest id after an answer to a request that reads the user: an answer with status
  200 whose body is a JSON object replaces it by the \<open>id\<close> of the answer's
  \<open>user\<close> object, \<open>None\<close> when the user or its id is absent; when \<open>user\<close> is not
  an object the read raises and the guest id stays, as it does for any other answer.
\<close>

definition guest_id_after :: "json \<Rightarrow> reply \<Rightarrow> json" where
  "guest_id_after g r =
     (case r of
        Reply status_code (Inr (JDict kvs)) \<Rightarrow>
          if status_code = 200
          then (case map_of kvs ''user'' of
                  None \<Rightarrow> JNull
                | Some (JDict u) \<Rightarrow> (case map_of u ''id'' of None \<Rightarrow> JNull | Some v \<Rightarrow> v)
                | Some other \<Rightarrow> g)
          else g
      | _ \<Rightarrow> g)"

section \<open>Answers with status 200\<close>

text \<open>Every exchange of a stretch of the trace was answered with status 200.\<close>

definition all_200 :: "(request \<times> reply) list \<Rightarrow> bool" where
  "all_200 t =
     list_all (\<lambda>x. case snd x of Reply status_code body \<Rightarrow> status_code = 200 | Fault \<Rightarrow> False) t"

section \<open>Sample inputs\<close>

text \<open>
  An environment for the examples: the draws count up from zero, the clock advances by
  one millisecond per reading. The user and the address are those of the script's
  \<open>main\<close>.
\<close>

definition sample_env :: env where
  "sample_env = \<lparr>rnd = (\<lambda>i. i), clock = (\<lambda>i. 1751414023124 + int i)\<rparr>"

definition sample_user_info :: json where
  "sample_user_info =
     JDict
       [(''firstName'', JStr ''kazmi''),
        (''lastName'', JStr ''shb''),
        (''email'', JStr ''domgyrgpt@gmail.com''),
        (''phone'', JStr ''9452060458''),
        (''phoneCountry'', JStr ''US'')]"

definition sample_shipping_address :: json where
  "sample_shipping_address =
     JDict
       [(''address1'', JStr ''1 Morris Rd''),
        (''address2'', JStr []),
        (''city'', JStr ''South Hill''),
        (''state'', JStr ''VA''),
        (''zipCode'', JStr ''23970-5627''),
        (''country'', JStr ''US'')]"

text \<open>
  Two answers of the address verification service: one that accepts the address and
  suggests its normalised form, one that rejects it.
\<close>

definition sample_suggestion :: json where
  "sample_suggestion =
     JDict
       [(''line1'', JStr ''1 MORRIS RD''),
        (''town'', JStr ''SOUTH HILL''),
        (''region'', JDict [(''isocodeShort'', JStr ''VA'')]),
        (''postalCode'', JStr ''23970-5627''),
        (''country'', JDict [(''isocode'', JStr ''US'')])]"

definition accepted_answer :: "(string \<times> json) list" where
  "accepted_answer =
     [(''decision'', JStr ''Accepted''),
      (''suggestedAddresses'', JList [sample_suggestion])]"

definition rejected_answer :: "(string \<times> json) list" where
  "rejected_answer = [(''decision'', JStr ''Rejected'')]"

text \<open>
  A product payload that reports no stock for size 04.5 and three pairs of size 05.0,
  and the answers of a run in which every request is answered with 200.
\<close>

definition zero_stock_product :: "(string \<times> json) list" where
  "zero_stock_product =
     [(''name'', JStr ''Jordan Air Jordan 5 Retro OG''),
      (''variantOptions'',
         JDict
           [(''size'',
               JList
                 [JDict [(''id'', JStr ''04.5''), (''stock'', JNum 0)],
                  JDict [(''id'', JStr ''05.0''), (''stock'', JNum 3)]])])]"

definition zero_stock_run :: session where
  "zero_stock_run =
     new_session
       [Reply 200 (Inr (JDict zero_stock_product)),
        Reply 200 (Inr (JDict [(''cartId'', JStr ''CART-1'')])),
        Reply 200
          (Inr (JDict [(''cartId'', JStr ''CART-1''), (''user'', JDict [(''id'', JStr ''GUEST-1'')])])),
        Reply 200 (Inr JNull)]
       sample_env"

section \<open>Properties\<close>

subsection \<open>Drawing from a source\<close>

lemma choices_draws:
  "choices seq n src =
     (map (\<lambda>i. seq ! (src i mod length seq)) [0..<n], \<lambda>i. src (i + n))"
proof (induction n arbitrary: src)
  case 0
  show ?case by simp
next
  case (Suc n)
  have "map (\<lambda>i. seq ! (src i mod length seq)) [0..<Suc n] =
        seq ! (src 0 mod length seq) # map (\<lambda>i. seq ! (src (Suc i) mod length seq)) [0..<n]"
    by (rule map_upt_Suc)
  then show ?case
    using Suc.IH [of "\<lambda>i. src (Suc i)"] by (simp add: choice_def del: upt_Suc)
qed

lemma generate_mock_encrypted_string_draws:
  "generate_mock_encrypted_string n src =
     (map (\<lambda>i. mock_chars ! (src i mod 65)) [0..<n], \<lambda>i. src (i + n))"
proof -
  have "length mock_chars = 65" by (simp add: mock_chars_def)
  then show ?thesis
    by (simp add: generate_mock_encrypted_string_def choices_draws)
qed

subsection \<open>The mock payment payload\<close>

text \<open>
  C10. For every \<open>card_data\<close>, the result of \<open>mock_encrypt_card_data\<close> does not
  depend on it: two calls on different card data with the same randomness source return
  the same payload, and each of the four fields is the fixed prefix
  \<open>adyenjs_0_1_25$MEEwEAYHKoZIzj0CAQYFK4EEACIDYgAE\<close> followed by 64 (card number) or
  32 (the others) characters of the 65-character alphabet, each picked by one draw of
  the source.
\<close>

theorem mock_encrypt_card_data_independent:
  "mock_encrypt_card_data c1 src = mock_encrypt_card_data c2 src \<and>
   fst (mock_encrypt_card_data c1 src) =
     JDict
       [(''encryptedCardNumber'',
           JStr (''adyenjs_0_1_25$MEEwEAYHKoZIzj0CAQYFK4EEACIDYgAE'' @
                 map (\<lambda>i. mock_chars ! (src i mod 65)) [0..<64])),
        (''encryptedExpiryMonth'',
           JStr (''adyenjs_0_1_25$MEEwEAYHKoZIzj0CAQYFK4EEACIDYgAE'' @
                 map (\<lambda>i. mock_chars ! (src (i + 64) mod 65)) [0..<32])),
        (''encryptedExpiryYear'',
           JStr (''adyenjs_0_1_25$MEEwEAYHKoZIzj0CAQYFK4EEACIDYgAE'' @
                 map (\<lambda>i. mock_chars ! (src (i + 96) mod 65)) [0..<32])),
        (''encryptedSecurityCode'',
           JStr (''adyenjs_0_1_25$MEEwEAYHKoZIzj0CAQYFK4EEACIDYgAE'' @
                 map (\<lambda>i. mock_chars ! (src (i + 128) mod 65)) [0..<32]))]"
proof
  show "mock_encrypt_card_data c1 src = mock_encrypt_card_data c2 src"
    by (simp add: mock_encrypt_card_data_def)
next
  show "fst (mock_encrypt_card_data c1 src) =
     JDict
       [(''encryptedCardNumber'',
           JStr (''adyenjs_0_1_25$MEEwEAYHKoZIzj0CAQYFK4EEACIDYgAE'' @
                 map (\<lambda>i. mock_chars ! (src i mod 65)) [0..<64])),
        (''encryptedExpiryMonth'',
           JStr (''adyenjs_0_1_25$MEEwEAYHKoZIzj0CAQYFK4EEACIDYgAE'' @
                 map (\<lambda>i. mock_chars ! (src (i + 64) mod 65)) [0..<32])),
        (''encryptedExpiryYear'',
           JStr (''adyenjs_0_1_25$MEEwEAYHKoZIzj0CAQYFK4EEACIDYgAE'' @
                 map (\<lambda>i. mock_chars ! (src (i + 96) mod 65)) [0..<32])),
        (''encryptedSecurityCode'',
           JStr (''adyenjs_0_1_25$MEEwEAYHKoZIzj0CAQYFK4EEACIDYgAE'' @
                 map (\<lambda>i. mock_chars ! (src (i + 128) mod 65)) [0..<32]))]"
    by (simp add: mock_encrypt_card_data_def generate_mock_encrypted_string_draws
        adyen_prefix_def add.commute add.left_commute del: upt.simps map_eq_conv)
qed

subsection \<open>Exchanges\<close>

lemma exchange_eq:
  "exchange rq s =
     (next_reply s, s\<lparr>replies := tl (replies s), trace := trace s @ [(rq, next_reply s)]\<rparr>)"
  by (simp add: exchange_def next_reply_def split: list.splits)

lemma next_reply_frame [simp]:
  "next_reply (s\<lparr>environ := e\<rparr>) = next_reply s"
  "next_reply (s\<lparr>cart_id := c\<rparr>) = next_reply s"
  "next_reply (s\<lparr>guest_id := g\<rparr>) = next_reply s"
  "next_reply (s\<lparr>trace := t\<rparr>) = next_reply s"
  by (simp_all add: next_reply_def)

lemma next_reply_replies [simp]:
  "next_reply (s\<lparr>replies := r # rs\<rparr>) = r"
  "next_reply (s\<lparr>replies := []\<rparr>) = Fault"
  by (simp_all add: next_reply_def)

text \<open>The generated headers and the environment left behind, as a pair.\<close>

lemma tracking_case:
  "case_prod f (FC_get_tracking_headers e) =
     f (fst (FC_get_tracking_headers e)) (snd (FC_get_tracking_headers e))"
  "case_prod f (EC_get_tracking_headers e) =
     f (fst (EC_get_tracking_headers e)) (snd (EC_get_tracking_headers e))"
  "case_prod f (OP_get_tracking_headers e) =
     f (fst (OP_get_tracking_headers e)) (snd (OP_get_tracking_headers e))"
  by (simp_all add: case_prod_beta)

lemmas FC_defs =
  FC_initialize_session_def FC_get_product_details_def FC_add_to_cart_def
  FC_get_updated_cart_def FC_checkout_as_guest_def FC_submit_shipping_info_def
  FC_submit_payment_info_def FC_place_order_def

lemmas EC_defs =
  EC_check_product_availability_def EC_add_to_cart_real_def EC_get_cart_status_def
  EC_set_shipping_address_def

lemmas OP_defs =
  OP_submit_user_info_def OP_verify_shipping_address_def OP_set_shipping_address_def
  OP_get_updated_cart_with_shipping_def OP_submit_payment_info_def OP_place_final_order_def

text \<open>The answer that comes after the one a lookup consumes.\<close>

lemma FC_lookup_frame:
  "next_reply (snd (FC_get_product_details sku s)) = next_reply (s\<lparr>replies := tl (replies s)\<rparr>)"
  "next_reply (snd (FC_get_updated_cart s)) = next_reply (s\<lparr>replies := tl (replies s)\<rparr>)"
  by (simp_all add: FC_get_product_details_def FC_get_updated_cart_def exchange_eq case_prod_beta
      next_reply_def split: reply.splits sum.splits)

subsection \<open>The flows are the orchestrator over their stages\<close>

lemma FC_flow_orchestrate:
  "FC_complete_checkout_flow sku sz shipping_info payment_info s =
     orchestrate
       [as_stage FC_initialize_session,
        as_stage (FC_add_to_cart sku sz 1),
        as_stage FC_checkout_as_guest,
        as_stage (FC_submit_shipping_info shipping_info),
        as_stage (FC_submit_payment_info payment_info),
        \<lambda>v. FC_place_order]
       JNull s"
  by (simp add: FC_complete_checkout_flow_def as_stage_def case_prod_beta)

lemma OP_flow_orchestrate:
  "OP_complete_order_flow user_info shipping_address payment_info s =
     orchestrate
       [as_stage (OP_submit_user_info user_info),
        \<lambda>v. OP_verify_shipping_address shipping_address,
        \<lambda>v. as_stage (OP_set_shipping_address v) v,
        \<lambda>v. OP_get_updated_cart_with_shipping,
        as_stage (OP_submit_payment_info payment_info),
        \<lambda>v. OP_place_final_order]
       JNull s"
  by (simp add: OP_complete_order_flow_def as_stage_def case_prod_beta)



subsection \<open>The placeholders of the order placer\<close>

lemma OP_payment_payload_dict: "\<exists>p. OP_payment_payload (JDict kvs) = Inr p"
  by (simp add: OP_payment_payload_def)

lemma OP_submit_payment_info_dict:
  "OP_submit_payment_info (JDict kvs) s =
     (True, s\<lparr>environ := snd (OP_get_tracking_headers (environ s))\<rparr>)"
  using OP_payment_payload_dict [of kvs]
  by (auto simp add: OP_submit_payment_info_def case_prod_beta)

lemma OP_place_final_order_eq:
  "OP_place_final_order s =
     (JDict
        [(''orderId'', JStr ''TEST-ORDER-12345''),
         (''status'', JStr ''TEST_MODE''),
         (''message'', JStr ''Order placement in test mode'')],
      s\<lparr>environ := snd (OP_get_tracking_headers (environ s))\<rparr>)"
  by (simp add: OP_place_final_order_def case_prod_beta)

text \<open>
  C9. For every payment dict, \<open>submit_payment_info\<close> of the order placer returns
  \<open>True\<close> and \<open>place_final_order\<close> returns the fixed dict with order id
  \<open>TEST-ORDER-12345\<close>; neither makes an exchange (the trace and the pending answers
  are untouched, only tracking headers are generated). So the outcome of
  \<open>complete_order_flow\<close> is the outcome of its first four steps, whatever the
  payment data.
\<close>

theorem OP_placeholders_always_succeed:
  "OP_submit_payment_info (JDict payment_info) s =
     (True, s\<lparr>environ := snd (OP_get_tracking_headers (environ s))\<rparr>)
   \<and> trace (snd (OP_submit_payment_info (JDict payment_info) s)) = trace s
   \<and> replies (snd (OP_submit_payment_info (JDict payment_info) s)) = replies s
   \<and> OP_place_final_order s =
     (JDict
        [(''orderId'', JStr ''TEST-ORDER-12345''),
         (''status'', JStr ''TEST_MODE''),
         (''message'', JStr ''Order placement in test mode'')],
      s\<lparr>environ := snd (OP_get_tracking_headers (environ s))\<rparr>)
   \<and> trace (snd (OP_place_final_order s)) = trace s
   \<and> replies (snd (OP_place_final_order s)) = replies s
   \<and> fst (OP_complete_order_flow user_info shipping_address (JDict payment_info) s) =
     fst (orchestrate
            [as_stage (OP_submit_user_info user_info),
             \<lambda>v. OP_verify_shipping_address shipping_address,
             \<lambda>v. as_stage (OP_set_shipping_address v) v,
             \<lambda>v. OP_get_updated_cart_with_shipping]
            JNull s)"
  by (simp add: OP_submit_payment_info_dict OP_place_final_order_eq OP_flow_orchestrate
      as_stage_def case_prod_beta)

subsection \<open>Faults and malformed bodies\<close>

lemma FC_fault:
  "fst (FC_initialize_session (s\<lparr>replies := Fault # rs\<rparr>)) = False"
  "fst (FC_get_product_details sku (s\<lparr>replies := Fault # rs\<rparr>)) = JNull"
  "fst (FC_add_to_cart sku sz q (s\<lparr>replies := Fault # rs\<rparr>)) = False"
  "fst (FC_add_to_cart sku sz q (s\<lparr>replies := r # Fault # rs\<rparr>)) = False"
  "fst (FC_get_updated_cart (s\<lparr>replies := Fault # rs\<rparr>)) = JNull"
  "fst (FC_checkout_as_guest (s\<lparr>replies := Fault # rs\<rparr>)) = False"
  "fst (FC_checkout_as_guest (s\<lparr>replies := r # Fault # rs\<rparr>)) = False"
  "fst (FC_submit_shipping_info shipping_info (s\<lparr>replies := Fault # rs\<rparr>)) = False"
  "fst (FC_submit_payment_info payment_info (s\<lparr>replies := Fault # rs\<rparr>)) = False"
  "fst (FC_place_order (s\<lparr>replies := Fault # rs\<rparr>)) = JNull"
  by (simp_all add: FC_defs exchange_eq case_prod_beta split: reply.splits sum.splits)

lemma FC_malformed:
  "fst (FC_get_product_details sku (s\<lparr>replies := Reply 200 (Inl x) # rs\<rparr>)) = JNull"
  "fst (FC_add_to_cart sku sz q (s\<lparr>replies := Reply 200 (Inl x) # rs\<rparr>)) = False"
  "fst (FC_add_to_cart sku sz q (s\<lparr>replies := r # Reply 200 (Inl x) # rs\<rparr>)) = False"
  "fst (FC_get_updated_cart (s\<lparr>replies := Reply 200 (Inl x) # rs\<rparr>)) = JNull"
  "fst (FC_checkout_as_guest (s\<lparr>replies := Reply 200 (Inl x) # rs\<rparr>)) = False"
  "fst (FC_checkout_as_guest (s\<lparr>replies := r # Reply 200 (Inl x) # rs\<rparr>)) = False"
  "fst (FC_place_order (s\<lparr>replies := Reply 200 (Inl x) # rs\<rparr>)) = JNull"
  by (simp_all add: FC_defs exchange_eq case_prod_beta split: reply.splits sum.splits)

lemma OP_fault:
  "fst (OP_submit_user_info user_info (s\<lparr>replies := Fault # rs\<rparr>)) = False"
  "fst (OP_verify_shipping_address address (s\<lparr>replies := Fault # rs\<rparr>)) = JNull"
  "fst (OP_set_shipping_address verified_address (s\<lparr>replies := Fault # rs\<rparr>)) = False"
  "fst (OP_get_updated_cart_with_shipping (s\<lparr>replies := Fault # rs\<rparr>)) = JNull"
  by (simp_all add: OP_defs exchange_eq case_prod_beta split: reply.splits sum.splits)

lemma OP_malformed:
  "fst (OP_verify_shipping_address address (s\<lparr>replies := Reply 200 (Inl x) # rs\<rparr>)) = JNull"
  "fst (OP_get_updated_cart_with_shipping (s\<lparr>replies := Reply 200 (Inl x) # rs\<rparr>)) = JNull"
  by (simp_all add: OP_defs exchange_eq case_prod_beta split: reply.splits sum.splits)

lemma EC_fault:
  "fst (EC_check_product_availability sku (s\<lparr>replies := Fault # rs\<rparr>)) = JNull"
  "fst (EC_add_to_cart_real sku sz q (s\<lparr>replies := Fault # rs\<rparr>)) = JDict []"
  "fst (EC_get_cart_status (s\<lparr>replies := Fault # rs\<rparr>)) = JNull"
  "fst (EC_set_shipping_address shipping_info (s\<lparr>replies := Fault # rs\<rparr>)) = False"
  "fst (IC_check_product_availability sku (s\<lparr>replies := Fault # rs\<rparr>)) = (JNull, [])"
  by (simp_all add: EC_defs IC_check_product_availability_def exchange_eq case_prod_beta split: reply.splits sum.splits)

lemma EC_malformed:
  "fst (EC_check_product_availability sku (s\<lparr>replies := Reply 200 (Inl x) # rs\<rparr>)) = JNull"
  "fst (EC_add_to_cart_real sku sz q (s\<lparr>replies := Reply 200 (Inl x) # rs\<rparr>)) = JDict []"
  "fst (EC_get_cart_status (s\<lparr>replies := Reply 200 (Inl x) # rs\<rparr>)) = JNull"
  "fst (IC_check_product_availability sku (s\<lparr>replies := Reply 200 (Inl x) # rs\<rparr>)) = (JNull, [])"
  by (simp_all add: EC_defs IC_check_product_availability_def exchange_eq case_prod_beta split: reply.splits sum.splits)

lemma FC_rejected:
  "fst (FC_initialize_session (s\<lparr>replies := Reply c b # rs\<rparr>)) = (c = 200)"
  "fst (FC_get_product_details sku (s\<lparr>replies := Reply c b # rs\<rparr>)) =
     (if c = 200 then fst (FC_get_product_details sku (s\<lparr>replies := Reply 200 b # rs\<rparr>)) else JNull)"
  "fst (FC_add_to_cart sku sz q (s\<lparr>replies := Reply c b # rs\<rparr>)) =
     (if c = 200 then fst (FC_add_to_cart sku sz q (s\<lparr>replies := Reply 200 b # rs\<rparr>)) else False)"
  "fst (FC_get_updated_cart (s\<lparr>replies := Reply c b # rs\<rparr>)) =
     (if c = 200 then fst (FC_get_updated_cart (s\<lparr>replies := Reply 200 b # rs\<rparr>)) else JNull)"
  "fst (FC_checkout_as_guest (s\<lparr>replies := Reply c b # rs\<rparr>)) =
     (if c = 200 then fst (FC_checkout_as_guest (s\<lparr>replies := Reply 200 b # rs\<rparr>)) else False)"
  "fst (FC_submit_shipping_info shipping_info (s\<lparr>replies := Reply c b # rs\<rparr>)) = (c = 200)"
  "fst (FC_submit_payment_info payment_info (s\<lparr>replies := Reply c b # rs\<rparr>)) = (c = 200)"
  "fst (FC_place_order (s\<lparr>replies := Reply c b # rs\<rparr>)) =
     (if c = 200 then fst (FC_place_order (s\<lparr>replies := Reply 200 b # rs\<rparr>)) else JNull)"
  by (cases "c = 200"; simp add: FC_defs exchange_eq case_prod_beta)+

lemma OP_rejected:
  "fst (OP_submit_user_info user_info (s\<lparr>replies := Reply c b # rs\<rparr>)) =
     (case OP_user_payload user_info of Inl x \<Rightarrow> False | Inr p \<Rightarrow> c = 200)"
  "fst (OP_verify_shipping_address address (s\<lparr>replies := Reply c b # rs\<rparr>)) =
     (if c = 200 then fst (OP_verify_shipping_address address (s\<lparr>replies := Reply 200 b # rs\<rparr>))
      else JNull)"
  "fst (OP_set_shipping_address verified_address (s\<lparr>replies := Reply c b # rs\<rparr>)) =
     (case OP_shipping_payload verified_address of Inl x \<Rightarrow> False | Inr p \<Rightarrow> c = 200)"
  "fst (OP_get_updated_cart_with_shipping (s\<lparr>replies := Reply c b # rs\<rparr>)) =
     (if c = 200 then fst (OP_get_updated_cart_with_shipping (s\<lparr>replies := Reply 200 b # rs\<rparr>))
      else JNull)"
  by (cases "c = 200"; simp add: OP_defs exchange_eq case_prod_beta split: sum.splits)+

lemma EC_rejected:
  "fst (EC_check_product_availability sku (s\<lparr>replies := Reply c b # rs\<rparr>)) =
     (if c = 200 then fst (EC_check_product_availability sku (s\<lparr>replies := Reply 200 b # rs\<rparr>))
      else JNull)"
  "fst (EC_add_to_cart_real sku sz q (s\<lparr>replies := Reply c b # rs\<rparr>)) =
     (if c = 200 \<or> c = 201
      then fst (EC_add_to_cart_real sku sz q (s\<lparr>replies := Reply 200 b # rs\<rparr>))
      else JDict [])"
  "fst (EC_get_cart_status (s\<lparr>replies := Reply c b # rs\<rparr>)) =
     (if c = 200 then fst (EC_get_cart_status (s\<lparr>replies := Reply 200 b # rs\<rparr>)) else JNull)"
  "fst (EC_set_shipping_address shipping_info (s\<lparr>replies := Reply c b # rs\<rparr>)) =
     (case EC_address_payload shipping_info of Inl x \<Rightarrow> False | Inr p \<Rightarrow> c = 200)"
  "fst (fst (IC_check_product_availability sku (s\<lparr>replies := Reply c b # rs\<rparr>))) =
     (if c = 200
      then fst (fst (IC_check_product_availability sku (s\<lparr>replies := Reply 200 b # rs\<rparr>)))
      else JNull)"
  by (cases "c = 200"; cases "c = 201";
      simp add: EC_defs IC_check_product_availability_def exchange_eq case_prod_beta
        split: sum.splits)+

text \<open>
  C6, as stated, fails: a fault is not returned as a failure of its own kind. When the
  exchange faults, \<open>submit_user_info\<close> and \<open>initialize_session\<close> return
  \<open>False\<close>, the very value they return for a 500; the result has no kind.
\<close>

theorem transport_error_counterexample:
  "fst (OP_submit_user_info sample_user_info (new_session [Fault] sample_env)) = False
   \<and> fst (OP_submit_user_info sample_user_info
            (new_session [Reply 500 (Inl JSONDecodeError)] sample_env)) = False
   \<and> fst (FC_initialize_session (new_session [Fault] sample_env)) = False
   \<and> fst (FC_initialize_session (new_session [Reply 500 (Inl JSONDecodeError)] sample_env)) = False"
  by (simp add: OP_submit_user_info_def OP_user_payload_def sample_user_info_def
      FC_initialize_session_def exchange_def new_session_def tracking_case)

text \<open>
  C6, amended. Every executor of FootlockerCheckout, EnhancedFootlockerCheckout and the
  order placer, and \<open>check_product_availability\<close> of ImprovedFootlockerCheckout,
  returns a value, whatever the exchange does. When the exchange faults (timeout, connection reset), and when
  \<open>response.json()\<close> raises on the body of a 200 answer in an executor that parses
  it, the executor's handler returns the executor's failure value (\<open>False\<close>,
  \<open>None\<close>, or \<open>{}\<close> for \<open>add_to_cart_real\<close>). That value carries no HTTP
  status and no failure kind: it is the value the executor returns for every status
  other than 200 (200 and 201 for \<open>add_to_cart_real\<close>) as well. For the executors
  that make two exchanges the fault may be at either of them. The executors that never
  parse the body (\<open>initialize_session\<close>, \<open>submit_shipping_info\<close>,
  \<open>submit_payment_info\<close>, \<open>submit_user_info\<close>, both
  \<open>set_shipping_address\<close>) judge by the status alone.
\<close>

theorem executors_return_failure_on_faults:
  "fst (FC_initialize_session (s\<lparr>replies := Fault # rs\<rparr>)) = False
   \<and> fst (FC_get_product_details sku (s\<lparr>replies := Fault # rs\<rparr>)) = JNull
   \<and> fst (FC_add_to_cart sku sz q (s\<lparr>replies := Fault # rs\<rparr>)) = False
   \<and> fst (FC_add_to_cart sku sz q (s\<lparr>replies := r # Fault # rs\<rparr>)) = False
   \<and> fst (FC_get_updated_cart (s\<lparr>replies := Fault # rs\<rparr>)) = JNull
   \<and> fst (FC_checkout_as_guest (s\<lparr>replies := Fault # rs\<rparr>)) = False
   \<and> fst (FC_checkout_as_guest (s\<lparr>replies := r # Fault # rs\<rparr>)) = False
   \<and> fst (FC_submit_shipping_info shipping_info (s\<lparr>replies := Fault # rs\<rparr>)) = False
   \<and> fst (FC_submit_payment_info payment_info (s\<lparr>replies := Fault # rs\<rparr>)) = False
   \<and> fst (FC_place_order (s\<lparr>replies := Fault # rs\<rparr>)) = JNull
   \<and> fst (FC_get_product_details sku (s\<lparr>replies := Reply 200 (Inl x) # rs\<rparr>)) = JNull
   \<and> fst (FC_add_to_cart sku sz q (s\<lparr>replies := Reply 200 (Inl x) # rs\<rparr>)) = False
   \<and> fst (FC_add_to_cart sku sz q (s\<lparr>replies := r # Reply 200 (Inl x) # rs\<rparr>)) = False
   \<and> fst (FC_get_updated_cart (s\<lparr>replies := Reply 200 (Inl x) # rs\<rparr>)) = JNull
   \<and> fst (FC_checkout_as_guest (s\<lparr>replies := Reply 200 (Inl x) # rs\<rparr>)) = False
   \<and> fst (FC_checkout_as_guest (s\<lparr>replies := r # Reply 200 (Inl x) # rs\<rparr>)) = False
   \<and> fst (FC_place_order (s\<lparr>replies := Reply 200 (Inl x) # rs\<rparr>)) = JNull
   \<and> fst (OP_submit_user_info user_info (s\<lparr>replies := Fault # rs\<rparr>)) = False
   \<and> fst (OP_verify_shipping_address address (s\<lparr>replies := Fault # rs\<rparr>)) = JNull
   \<and> fst (OP_set_shipping_address verified_address (s\<lparr>replies := Fault # rs\<rparr>)) = False
   \<and> fst (OP_get_updated_cart_with_shipping (s\<lparr>replies := Fault # rs\<rparr>)) = JNull
   \<and> fst (OP_verify_shipping_address address (s\<lparr>replies := Reply 200 (Inl x) # rs\<rparr>)) = JNull
   \<and> fst (OP_get_updated_cart_with_shipping (s\<lparr>replies := Reply 200 (Inl x) # rs\<rparr>)) = JNull
   \<and> fst (EC_check_product_availability sku (s\<lparr>replies := Fault # rs\<rparr>)) = JNull
   \<and> fst (EC_add_to_cart_real sku sz q (s\<lparr>replies := Fault # rs\<rparr>)) = JDict []
   \<and> fst (EC_get_cart_status (s\<lparr>replies := Fault # rs\<rparr>)) = JNull
   \<and> fst (EC_set_shipping_address shipping_info (s\<lparr>replies := Fault # rs\<rparr>)) = False
   \<and> fst (IC_check_product_availability sku (s\<lparr>replies := Fault # rs\<rparr>)) = (JNull, [])
   \<and> fst (EC_check_product_availability sku (s\<lparr>replies := Reply 200 (Inl x) # rs\<rparr>)) = JNull
   \<and> fst (EC_add_to_cart_real sku sz q (s\<lparr>replies := Reply 200 (Inl x) # rs\<rparr>)) = JDict []
   \<and> fst (EC_get_cart_status (s\<lparr>replies := Reply 200 (Inl x) # rs\<rparr>)) = JNull
   \<and> fst (IC_check_product_availability sku (s\<lparr>replies := Reply 200 (Inl x) # rs\<rparr>)) = (JNull, [])
   \<and> fst (FC_initialize_session (s\<lparr>replies := Reply c b # rs\<rparr>)) = (c = 200)
   \<and> fst (FC_get_product_details sku (s\<lparr>replies := Reply c b # rs\<rparr>)) =
        (if c = 200 then fst (FC_get_product_details sku (s\<lparr>replies := Reply 200 b # rs\<rparr>)) else JNull)
   \<and> fst (FC_add_to_cart sku sz q (s\<lparr>replies := Reply c b # rs\<rparr>)) =
        (if c = 200 then fst (FC_add_to_cart sku sz q (s\<lparr>replies := Reply 200 b # rs\<rparr>)) else False)
   \<and> fst (FC_get_updated_cart (s\<lparr>replies := Reply c b # rs\<rparr>)) =
        (if c = 200 then fst (FC_get_updated_cart (s\<lparr>replies := Reply 200 b # rs\<rparr>)) else JNull)
   \<and> fst (FC_checkout_as_guest (s\<lparr>replies := Reply c b # rs\<rparr>)) =
        (if c = 200 then fst (FC_checkout_as_guest (s\<lparr>replies := Reply 200 b # rs\<rparr>)) else False)
   \<and> fst (FC_submit_shipping_info shipping_info (s\<lparr>replies := Reply c b # rs\<rparr>)) = (c = 200)
   \<and> fst (FC_submit_payment_info payment_info (s\<lparr>replies := Reply c b # rs\<rparr>)) = (c = 200)
   \<and> fst (FC_place_order (s\<lparr>replies := Reply c b # rs\<rparr>)) =
        (if c = 200 then fst (FC_place_order (s\<lparr>replies := Reply 200 b # rs\<rparr>)) else JNull)
   \<and> fst (OP_submit_user_info user_info (s\<lparr>replies := Reply c b # rs\<rparr>)) =
        (case OP_user_payload user_info of Inl x \<Rightarrow> False | Inr p \<Rightarrow> c = 200)
   \<and> fst (OP_verify_shipping_address address (s\<lparr>replies := Reply c b # rs\<rparr>)) =
        (if c = 200 then fst (OP_verify_shipping_address address (s\<lparr>replies := Reply 200 b # rs\<rparr>))
         else JNull)
   \<and> fst (OP_set_shipping_address verified_address (s\<lparr>replies := Reply c b # rs\<rparr>)) =
        (case OP_shipping_payload verified_address of Inl x \<Rightarrow> False | Inr p \<Rightarrow> c = 200)
   \<and> fst (OP_get_updated_cart_with_shipping (s\<lparr>replies := Reply c b # rs\<rparr>)) =
        (if c = 200 then fst (OP_get_updated_cart_with_shipping (s\<lparr>replies := Reply 200 b # rs\<rparr>))
         else JNull)
   \<and> fst (EC_check_product_availability sku (s\<lparr>replies := Reply c b # rs\<rparr>)) =
        (if c = 200 then fst (EC_check_product_availability sku (s\<lparr>replies := Reply 200 b # rs\<rparr>))
         else JNull)
   \<and> fst (EC_add_to_cart_real sku sz q (s\<lparr>replies := Reply c b # rs\<rparr>)) =
        (if c = 200 \<or> c = 201
         then fst (EC_add_to_cart_real sku sz q (s\<lparr>replies := Reply 200 b # rs\<rparr>))
         else JDict [])
   \<and> fst (EC_get_cart_status (s\<lparr>replies := Reply c b # rs\<rparr>)) =
        (if c = 200 then fst (EC_get_cart_status (s\<lparr>replies := Reply 200 b # rs\<rparr>)) else JNull)
   \<and> fst (EC_set_shipping_address shipping_info (s\<lparr>replies := Reply c b # rs\<rparr>)) =
        (case EC_address_payload shipping_info of Inl x \<Rightarrow> False | Inr p \<Rightarrow> c = 200)
   \<and> fst (fst (IC_check_product_availability sku (s\<lparr>replies := Reply c b # rs\<rparr>))) =
        (if c = 200
         then fst (fst (IC_check_product_availability sku (s\<lparr>replies := Reply 200 b # rs\<rparr>)))
         else JNull)"
  by (intro conjI)
     (rule FC_fault FC_malformed OP_fault OP_malformed EC_fault EC_malformed
        FC_rejected OP_rejected EC_rejected)+

subsection \<open>Exchanges per executor\<close>

lemma FC_counts:
  "length (trace (snd (FC_initialize_session s))) = length (trace s) + 1"
  "length (trace (snd (FC_get_product_details sku s))) = length (trace s) + 1"
  "length (trace (snd (FC_get_updated_cart s))) = length (trace s) + 1"
  "length (trace (snd (FC_submit_shipping_info shipping_info s))) = length (trace s) + 1"
  "length (trace (snd (FC_submit_payment_info payment_info s))) = length (trace s) + 1"
  "length (trace (snd (FC_place_order s))) = length (trace s) + 1"
  by (simp_all add: FC_defs exchange_eq case_prod_beta split: reply.splits sum.splits)

lemma FC_add_to_cart_count:
  "length (trace (snd (FC_add_to_cart sku sz q s))) =
     length (trace s) + (if truthy (fst (FC_get_product_details sku s)) then 2 else 1)"
  by (simp add: FC_add_to_cart_def exchange_eq case_prod_beta FC_counts
      split: reply.splits sum.splits)

lemma FC_checkout_as_guest_count:
  "length (trace (snd (FC_checkout_as_guest s))) =
     length (trace s) + (if truthy (fst (FC_get_updated_cart s)) then 2 else 1)"
  by (simp add: FC_checkout_as_guest_def exchange_eq case_prod_beta FC_counts
      split: reply.splits sum.splits)

lemma OP_counts:
  "length (trace (snd (OP_submit_user_info user_info s))) =
     length (trace s) + (case OP_user_payload user_info of Inl x \<Rightarrow> 0 | Inr p \<Rightarrow> 1)"
  "length (trace (snd (OP_verify_shipping_address address s))) =
     length (trace s) + (case OP_verification_payload address of Inl x \<Rightarrow> 0 | Inr p \<Rightarrow> 1)"
  "length (trace (snd (OP_set_shipping_address verified_address s))) =
     length (trace s) + (case OP_shipping_payload verified_address of Inl x \<Rightarrow> 0 | Inr p \<Rightarrow> 1)"
  "length (trace (snd (OP_get_updated_cart_with_shipping s))) = length (trace s) + 1"
  "length (trace (snd (OP_submit_payment_info payment_info s))) = length (trace s)"
  "length (trace (snd (OP_place_final_order s))) = length (trace s)"
  by (simp_all add: OP_defs exchange_eq case_prod_beta split: reply.splits sum.splits)

lemma EC_counts:
  "length (trace (snd (EC_check_product_availability sku s))) = length (trace s) + 1"
  "length (trace (snd (EC_add_to_cart_real sku sz q s))) = length (trace s) + 1"
  "length (trace (snd (EC_get_cart_status s))) = length (trace s) + 1"
  "length (trace (snd (EC_set_shipping_address shipping_info s))) =
     length (trace s) + (case EC_address_payload shipping_info of Inl x \<Rightarrow> 0 | Inr p \<Rightarrow> 1)"
  "length (trace (snd (IC_check_product_availability sku s))) = length (trace s) + 1"
  by (simp_all add: EC_defs IC_check_product_availability_def exchange_eq case_prod_beta
      split: reply.splits sum.splits)

text \<open>
  C8, as stated, fails: \<open>add_to_cart\<close> of FootlockerCheckout looks the product up
  and then posts to the cart, two exchanges; \<open>submit_payment_info\<close> of the order
  placer makes none.
\<close>

theorem exactly_one_exchange_counterexample:
  "length (trace (snd (FC_add_to_cart ''H7980100'' ''04.5'' 1
       (new_session
          [Reply 200 (Inr (JDict [(''name'', JStr ''Jordan Air Jordan 5 Retro OG'')])),
           Reply 200 (Inr (JDict [(''cartId'', JStr ''CART-1'')]))]
          sample_env)))) = 2
   \<and> length (trace (snd (OP_submit_payment_info PAYMENT_INFO (new_session [] sample_env)))) = 0"
  by (simp add: FC_add_to_cart_def FC_get_product_details_def OP_submit_payment_info_def
      OP_payment_payload_def PAYMENT_INFO_def exchange_def new_session_def tracking_case)

text \<open>
  C8, amended. Every executor makes at most two exchanges per invocation. The executors
  with a single call make exactly one, unless building the payload raises, in which case
  they make none; \<open>add_to_cart\<close> and \<open>checkout_as_guest\<close> of FootlockerCheckout
  make one exchange when their preliminary lookup fails and two otherwise;
  \<open>submit_payment_info\<close> and \<open>place_final_order\<close> of the order placer make none.
\<close>

theorem exchanges_per_executor:
  "length (trace (snd (FC_initialize_session s))) = length (trace s) + 1
   \<and> length (trace (snd (FC_get_product_details sku s))) = length (trace s) + 1
   \<and> length (trace (snd (FC_get_updated_cart s))) = length (trace s) + 1
   \<and> length (trace (snd (FC_submit_shipping_info shipping_info s))) = length (trace s) + 1
   \<and> length (trace (snd (FC_submit_payment_info payment_info s))) = length (trace s) + 1
   \<and> length (trace (snd (FC_place_order s))) = length (trace s) + 1
   \<and> length (trace (snd (FC_add_to_cart sku sz q s))) =
        length (trace s) + (if truthy (fst (FC_get_product_details sku s)) then 2 else 1)
   \<and> length (trace (snd (FC_checkout_as_guest s))) =
        length (trace s) + (if truthy (fst (FC_get_updated_cart s)) then 2 else 1)
   \<and> length (trace (snd (OP_submit_user_info user_info s))) =
        length (trace s) + (case OP_user_payload user_info of Inl x \<Rightarrow> 0 | Inr p \<Rightarrow> 1)
   \<and> length (trace (snd (OP_verify_shipping_address address s))) =
        length (trace s) + (case OP_verification_payload address of Inl x \<Rightarrow> 0 | Inr p \<Rightarrow> 1)
   \<and> length (trace (snd (OP_set_shipping_address verified_address s))) =
        length (trace s) + (case OP_shipping_payload verified_address of Inl x \<Rightarrow> 0 | Inr p \<Rightarrow> 1)
   \<and> length (trace (snd (OP_get_updated_cart_with_shipping s))) = length (trace s) + 1
   \<and> length (trace (snd (OP_submit_payment_info payment_info s))) = length (trace s)
   \<and> length (trace (snd (OP_place_final_order s))) = length (trace s)
   \<and> length (trace (snd (EC_check_product_availability sku s))) = length (trace s) + 1
   \<and> length (trace (snd (EC_add_to_cart_real sku sz q s))) = length (trace s) + 1
   \<and> length (trace (snd (EC_get_cart_status s))) = length (trace s) + 1
   \<and> length (trace (snd (EC_set_shipping_address shipping_info s))) =
        length (trace s) + (case EC_address_payload shipping_info of Inl x \<Rightarrow> 0 | Inr p \<Rightarrow> 1)
   \<and> length (trace (snd (IC_check_product_availability sku s))) = length (trace s) + 1"
  by (simp add: FC_counts FC_add_to_cart_count FC_checkout_as_guest_count OP_counts EC_counts)

subsection \<open>The stored cart id\<close>

lemma take_Suc_tl: "take (Suc k) rs = take 1 rs @ take k (tl rs)"
  by (cases rs) simp_all

lemma observed_cart_id_take_Suc:
  "observed_cart_id c (take (Suc k) rs) =
     observed_cart_id (observed_cart_id c (take 1 rs)) (take k (tl rs))"
  unfolding observed_cart_id_def take_Suc_tl [of k rs] by (simp only: foldl_append)

lemma next_reply_cases:
  "(replies s = [] \<and> next_reply s = Fault) \<or> (\<exists>rs. replies s = next_reply s # rs)"
  by (cases "replies s") (simp_all add: next_reply_def)

lemma observed_one:
  "observed_cart_id c (take 1 (replies s)) = cart_id_after c (next_reply s)"
  using next_reply_cases [of s]
  by (auto simp add: observed_cart_id_def cart_id_after_def)

lemma dict_get_cases:
  "dict_get v k d = (case v of JDict kvs \<Rightarrow> Inr (case map_of kvs k of None \<Rightarrow> d | Some x \<Rightarrow> x)
                     | _ \<Rightarrow> Inl AttributeError)"
  by (cases v) simp_all

lemma FC_get_updated_cart_step:
  "cart_id (snd (FC_get_updated_cart s)) = cart_id_after (cart_id s) (next_reply s)"
  "replies (snd (FC_get_updated_cart s)) = tl (replies s)"
  by (simp_all add: FC_get_updated_cart_def exchange_eq case_prod_beta cart_id_after_def
      dict_get_cases split: reply.splits sum.splits json.splits)

lemma EC_get_cart_status_step:
  "cart_id (snd (EC_get_cart_status s)) = cart_id_after (cart_id s) (next_reply s)"
  "replies (snd (EC_get_cart_status s)) = tl (replies s)"
  by (simp_all add: EC_get_cart_status_def exchange_eq case_prod_beta cart_id_after_def
      dict_get_cases split: reply.splits sum.splits json.splits)

lemma FC_get_updated_cart_iterated:
  "cart_id (((\<lambda>s. snd (FC_get_updated_cart s)) ^^ k) s) =
     observed_cart_id (cart_id s) (take k (replies s))"
proof (induction k arbitrary: s)
  case 0
  show ?case by (simp add: observed_cart_id_def)
next
  case (Suc k)
  show ?case
    by (simp only: funpow_Suc_right o_apply Suc.IH FC_get_updated_cart_step
        observed_cart_id_take_Suc observed_one)
qed

lemma EC_get_cart_status_iterated:
  "cart_id (((\<lambda>s. snd (EC_get_cart_status s)) ^^ k) s) =
     observed_cart_id (cart_id s) (take k (replies s))"
proof (induction k arbitrary: s)
  case 0
  show ?case by (simp add: observed_cart_id_def)
next
  case (Suc k)
  show ?case
    by (simp only: funpow_Suc_right o_apply Suc.IH EC_get_cart_status_step
        observed_cart_id_take_Suc observed_one)
qed

lemma cart_id_unchanged:
  "cart_id (snd (FC_initialize_session s)) = cart_id s"
  "cart_id (snd (FC_get_product_details sku s)) = cart_id s"
  "cart_id (snd (FC_submit_shipping_info shipping_info s)) = cart_id s"
  "cart_id (snd (FC_submit_payment_info payment_info s)) = cart_id s"
  "cart_id (snd (FC_place_order s)) = cart_id s"
  "cart_id (snd (EC_check_product_availability sku s)) = cart_id s"
  "cart_id (snd (EC_set_shipping_address shipping_info s)) = cart_id s"
  "cart_id (snd (OP_submit_user_info user_info s)) = cart_id s"
  "cart_id (snd (OP_verify_shipping_address address s)) = cart_id s"
  "cart_id (snd (OP_set_shipping_address verified_address s)) = cart_id s"
  "cart_id (snd (OP_get_updated_cart_with_shipping s)) = cart_id s"
  "cart_id (snd (OP_submit_payment_info payment_info s)) = cart_id s"
  "cart_id (snd (OP_place_final_order s)) = cart_id s"
  "cart_id (snd (IC_check_product_availability sku s)) = cart_id s"
  by (simp_all add: FC_defs EC_defs OP_defs IC_check_product_availability_def exchange_eq
      case_prod_beta split: reply.splits sum.splits)

lemma cart_id_written:
  "cart_id (snd (FC_add_to_cart sku sz q s)) =
     (if truthy (fst (FC_get_product_details sku s))
      then cart_id_after (cart_id s) (next_reply (s\<lparr>replies := tl (replies s)\<rparr>))
      else cart_id s)"
  "cart_id (snd (FC_checkout_as_guest s)) = cart_id_after (cart_id s) (next_reply s)"
  "cart_id (snd (EC_add_to_cart_real sku sz q s)) =
     (case next_reply s of
        Reply status_code (Inr (JDict kvs)) \<Rightarrow>
          if status_code = 200 \<or> status_code = 201
          then (case map_of kvs ''cartId'' of None \<Rightarrow> JNull | Some v \<Rightarrow> v)
          else cart_id s
      | _ \<Rightarrow> cart_id s)"
proof -
  show "cart_id (snd (FC_add_to_cart sku sz q s)) =
     (if truthy (fst (FC_get_product_details sku s))
      then cart_id_after (cart_id s) (next_reply (s\<lparr>replies := tl (replies s)\<rparr>))
      else cart_id s)"
    by (simp add: FC_add_to_cart_def exchange_eq case_prod_beta cart_id_unchanged FC_lookup_frame
        cart_id_after_def dict_get_cases split: reply.splits sum.splits json.splits)
  show "cart_id (snd (FC_checkout_as_guest s)) = cart_id_after (cart_id s) (next_reply s)"
    by (simp add: FC_checkout_as_guest_def exchange_eq case_prod_beta FC_get_updated_cart_step
        split: reply.splits sum.splits)
  show "cart_id (snd (EC_add_to_cart_real sku sz q s)) =
     (case next_reply s of
        Reply status_code (Inr (JDict kvs)) \<Rightarrow>
          if status_code = 200 \<or> status_code = 201
          then (case map_of kvs ''cartId'' of None \<Rightarrow> JNull | Some v \<Rightarrow> v)
          else cart_id s
      | _ \<Rightarrow> cart_id s)"
    by (simp add: EC_add_to_cart_real_def exchange_eq case_prod_beta dict_get_cases
        split: reply.splits sum.splits json.splits)
qed

lemma guest_id_unchanged:
  "guest_id (snd (FC_initialize_session s)) = guest_id s"
  "guest_id (snd (FC_get_product_details sku s)) = guest_id s"
  "guest_id (snd (FC_add_to_cart sku sz q s)) = guest_id s"
  "guest_id (snd (FC_get_updated_cart s)) = guest_id s"
  "guest_id (snd (FC_submit_shipping_info shipping_info s)) = guest_id s"
  "guest_id (snd (FC_submit_payment_info payment_info s)) = guest_id s"
  "guest_id (snd (FC_place_order s)) = guest_id s"
  "guest_id (snd (EC_check_product_availability sku s)) = guest_id s"
  "guest_id (snd (EC_add_to_cart_real sku sz q s)) = guest_id s"
  "guest_id (snd (EC_set_shipping_address shipping_info s)) = guest_id s"
  "guest_id (snd (OP_submit_user_info user_info s)) = guest_id s"
  "guest_id (snd (OP_verify_shipping_address address s)) = guest_id s"
  "guest_id (snd (OP_set_shipping_address verified_address s)) = guest_id s"
  "guest_id (snd (OP_get_updated_cart_with_shipping s)) = guest_id s"
  "guest_id (snd (OP_submit_payment_info payment_info s)) = guest_id s"
  "guest_id (snd (OP_place_final_order s)) = guest_id s"
  "guest_id (snd (IC_check_product_availability sku s)) = guest_id s"
  by (simp_all add: FC_defs EC_defs OP_defs IC_check_product_availability_def exchange_eq
      case_prod_beta split: reply.splits sum.splits)

lemma guest_id_written:
  "guest_id (snd (FC_checkout_as_guest s)) =
     (if truthy (fst (FC_get_updated_cart s))
      then guest_id_after (guest_id s) (next_reply (s\<lparr>replies := tl (replies s)\<rparr>))
      else guest_id s)"
  "guest_id (snd (EC_get_cart_status s)) = guest_id_after (guest_id s) (next_reply s)"
proof -
  show "guest_id (snd (FC_checkout_as_guest s)) =
     (if truthy (fst (FC_get_updated_cart s))
      then guest_id_after (guest_id s) (next_reply (s\<lparr>replies := tl (replies s)\<rparr>))
      else guest_id s)"
    by (simp add: FC_checkout_as_guest_def exchange_eq case_prod_beta guest_id_unchanged
        FC_lookup_frame guest_id_after_def dict_get_cases
        split: reply.splits sum.splits json.splits option.splits)
  show "guest_id (snd (EC_get_cart_status s)) = guest_id_after (guest_id s) (next_reply s)"
    by (simp add: EC_get_cart_status_def exchange_eq case_prod_beta guest_id_after_def
        dict_get_cases split: reply.splits sum.splits json.splits option.splits)
qed

text \<open>
  C3, as stated, fails: the executors assign \<open>cart_data.get('cartId')\<close> to
  \<open>cart_id\<close> unconditionally. After \<open>add_to_cart\<close> has stored \<open>CART-1\<close>, an
  answer to \<open>get_updated_cart\<close> without the field erases it.
\<close>

theorem cart_id_erased_counterexample:
  "cart_id (snd (FC_add_to_cart ''H7980100'' ''04.5'' 1
       (new_session
          [Reply 200 (Inr (JDict [(''name'', JStr ''Jordan Air Jordan 5 Retro OG'')])),
           Reply 200 (Inr (JDict [(''cartId'', JStr ''CART-1'')])),
           Reply 200 (Inr (JDict [(''totalUnitCount'', JNum 1)]))]
          sample_env))) = JStr ''CART-1''
   \<and> cart_id (snd (FC_get_updated_cart (snd (FC_add_to_cart ''H7980100'' ''04.5'' 1
       (new_session
          [Reply 200 (Inr (JDict [(''name'', JStr ''Jordan Air Jordan 5 Retro OG'')])),
           Reply 200 (Inr (JDict [(''cartId'', JStr ''CART-1'')])),
           Reply 200 (Inr (JDict [(''totalUnitCount'', JNum 1)]))]
          sample_env))))) = JNull"
  by (simp add: FC_add_to_cart_def FC_get_product_details_def FC_get_updated_cart_def
      formatted_total_def exchange_def new_session_def tracking_case)

text \<open>
  C3, amended. The last answer wins, null included. Among the executors of
  FootlockerCheckout, EnhancedFootlockerCheckout and the order placer, those that read a
  cart from an answer are \<open>get_updated_cart\<close>, \<open>checkout_as_guest\<close> (in its first
  exchange) and \<open>add_to_cart\<close> (in its second exchange, made when the product
  lookup succeeded) of FootlockerCheckout, and \<open>get_cart_status\<close> and
  \<open>add_to_cart_real\<close> of EnhancedFootlockerCheckout. After such an exchange the
  stored \<open>cart_id\<close> is the \<open>cartId\<close> field of the answer, \<open>None\<close> when
  the field is null or absent, if the answer has status 200 (200 or 201 for
  \<open>add_to_cart_real\<close>) and a JSON object as body; with any other answer it is
  unchanged. No other executor of these classes and no other exchange changes
  \<open>cart_id\<close>. So after
  \<open>k\<close> successive calls of \<open>get_updated_cart\<close>, or of \<open>get_cart_status\<close>,
  the stored \<open>cart_id\<close> is the field of the last of the first \<open>k\<close> answers that
  had status 200 and an object as body, and the initial one when there was none.
  Likewise \<open>guest_id\<close> is written only by \<open>get_cart_status\<close> and by the second
  exchange of \<open>checkout_as_guest\<close>, from the \<open>id\<close> of the answer's \<open>user\<close>
  object, \<open>None\<close> when the user or its id is absent.
\<close>

theorem cart_id_is_latest_answer:
  "cart_id (snd (FC_get_updated_cart s)) = cart_id_after (cart_id s) (next_reply s)
   \<and> cart_id (snd (EC_get_cart_status s)) = cart_id_after (cart_id s) (next_reply s)
   \<and> cart_id (snd (FC_add_to_cart sku sz q s)) =
        (if truthy (fst (FC_get_product_details sku s))
         then cart_id_after (cart_id s) (next_reply (s\<lparr>replies := tl (replies s)\<rparr>))
         else cart_id s)
   \<and> cart_id (snd (FC_checkout_as_guest s)) = cart_id_after (cart_id s) (next_reply s)
   \<and> cart_id (snd (EC_add_to_cart_real sku sz q s)) =
        (case next_reply s of
           Reply status_code (Inr (JDict kvs)) \<Rightarrow>
             if status_code = 200 \<or> status_code = 201
             then (case map_of kvs ''cartId'' of None \<Rightarrow> JNull | Some v \<Rightarrow> v)
             else cart_id s
         | _ \<Rightarrow> cart_id s)
   \<and> cart_id (snd (FC_initialize_session s)) = cart_id s
   \<and> cart_id (snd (FC_get_product_details sku s)) = cart_id s
   \<and> cart_id (snd (FC_submit_shipping_info shipping_info s)) = cart_id s
   \<and> cart_id (snd (FC_submit_payment_info payment_info s)) = cart_id s
   \<and> cart_id (snd (FC_place_order s)) = cart_id s
   \<and> cart_id (snd (EC_check_product_availability sku s)) = cart_id s
   \<and> cart_id (snd (EC_set_shipping_address shipping_info s)) = cart_id s
   \<and> cart_id (snd (OP_submit_user_info user_info s)) = cart_id s
   \<and> cart_id (snd (OP_verify_shipping_address address s)) = cart_id s
   \<and> cart_id (snd (OP_set_shipping_address verified_address s)) = cart_id s
   \<and> cart_id (snd (OP_get_updated_cart_with_shipping s)) = cart_id s
   \<and> cart_id (snd (OP_submit_payment_info payment_info s)) = cart_id s
   \<and> cart_id (snd (OP_place_final_order s)) = cart_id s
   \<and> cart_id (snd (IC_check_product_availability sku s)) = cart_id s
   \<and> cart_id (((\<lambda>s. snd (FC_get_updated_cart s)) ^^ k) s) =
        observed_cart_id (cart_id s) (take k (replies s))
   \<and> cart_id (((\<lambda>s. snd (EC_get_cart_status s)) ^^ k) s) =
        observed_cart_id (cart_id s) (take k (replies s))
   \<and> guest_id (snd (FC_checkout_as_guest s)) =
        (if truthy (fst (FC_get_updated_cart s))
         then guest_id_after (guest_id s) (next_reply (s\<lparr>replies := tl (replies s)\<rparr>))
         else guest_id s)
   \<and> guest_id (snd (EC_get_cart_status s)) = guest_id_after (guest_id s) (next_reply s)
   \<and> guest_id (snd (FC_initialize_session s)) = guest_id s
   \<and> guest_id (snd (FC_get_product_details sku s)) = guest_id s
   \<and> guest_id (snd (FC_add_to_cart sku sz q s)) = guest_id s
   \<and> guest_id (snd (FC_get_updated_cart s)) = guest_id s
   \<and> guest_id (snd (FC_submit_shipping_info shipping_info s)) = guest_id s
   \<and> guest_id (snd (FC_submit_payment_info payment_info s)) = guest_id s
   \<and> guest_id (snd (FC_place_order s)) = guest_id s
   \<and> guest_id (snd (EC_check_product_availability sku s)) = guest_id s
   \<and> guest_id (snd (EC_add_to_cart_real sku sz q s)) = guest_id s
   \<and> guest_id (snd (EC_set_shipping_address shipping_info s)) = guest_id s
   \<and> guest_id (snd (OP_submit_user_info user_info s)) = guest_id s
   \<and> guest_id (snd (OP_verify_shipping_address address s)) = guest_id s
   \<and> guest_id (snd (OP_set_shipping_address verified_address s)) = guest_id s
   \<and> guest_id (snd (OP_get_updated_cart_with_shipping s)) = guest_id s
   \<and> guest_id (snd (OP_submit_payment_info payment_info s)) = guest_id s
   \<and> guest_id (snd (OP_place_final_order s)) = guest_id s
   \<and> guest_id (snd (IC_check_product_availability sku s)) = guest_id s"
  by (intro conjI)
     (rule FC_get_updated_cart_step EC_get_cart_status_step cart_id_written cart_id_unchanged
        FC_get_updated_cart_iterated EC_get_cart_status_iterated guest_id_written
        guest_id_unchanged)+

subsection \<open>The address handed to the cart\<close>

lemma OP_traces:
  "trace (snd (OP_submit_user_info user_info s)) =
     (case OP_user_payload user_info of
        Inl x \<Rightarrow> trace s
      | Inr p \<Rightarrow>
          trace s @
          [(POST (api_base @ ''/carts/co-cart-aggregation-service/site/fl/cart/userInfo'')
              (dict_update (fst (OP_get_tracking_headers (environ s)))
                 [(''accept'', ''application/json''), (''accept-language'', ''undefined'')])
              p,
            next_reply s)])"
  "trace (snd (OP_verify_shipping_address address s)) =
     (case OP_verification_payload address of
        Inl x \<Rightarrow> trace s
      | Inr p \<Rightarrow>
          trace s @
          [(POST (api_base @ ''/address-verification/v0/address/verification'')
              (dict_update (fst (OP_get_tracking_headers (environ s)))
                 [(''x-functions-key'',
                     ''m663XzcEgqHJqzbq4JH6FrDIStLZh4FMUMAzXct09W6HAzFuozxPuA=='')])
              p,
            next_reply s)])"
  "trace (snd (OP_set_shipping_address verified_address s)) =
     (case OP_shipping_payload verified_address of
        Inl x \<Rightarrow> trace s
      | Inr p \<Rightarrow>
          trace s @
          [(POST (api_base @ ''/carts-experience/carts-experience-service/site/fl/cart/address'')
              (fst (OP_get_tracking_headers (environ s))) p,
            next_reply s)])"
  "trace (snd (OP_get_updated_cart_with_shipping s)) =
     trace s @
     [(GET (api_base @ ''/carts/co-cart-aggregation-service/site/fl/cart/userInfo'')
         (dict_update (fst (OP_get_tracking_headers (environ s)))
            [(''accept'', ''application/json''), (''accept-language'', ''undefined'')]),
       next_reply s)]"
  "trace (snd (OP_submit_payment_info payment_info s)) = trace s"
  "trace (snd (OP_place_final_order s)) = trace s"
  by (simp_all add: OP_defs exchange_eq case_prod_beta split: reply.splits sum.splits)

lemma OP_verify_result:
  "fst (OP_verify_shipping_address address s) =
     (case OP_verification_payload address of
        Inl x \<Rightarrow> JNull
      | Inr p \<Rightarrow>
          (case next_reply s of
             Reply status_code (Inr verification_result) \<Rightarrow>
               if status_code = 200
               then (case verified_of verification_result of Inl x \<Rightarrow> JNull | Inr v \<Rightarrow> v)
               else JNull
           | _ \<Rightarrow> JNull))"
  by (simp add: OP_verify_shipping_address_def exchange_eq case_prod_beta
      split: reply.splits sum.splits)

lemma OP_verify_next_reply:
  "next_reply (snd (OP_verify_shipping_address address s)) =
     (case OP_verification_payload address of
        Inl x \<Rightarrow> next_reply s
      | Inr p \<Rightarrow> next_reply (s\<lparr>replies := tl (replies s)\<rparr>))"
  by (simp add: OP_verify_shipping_address_def exchange_eq case_prod_beta next_reply_def
      split: reply.splits sum.splits)

lemma OP_submit_user_info_ok:
  "fst (OP_submit_user_info user_info s) \<Longrightarrow>
     length (trace (snd (OP_submit_user_info user_info s))) = Suc (length (trace s))"
  by (simp add: OP_submit_user_info_def exchange_eq case_prod_beta
      split: reply.splits sum.splits)

lemma verified_of_dict:
  "verified_of (JDict kvs) =
     (if map_of kvs ''decision'' = Some (JStr ''Accepted'') \<and>
         truthy (case map_of kvs ''suggestedAddresses'' of None \<Rightarrow> JList [] | Some x \<Rightarrow> x)
      then first_item (case map_of kvs ''suggestedAddresses'' of None \<Rightarrow> JList [] | Some x \<Rightarrow> x)
      else Inr (JDict kvs))"
  by (auto simp add: verified_of_def split: option.splits)

lemma OP_flow_third_exchange:
  assumes contact: "fst (OP_submit_user_info user_info s)"
    and answer: "next_reply (snd (OP_submit_user_info user_info s)) = Reply 200 (Inr (JDict kvs))"
    and address: "OP_verification_payload shipping_address = Inr q"
    and verified: "verified_of (JDict kvs) = Inr v"
    and "truthy v"
    and payload: "OP_shipping_payload v = Inr p"
  shows "\<exists>h r. trace (snd (OP_complete_order_flow user_info shipping_address payment_info s)) !
           (length (trace s) + 2) =
         (POST (api_base @ ''/carts-experience/carts-experience-service/site/fl/cart/address'') h p, r)"
proof -
  let ?s1 = "snd (OP_submit_user_info user_info s)"
  let ?s2 = "snd (OP_verify_shipping_address shipping_address ?s1)"
  let ?s3 = "snd (OP_set_shipping_address v ?s2)"
  have v: "fst (OP_verify_shipping_address shipping_address ?s1) = v"
    using answer address verified by (simp add: OP_verify_result)
  have len2: "length (trace ?s2) = length (trace s) + 2"
    using address OP_submit_user_info_ok [OF contact] by (simp add: OP_traces)
  have t3: "trace ?s3 = trace ?s2 @
      [(POST (api_base @ ''/carts-experience/carts-experience-service/site/fl/cart/address'')
          (fst (OP_get_tracking_headers (environ ?s2))) p, next_reply ?s2)]"
    using payload by (simp add: OP_traces)
  have "\<exists>t. trace (snd (OP_complete_order_flow user_info shipping_address payment_info s)) =
          trace ?s3 @ t"
    using contact v \<open>truthy v\<close>
    by (simp add: OP_complete_order_flow_def case_prod_beta OP_traces)
  then obtain t where "trace (snd (OP_complete_order_flow user_info shipping_address payment_info s)) =
          trace ?s3 @ t" ..
  then show ?thesis
    using len2 by (simp add: t3 nth_append)
qed


lemma OP_verification_payload_dict: "\<exists>q. OP_verification_payload (JDict a) = Inr q"
  by (simp add: OP_verification_payload_def)

lemma OP_verify_any_address:
  "fst (OP_verify_shipping_address (JDict a1) s) = fst (OP_verify_shipping_address (JDict a2) s)"
  using OP_verification_payload_dict [of a1] OP_verification_payload_dict [of a2]
  by (auto simp add: OP_verify_result)

lemmas OP_eval =
  OP_complete_order_flow_def OP_defs OP_user_payload_def OP_verification_payload_def
  OP_shipping_payload_def OP_payment_payload_def verified_of_def config_get_def
  SHIPPING_INFO_def PAYMENT_INFO_def sample_user_info_def sample_shipping_address_def
  sample_suggestion_def accepted_answer_def rejected_answer_def
  exchange_def new_session_def tracking_case api_base_def

lemma OP_flow_aborts_at_verification:
  assumes contact: "fst (OP_submit_user_info user_info s)"
    and falsy: "\<not> truthy (fst (OP_verify_shipping_address (JDict address)
                   (snd (OP_submit_user_info user_info s))))"
  shows "\<not> fst (OP_complete_order_flow user_info (JDict address) payment_info s) \<and>
         length (trace (snd (OP_complete_order_flow user_info (JDict address) payment_info s))) =
           length (trace s) + 2"
proof -
  obtain q where "OP_verification_payload (JDict address) = Inr q"
    using OP_verification_payload_dict by blast
  then show ?thesis
    using contact falsy OP_submit_user_info_ok [OF contact]
    by (simp add: OP_complete_order_flow_def case_prod_beta OP_traces)
qed

lemma OP_flow_aborts_at_payload:
  assumes contact: "fst (OP_submit_user_info user_info s)"
    and v: "fst (OP_verify_shipping_address (JDict address)
                   (snd (OP_submit_user_info user_info s))) = v"
    and "truthy v"
    and raises: "OP_shipping_payload v = Inl x"
  shows "\<not> fst (OP_complete_order_flow user_info (JDict address) payment_info s) \<and>
         length (trace (snd (OP_complete_order_flow user_info (JDict address) payment_info s))) =
           length (trace s) + 2"
proof -
  obtain q where "OP_verification_payload (JDict address) = Inr q"
    using OP_verification_payload_dict by blast
  moreover have "\<not> fst (OP_set_shipping_address v s')" for s'
    using raises by (simp add: OP_set_shipping_address_def case_prod_beta)
  ultimately show ?thesis
    using contact v \<open>truthy v\<close> raises OP_submit_user_info_ok [OF contact]
    by (simp add: OP_complete_order_flow_def case_prod_beta OP_traces)
qed

text \<open>
  C5, as stated, fails: with the decision \<open>Rejected\<close> the run does not abort.
  \<open>verify_shipping_address\<close> returns the verification answer itself, which is
  truthy, \<open>set_shipping_address\<close> is invoked with it (the third exchange posts to the
  cart's address endpoint, with the address fields the answer does not have sent as
  null), and the run ends in success.
\<close>

theorem rejected_address_counterexample:
  "fst (OP_complete_order_flow sample_user_info sample_shipping_address PAYMENT_INFO
         (new_session
            [Reply 200 (Inr JNull),
             Reply 200 (Inr (JDict rejected_answer)),
             Reply 200 (Inr JNull),
             Reply 200 (Inr (JDict [(''cartId'', JStr ''CART-1'')]))]
            sample_env)) = True
   \<and> map (\<lambda>x. req_url (fst x))
        (trace (snd (OP_complete_order_flow sample_user_info sample_shipping_address PAYMENT_INFO
           (new_session
              [Reply 200 (Inr JNull),
               Reply 200 (Inr (JDict rejected_answer)),
               Reply 200 (Inr JNull),
               Reply 200 (Inr (JDict [(''cartId'', JStr ''CART-1'')]))]
              sample_env)))) =
      [''https://www.footlocker.com/zgw/carts/co-cart-aggregation-service/site/fl/cart/userInfo'',
       ''https://www.footlocker.com/zgw/address-verification/v0/address/verification'',
       ''https://www.footlocker.com/zgw/carts-experience/carts-experience-service/site/fl/cart/address'',
       ''https://www.footlocker.com/zgw/carts/co-cart-aggregation-service/site/fl/cart/userInfo'']
   \<and> req_json (fst (trace (snd (OP_complete_order_flow sample_user_info sample_shipping_address PAYMENT_INFO
           (new_session
              [Reply 200 (Inr JNull),
               Reply 200 (Inr (JDict rejected_answer)),
               Reply 200 (Inr JNull),
               Reply 200 (Inr (JDict [(''cartId'', JStr ''CART-1'')]))]
              sample_env))) ! 2)) =
      JDict
        [(''shippingAddress'',
            JDict
              [(''firstName'', JStr ''John''),
               (''lastName'', JStr ''Doe''),
               (''line1'', JNull),
               (''line2'', JStr []),
               (''town'', JNull),
               (''region'', JDict [(''isocodeShort'', JNull)]),
               (''postalCode'', JNull),
               (''country'', JDict [(''isocode'', JStr ''US'')]),
               (''phone'', JStr ''555-123-4567''),
               (''email'', JStr ''john.doe@example.com''),
               (''shippingAddress'', JBool True)])]"
  by (simp add: OP_eval)

text \<open>
  C5, amended. In every run of \<open>complete_order_flow\<close> whose contact step succeeded
  and whose verification answer is a 200 with a JSON object \<open>kvs\<close>: the value that
  \<open>verify_shipping_address\<close> returns is the first item of the suggested addresses
  when the decision is \<open>Accepted\<close> and the suggestions are truthy (\<open>None\<close> when
  taking the first item raises), and the answer \<open>kvs\<close> itself in every other case,
  whatever the decision. When that value is truthy and the cart payload can be built
  from it, the next exchange of the run is the POST to the cart's address endpoint with
  the payload built from it: a decision other than \<open>Accepted\<close> does not fail the
  run. When the value is falsy (an empty answer, an empty first suggestion) or building
  the payload raises, the run returns \<open>False\<close> after the verification exchange, with
  no exchange for the address. The value is computed from the verification answer alone:
  any two address dicts passed by the caller give the same result, so the caller's
  address reaches the cart only in so far as the answer carries it.
\<close>

theorem OP_shipping_address_is_verification_result:
  assumes contact: "fst (OP_submit_user_info user_info s)"
    and answer: "next_reply (snd (OP_submit_user_info user_info s)) = Reply 200 (Inr (JDict kvs))"
  shows "verified_of (JDict kvs) =
           (if map_of kvs ''decision'' = Some (JStr ''Accepted'') \<and>
               truthy (case map_of kvs ''suggestedAddresses'' of None \<Rightarrow> JList [] | Some x \<Rightarrow> x)
            then first_item (case map_of kvs ''suggestedAddresses'' of None \<Rightarrow> JList [] | Some x \<Rightarrow> x)
            else Inr (JDict kvs))
     \<and> fst (OP_verify_shipping_address (JDict address) (snd (OP_submit_user_info user_info s))) =
         (case verified_of (JDict kvs) of Inl x \<Rightarrow> JNull | Inr v \<Rightarrow> v)
     \<and> (case verified_of (JDict kvs) of
           Inl x \<Rightarrow>
             \<not> fst (OP_complete_order_flow user_info (JDict address) payment_info s) \<and>
             length (trace (snd (OP_complete_order_flow user_info (JDict address) payment_info s))) =
               length (trace s) + 2
         | Inr v \<Rightarrow>
             if truthy v
             then (case OP_shipping_payload v of
                     Inl x \<Rightarrow>
                       \<not> fst (OP_complete_order_flow user_info (JDict address) payment_info s) \<and>
                       length (trace (snd (OP_complete_order_flow user_info (JDict address)
                                             payment_info s))) =
                         length (trace s) + 2
                   | Inr p \<Rightarrow>
                       \<exists>h r. trace (snd (OP_complete_order_flow user_info (JDict address)
                                            payment_info s)) ! (length (trace s) + 2) =
                             (POST (api_base @
                                ''/carts-experience/carts-experience-service/site/fl/cart/address'')
                                h p, r))
             else \<not> fst (OP_complete_order_flow user_info (JDict address) payment_info s) \<and>
                  length (trace (snd (OP_complete_order_flow user_info (JDict address)
                                        payment_info s))) =
                    length (trace s) + 2)
     \<and> fst (OP_verify_shipping_address (JDict address) s') =
         fst (OP_verify_shipping_address (JDict address') s')"
proof (intro conjI)
  show "verified_of (JDict kvs) =
           (if map_of kvs ''decision'' = Some (JStr ''Accepted'') \<and>
               truthy (case map_of kvs ''suggestedAddresses'' of None \<Rightarrow> JList [] | Some x \<Rightarrow> x)
            then first_item (case map_of kvs ''suggestedAddresses'' of None \<Rightarrow> JList [] | Some x \<Rightarrow> x)
            else Inr (JDict kvs))"
    by (rule verified_of_dict)
next
  obtain q where q: "OP_verification_payload (JDict address) = Inr q"
    using OP_verification_payload_dict by blast
  let ?s1 = "snd (OP_submit_user_info user_info s)"
  let ?flow = "OP_complete_order_flow user_info (JDict address) payment_info s"
  show result: "fst (OP_verify_shipping_address (JDict address) ?s1) =
         (case verified_of (JDict kvs) of Inl x \<Rightarrow> JNull | Inr v \<Rightarrow> v)"
    using q answer by (simp add: OP_verify_result)
  show "case verified_of (JDict kvs) of
           Inl x \<Rightarrow> \<not> fst ?flow \<and> length (trace (snd ?flow)) = length (trace s) + 2
         | Inr v \<Rightarrow>
             if truthy v
             then (case OP_shipping_payload v of
                     Inl x \<Rightarrow> \<not> fst ?flow \<and> length (trace (snd ?flow)) = length (trace s) + 2
                   | Inr p \<Rightarrow>
                       \<exists>h r. trace (snd ?flow) ! (length (trace s) + 2) =
                             (POST (api_base @
                                ''/carts-experience/carts-experience-service/site/fl/cart/address'')
                                h p, r))
             else \<not> fst ?flow \<and> length (trace (snd ?flow)) = length (trace s) + 2"
  proof (cases "verified_of (JDict kvs)")
    case (Inl x)
    with result have "\<not> truthy (fst (OP_verify_shipping_address (JDict address) ?s1))" by simp
    from OP_flow_aborts_at_verification [OF contact this] Inl show ?thesis by simp
  next
    case (Inr v)
    with result have v: "fst (OP_verify_shipping_address (JDict address) ?s1) = v" by simp
    show ?thesis
    proof (cases "truthy v")
      case False
      with v have "\<not> truthy (fst (OP_verify_shipping_address (JDict address) ?s1))" by simp
      from OP_flow_aborts_at_verification [OF contact this] Inr False show ?thesis by simp
    next
      case True
      show ?thesis
      proof (cases "OP_shipping_payload v")
        case (Inl x)
        from OP_flow_aborts_at_payload [OF contact v True Inl] Inr True Inl show ?thesis by simp
      next
        case p: (Inr p)
        from OP_flow_third_exchange [OF contact answer q Inr True p] Inr True p
        show ?thesis by simp
      qed
    qed
  qed
next
  show "fst (OP_verify_shipping_address (JDict address) s') =
         fst (OP_verify_shipping_address (JDict address') s')"
    by (rule OP_verify_any_address)
qed


theorem OP_shipping_address_is_verification_result_witness:
  "fst (OP_submit_user_info sample_user_info
          (new_session [Reply 200 (Inr JNull), Reply 200 (Inr (JDict accepted_answer))] sample_env))
   \<and> verified_of (JDict accepted_answer) = Inr sample_suggestion
   \<and> (\<exists>h r. trace (snd (OP_complete_order_flow sample_user_info sample_shipping_address PAYMENT_INFO
          (new_session [Reply 200 (Inr JNull), Reply 200 (Inr (JDict accepted_answer))] sample_env))) ! 2 =
        (POST ''https://www.footlocker.com/zgw/carts-experience/carts-experience-service/site/fl/cart/address'' h
           (JDict
              [(''shippingAddress'',
                  JDict
                    [(''firstName'', JStr ''John''),
                     (''lastName'', JStr ''Doe''),
                     (''line1'', JStr ''1 MORRIS RD''),
                     (''line2'', JStr []),
                     (''town'', JStr ''SOUTH HILL''),
                     (''region'', JDict [(''isocodeShort'', JStr ''VA'')]),
                     (''postalCode'', JStr ''23970-5627''),
                     (''country'', JDict [(''isocode'', JStr ''US'')]),
                     (''phone'', JStr ''555-123-4567''),
                     (''email'', JStr ''john.doe@example.com''),
                     (''shippingAddress'', JBool True)])]),
         r))"
proof -
  let ?s = "new_session [Reply 200 (Inr JNull), Reply 200 (Inr (JDict accepted_answer))] sample_env"
  let ?address = "[(''address1'', JStr ''1 Morris Rd''), (''address2'', JStr []),
               (''city'', JStr ''South Hill''), (''state'', JStr ''VA''),
               (''zipCode'', JStr ''23970-5627''), (''country'', JStr ''US'')]"
  let ?p = "JDict
              [(''shippingAddress'',
                  JDict
                    [(''firstName'', JStr ''John''),
                     (''lastName'', JStr ''Doe''),
                     (''line1'', JStr ''1 MORRIS RD''),
                     (''line2'', JStr []),
                     (''town'', JStr ''SOUTH HILL''),
                     (''region'', JDict [(''isocodeShort'', JStr ''VA'')]),
                     (''postalCode'', JStr ''23970-5627''),
                     (''country'', JDict [(''isocode'', JStr ''US'')]),
                     (''phone'', JStr ''555-123-4567''),
                     (''email'', JStr ''john.doe@example.com''),
                     (''shippingAddress'', JBool True)])]"
  have contact: "fst (OP_submit_user_info sample_user_info ?s)"
    by (simp add: OP_eval)
  have answer: "next_reply (snd (OP_submit_user_info sample_user_info ?s)) =
      Reply 200 (Inr (JDict accepted_answer))"
    by (simp add: OP_eval next_reply_def)
  have verified: "verified_of (JDict accepted_answer) = Inr sample_suggestion"
    by (simp add: verified_of_def accepted_answer_def)
  have truthy: "truthy sample_suggestion"
    by (simp add: sample_suggestion_def)
  have payload: "OP_shipping_payload sample_suggestion = Inr ?p"
    by (simp add: OP_shipping_payload_def sample_suggestion_def config_get_def SHIPPING_INFO_def)
  have tr: "length (trace ?s) + 2 = 2" by (simp add: new_session_def)
  have "\<exists>h r. trace (snd (OP_complete_order_flow sample_user_info (JDict ?address) PAYMENT_INFO ?s)) !
          (length (trace ?s) + 2) =
        (POST (api_base @ ''/carts-experience/carts-experience-service/site/fl/cart/address'') h ?p, r)"
    using OP_shipping_address_is_verification_result
      [where address = ?address and payment_info = PAYMENT_INFO and address' = "[]" and s' = ?s,
       OF contact answer]
    by (simp add: verified truthy payload)
  then show ?thesis
    using contact verified
    unfolding tr by (simp add: api_base_def sample_shipping_address_def)
qed

subsection \<open>Stock and the run\<close>

lemma EC_traces:
  "trace (snd (EC_check_product_availability sku s)) =
     trace s @
     [(GET (api_base @ ''/product-core/v1/pdp/sku/'' @ sku)
         (fst (EC_get_tracking_headers (environ s))),
       next_reply s)]"
  "trace (snd (EC_add_to_cart_real sku sz quantity s)) =
     trace s @
     [(POST (api_base @ ''/carts-experience/carts-experience-service/site/fl/cart/add'')
         (dict_update (fst (EC_get_tracking_headers (environ s)))
            [(''accept'', ''application/json''),
             (''content-type'', ''application/json''),
             (''x-api-lang'', ''en-US''),
             (''x-api-simulation'', ''undefined'')])
         (JDict
            [(''productCode'', JStr sku),
             (''quantity'', JNum quantity),
             (''size'', JStr sz),
             (''fulfillmentType'', JStr ''JC'')]),
       next_reply s)]"
  by (simp_all add: EC_defs exchange_eq case_prod_beta split: reply.splits sum.splits)

lemma EC_extends:
  "\<exists>t. trace (snd (EC_get_cart_status s)) = trace s @ t"
  "\<exists>t. trace (snd (EC_set_shipping_address shipping_info s)) = trace s @ t"
  by (simp_all add: EC_defs exchange_eq case_prod_beta split: reply.splits sum.splits)

lemma EC_check_result:
  "fst (EC_check_product_availability sku s) =
     (case next_reply s of
        Reply status_code (Inr product_data) \<Rightarrow>
          if status_code = 200
          then (case with_available_sizes product_data of Inl x \<Rightarrow> JNull | Inr result \<Rightarrow> result)
          else JNull
      | _ \<Rightarrow> JNull)"
  by (simp add: EC_check_product_availability_def exchange_eq case_prod_beta
      split: reply.splits sum.splits)

lemma and_then_Inr:
  "and_then x f = Inr y \<longleftrightarrow> (\<exists>a. x = Inr a \<and> f a = Inr y)"
  by (cases x) simp_all

lemma available_ids_positive:
  "available_ids entries = Inr ids \<Longrightarrow> i \<in> set ids \<Longrightarrow>
     \<exists>entry \<in> set entries.
       subscript entry ''id'' = Inr i \<and>
       and_then (dict_get entry ''stock'' (JNum 0)) gt_zero = Inr True"
proof (induction entries arbitrary: ids)
  case Nil
  then show ?case by simp
next
  case (Cons entry rest)
  from Cons.prems(1) obtain stock in_stock where
    stock: "dict_get entry ''stock'' (JNum 0) = Inr stock" and
    gt: "gt_zero stock = Inr in_stock" and
    body: "(if in_stock then
              and_then (subscript entry ''id'') (\<lambda>i.
              and_then (available_ids rest) (\<lambda>ids. Inr (i # ids)))
            else available_ids rest) = Inr ids"
    by (auto simp add: and_then_Inr)
  show ?case
  proof (cases in_stock)
    case False
    with body have "available_ids rest = Inr ids" by simp
    from Cons.IH [OF this Cons.prems(2)] show ?thesis by auto
  next
    case True
    with body obtain j ids' where
      j: "subscript entry ''id'' = Inr j" and rest: "available_ids rest = Inr ids'" and
      ids: "ids = j # ids'"
      by (auto simp add: and_then_Inr)
    show ?thesis
    proof (cases "i = j")
      case True
      with j stock gt \<open>in_stock\<close> show ?thesis by simp
    next
      case False
      with ids Cons.prems(2) have "i \<in> set ids'" by simp
      from Cons.IH [OF rest this] show ?thesis by auto
    qed
  qed
qed

lemma zero_stock_left_out:
  assumes "available_ids entries = Inr ids"
    and "\<forall>entry \<in> set entries. subscript entry ''id'' = Inr (JStr sz) \<longrightarrow>
           dict_get entry ''stock'' (JNum 0) = Inr (JNum 0)"
  shows "JStr sz \<notin> set ids"
proof
  assume "JStr sz \<in> set ids"
  from available_ids_positive [OF assms(1) this] obtain entry where
    "entry \<in> set entries" "subscript entry ''id'' = Inr (JStr sz)"
    "and_then (dict_get entry ''stock'' (JNum 0)) gt_zero = Inr True"
    by blast
  with assms(2) show False by auto
qed

lemma with_available_sizes_eq:
  assumes "map_of kvs ''variantOptions'' = Some (JDict options)"
    and "map_of options ''size'' = Some (JList entries)"
    and "available_ids entries = Inr ids"
  shows "with_available_sizes (JDict kvs) =
           Inr (JDict (dict_set kvs ''available_sizes'' (JList ids)))"
  using assms by (simp add: with_available_sizes_def)

lemma dict_set_nonempty: "dict_set kvs k v \<noteq> []"
  by (cases kvs) (auto split: if_splits)

lemma EC_flow_second_exchange:
  assumes product: "map_of PRODUCTS product_key = Some product_info"
    and answer: "next_reply s = Reply 200 (Inr product_data)"
    and result: "with_available_sizes product_data = Inr result"
    and "truthy result"
  shows "\<exists>h1 h2 r.
           trace (snd (EC_quick_add_and_checkout product_key sz s)) ! length (trace s) =
             (GET (api_base @ ''/product-core/v1/pdp/sku/'' @ p_sku product_info) h1,
              Reply 200 (Inr product_data)) \<and>
           trace (snd (EC_quick_add_and_checkout product_key sz s)) ! (length (trace s) + 1) =
             (POST (api_base @ ''/carts-experience/carts-experience-service/site/fl/cart/add'') h2
                (JDict
                   [(''productCode'', JStr (p_sku product_info)),
                    (''quantity'', JNum 1),
                    (''size'', JStr sz),
                    (''fulfillmentType'', JStr ''JC'')]),
              r)"
proof -
  let ?sku = "p_sku product_info"
  let ?s1 = "snd (EC_check_product_availability ?sku s)"
  let ?s2 = "snd (EC_add_to_cart_real ?sku sz 1 ?s1)"
  have ok: "truthy (fst (EC_check_product_availability ?sku s))"
    using answer result \<open>truthy result\<close> by (simp add: EC_check_result)
  obtain t3 where t3: "trace (snd (EC_get_cart_status ?s2)) = trace ?s2 @ t3"
    using EC_extends(1) by blast
  obtain t4 where t4: "trace (snd (EC_set_shipping_address SHIPPING_INFO (snd (EC_get_cart_status ?s2)))) =
      trace (snd (EC_get_cart_status ?s2)) @ t4"
    using EC_extends(2) by blast
  have "\<exists>t. trace (snd (EC_quick_add_and_checkout product_key sz s)) = trace ?s2 @ t"
    using product ok t3 t4
    by (simp add: EC_quick_add_and_checkout_def case_prod_beta)
  then obtain t where "trace (snd (EC_quick_add_and_checkout product_key sz s)) = trace ?s2 @ t" ..
  then show ?thesis
    using answer by (simp add: EC_traces nth_append)
qed


lemmas EC_eval =
  EC_quick_add_and_checkout_def EC_defs with_available_sizes_def EC_address_payload_def
  formatted_total_def PRODUCTS_def SHIPPING_INFO_def zero_stock_product_def zero_stock_run_def
  exchange_def new_session_def tracking_case api_base_def

text \<open>
  C2, as stated, fails: \<open>check_product_availability\<close> takes the SKU only, stores the
  sizes in stock in the payload and returns it; \<open>quick_add_and_checkout\<close> only tests
  that the payload is truthy. With no stock for the requested size 04.5 the run goes
  on: the second exchange is the POST to the cart, and the run ends in success.
\<close>

theorem zero_stock_counterexample:
  "fst (EC_check_product_availability ''H7980100'' zero_stock_run) =
     JDict (zero_stock_product @ [(''available_sizes'', JList [JStr ''05.0''])])
   \<and> fst (EC_quick_add_and_checkout ''jordan_5_retro'' ''04.5'' zero_stock_run) = True
   \<and> map (\<lambda>x. req_url (fst x))
        (trace (snd (EC_quick_add_and_checkout ''jordan_5_retro'' ''04.5'' zero_stock_run))) =
      [''https://www.footlocker.com/zgw/product-core/v1/pdp/sku/H7980100'',
       ''https://www.footlocker.com/zgw/carts-experience/carts-experience-service/site/fl/cart/add'',
       ''https://www.footlocker.com/zgw/carts-experience/carts-experience-service/site/fl/cart/getUpdatedCart'',
       ''https://www.footlocker.com/zgw/carts-experience/carts-experience-service/site/fl/cart/setShippingAddress'']"
  by (simp add: EC_eval)

text \<open>
  C2, amended. In every run in which the product payload (a 200 with a JSON object whose
  size entries are well-formed) reports zero stock for the requested size, the check
  leaves that size out of the payload's \<open>available_sizes\<close> and returns the payload;
  the run does not abort: the check makes its one exchange and the next exchange of the
  run is \<open>add_to_cart_real\<close>'s POST for the requested size.
\<close>

theorem zero_stock_does_not_abort:
  assumes product: "map_of PRODUCTS product_key = Some product_info"
    and answer: "next_reply s = Reply 200 (Inr (JDict kvs))"
    and options: "map_of kvs ''variantOptions'' = Some (JDict options)"
    and sizes: "map_of options ''size'' = Some (JList entries)"
    and wellformed: "available_ids entries = Inr ids"
    and zero: "\<forall>entry \<in> set entries. subscript entry ''id'' = Inr (JStr sz) \<longrightarrow>
                 dict_get entry ''stock'' (JNum 0) = Inr (JNum 0)"
  shows "fst (EC_check_product_availability (p_sku product_info) s) =
           JDict (dict_set kvs ''available_sizes'' (JList ids))
     \<and> JStr sz \<notin> set ids
     \<and> (\<exists>h1 h2 r.
           trace (snd (EC_quick_add_and_checkout product_key sz s)) ! length (trace s) =
             (GET (api_base @ ''/product-core/v1/pdp/sku/'' @ p_sku product_info) h1,
              Reply 200 (Inr (JDict kvs))) \<and>
           trace (snd (EC_quick_add_and_checkout product_key sz s)) ! (length (trace s) + 1) =
             (POST (api_base @ ''/carts-experience/carts-experience-service/site/fl/cart/add'') h2
                (JDict
                   [(''productCode'', JStr (p_sku product_info)),
                    (''quantity'', JNum 1),
                    (''size'', JStr sz),
                    (''fulfillmentType'', JStr ''JC'')]),
              r))"
proof -
  have result: "with_available_sizes (JDict kvs) =
      Inr (JDict (dict_set kvs ''available_sizes'' (JList ids)))"
    using options sizes wellformed by (rule with_available_sizes_eq)
  have truthy: "truthy (JDict (dict_set kvs ''available_sizes'' (JList ids)))"
    by (simp add: dict_set_nonempty)
  have "fst (EC_check_product_availability (p_sku product_info) s) =
           JDict (dict_set kvs ''available_sizes'' (JList ids))"
    using answer result by (simp add: EC_check_result)
  moreover have "JStr sz \<notin> set ids"
    using wellformed zero by (rule zero_stock_left_out)
  moreover note EC_flow_second_exchange [OF product answer result truthy, of sz]
  ultimately show ?thesis by blast
qed

theorem zero_stock_does_not_abort_witness:
  "fst (EC_check_product_availability ''H7980100'' zero_stock_run) =
     JDict (zero_stock_product @ [(''available_sizes'', JList [JStr ''05.0''])])
   \<and> JStr ''04.5'' \<notin> set [JStr ''05.0'']
   \<and> (\<exists>h1 h2 r.
         trace (snd (EC_quick_add_and_checkout ''jordan_5_retro'' ''04.5'' zero_stock_run)) ! 0 =
           (GET ''https://www.footlocker.com/zgw/product-core/v1/pdp/sku/H7980100'' h1,
            Reply 200 (Inr (JDict zero_stock_product))) \<and>
         trace (snd (EC_quick_add_and_checkout ''jordan_5_retro'' ''04.5'' zero_stock_run)) ! 1 =
           (POST ''https://www.footlocker.com/zgw/carts-experience/carts-experience-service/site/fl/cart/add'' h2
              (JDict
                 [(''productCode'', JStr ''H7980100''),
                  (''quantity'', JNum 1),
                  (''size'', JStr ''04.5''),
                  (''fulfillmentType'', JStr ''JC'')]),
            r))"
proof -
  let ?entries = "[JDict [(''id'', JStr ''04.5''), (''stock'', JNum 0)],
                   JDict [(''id'', JStr ''05.0''), (''stock'', JNum 3)]]"
  let ?info = "Product ''H7980100'' ''Jordan Air Jordan 5 Retro OG - Boys' Grade School''
                 [''03.5'', ''04.0'', ''04.5'', ''05.0'', ''05.5'', ''06.0''] 160"
  have product: "map_of PRODUCTS ''jordan_5_retro'' = Some ?info"
    by (simp add: PRODUCTS_def)
  have answer: "next_reply zero_stock_run = Reply 200 (Inr (JDict zero_stock_product))"
    by (simp add: zero_stock_run_def new_session_def next_reply_def)
  have options: "map_of zero_stock_product ''variantOptions'' = Some (JDict [(''size'', JList ?entries)])"
    by (simp add: zero_stock_product_def)
  have sizes: "map_of [(''size'', JList ?entries)] ''size'' = Some (JList ?entries)"
    by simp
  have wellformed: "available_ids ?entries = Inr [JStr ''05.0'']"
    by simp
  have zero: "\<forall>entry \<in> set ?entries. subscript entry ''id'' = Inr (JStr ''04.5'') \<longrightarrow>
                 dict_get entry ''stock'' (JNum 0) = Inr (JNum 0)"
    by simp
  have len: "length (trace zero_stock_run) = 0" "length (trace zero_stock_run) + 1 = 1"
    by (simp_all add: zero_stock_run_def new_session_def)
  have upd: "dict_set zero_stock_product ''available_sizes'' (JList [JStr ''05.0'']) =
      zero_stock_product @ [(''available_sizes'', JList [JStr ''05.0''])]"
    by (simp add: zero_stock_product_def)
  show ?thesis
    using zero_stock_does_not_abort [OF product answer options sizes wellformed zero]
    unfolding len upd by (simp add: api_base_def)
qed

subsection \<open>A rejected request ends the run\<close>

lemma all_200_simps [simp]:
  "all_200 []"
  "all_200 (x # t) \<longleftrightarrow> (case snd x of Reply c b \<Rightarrow> c = 200 | Fault \<Rightarrow> False) \<and> all_200 t"
  "all_200 (t @ u) \<longleftrightarrow> all_200 t \<and> all_200 u"
  by (simp_all add: all_200_def)

lemma orchestrate_all_200:
  assumes "\<And>e v s. e \<in> set es \<Longrightarrow>
             \<exists>new. trace (snd (e v s)) = trace s @ new \<and> all_200 (butlast new) \<and>
                   (truthy (fst (e v s)) \<longrightarrow> all_200 new)"
  shows "\<exists>new. trace (snd (orchestrate es v s)) = trace s @ new \<and> all_200 (butlast new) \<and>
               (fst (orchestrate es v s) \<longrightarrow> all_200 new)"
  using assms
proof (induction es arbitrary: v s)
  case Nil
  show ?case by simp
next
  case (Cons e es)
  obtain r s' where step: "e v s = (r, s')" by (cases "e v s")
  from Cons.prems [of e v s] step obtain new1 where
    new1: "trace s' = trace s @ new1" "all_200 (butlast new1)" "truthy r \<longrightarrow> all_200 new1"
    by auto
  show ?case
  proof (cases "truthy r")
    case False
    with step new1 show ?thesis by auto
  next
    case True
    have "\<exists>new. trace (snd (orchestrate es r s')) = trace s' @ new \<and> all_200 (butlast new) \<and>
               (fst (orchestrate es r s') \<longrightarrow> all_200 new)"
      by (rule Cons.IH) (rule Cons.prems, simp)
    then obtain new2 where
      new2: "trace (snd (orchestrate es r s')) = trace s' @ new2" "all_200 (butlast new2)"
        "fst (orchestrate es r s') \<longrightarrow> all_200 new2"
      by blast
    have "all_200 (butlast (new1 @ new2))"
      using new1 new2 True by (simp add: butlast_append)
    with step True new1 new2 show ?thesis
      by (intro exI [of _ "new1 @ new2"]) simp
  qed
qed

lemma FC_stage_initialize:
  "\<exists>new. trace (snd (as_stage FC_initialize_session v s)) = trace s @ new \<and>
         all_200 (butlast new) \<and>
         (truthy (fst (as_stage FC_initialize_session v s)) \<longrightarrow> all_200 new)"
  by (simp add: as_stage_def FC_initialize_session_def exchange_eq case_prod_beta
      split: reply.splits)

lemma FC_stage_shipping:
  "\<exists>new. trace (snd (as_stage (FC_submit_shipping_info x) v s)) = trace s @ new \<and>
         all_200 (butlast new) \<and>
         (truthy (fst (as_stage (FC_submit_shipping_info x) v s)) \<longrightarrow> all_200 new)"
  by (simp add: as_stage_def FC_submit_shipping_info_def exchange_eq case_prod_beta
      split: reply.splits)

lemma FC_stage_payment:
  "\<exists>new. trace (snd (as_stage (FC_submit_payment_info x) v s)) = trace s @ new \<and>
         all_200 (butlast new) \<and>
         (truthy (fst (as_stage (FC_submit_payment_info x) v s)) \<longrightarrow> all_200 new)"
  by (simp add: as_stage_def FC_submit_payment_info_def exchange_eq case_prod_beta
      split: reply.splits)

lemma FC_stage_place_order:
  "\<exists>new. trace (snd (FC_place_order s)) = trace s @ new \<and>
         all_200 (butlast new) \<and>
         (truthy (fst (FC_place_order s)) \<longrightarrow> all_200 new)"
  by (simp add: FC_place_order_def exchange_eq case_prod_beta
      split: reply.splits sum.splits)

lemma FC_lookup_trace:
  "trace (snd (FC_get_product_details sku s)) =
     trace s @ [(GET (api_base @ ''/product-core/v1/pdp/sku/'' @ sku)
                  (dict_update (fst (FC_get_tracking_headers (environ s))) [(''x-kpsdk-v'', ''j-1.1.0'')]),
                 next_reply s)]"
  "trace (snd (FC_get_updated_cart s)) =
     trace s @ [(GET (api_base @ ''/carts-experience/carts-experience-service/site/fl/cart/getUpdatedCart'')
                  (dict_update (fst (FC_get_tracking_headers (environ s)))
                     [(''accept'', ''application/json''),
                      (''x-api-lang'', ''en-US''),
                      (''x-kpsdk-v'', ''j-1.1.0'')]),
                 next_reply s)]"
  by (simp_all add: FC_get_product_details_def FC_get_updated_cart_def exchange_eq case_prod_beta
      split: reply.splits sum.splits)

lemma FC_lookup_200:
  "truthy (fst (FC_get_product_details sku s)) \<longrightarrow>
     (case next_reply s of Reply c b \<Rightarrow> c = 200 | Fault \<Rightarrow> False)"
  "truthy (fst (FC_get_updated_cart s)) \<longrightarrow>
     (case next_reply s of Reply c b \<Rightarrow> c = 200 | Fault \<Rightarrow> False)"
  by (simp_all add: FC_get_product_details_def FC_get_updated_cart_def exchange_eq case_prod_beta
      split: reply.splits sum.splits)

lemma FC_stage_add_to_cart:
  "\<exists>new. trace (snd (as_stage (FC_add_to_cart sku sz q) v s)) = trace s @ new \<and>
         all_200 (butlast new) \<and>
         (truthy (fst (as_stage (FC_add_to_cart sku sz q) v s)) \<longrightarrow> all_200 new)"
proof (cases "truthy (fst (FC_get_product_details sku s))")
  case False
  then show ?thesis
    by (simp add: as_stage_def FC_add_to_cart_def case_prod_beta FC_lookup_trace)
next
  case True
  with FC_lookup_200(1) [of sku s] show ?thesis
    by (simp add: as_stage_def FC_add_to_cart_def case_prod_beta FC_lookup_trace exchange_eq
        split: reply.splits sum.splits)
qed

lemma FC_stage_guest:
  "\<exists>new. trace (snd (as_stage FC_checkout_as_guest v s)) = trace s @ new \<and>
         all_200 (butlast new) \<and>
         (truthy (fst (as_stage FC_checkout_as_guest v s)) \<longrightarrow> all_200 new)"
proof (cases "truthy (fst (FC_get_updated_cart s))")
  case False
  then show ?thesis
    by (simp add: as_stage_def FC_checkout_as_guest_def case_prod_beta FC_lookup_trace)
next
  case True
  with FC_lookup_200(2) [of s] show ?thesis
    by (simp add: as_stage_def FC_checkout_as_guest_def case_prod_beta FC_lookup_trace exchange_eq
        split: reply.splits sum.splits)
qed

lemma FC_flow_all_200:
  "\<exists>new. trace (snd (FC_complete_checkout_flow sku sz shipping_info payment_info s)) = trace s @ new \<and>
         all_200 (butlast new) \<and>
         (fst (FC_complete_checkout_flow sku sz shipping_info payment_info s) \<longrightarrow> all_200 new)"
  unfolding FC_flow_orchestrate
  by (rule orchestrate_all_200)
     (auto simp only: set_simps insert_iff empty_iff
        intro: FC_stage_initialize FC_stage_add_to_cart FC_stage_guest FC_stage_shipping
          FC_stage_payment FC_stage_place_order)


lemma IC_rejected:
  "fst (IC_check_product_availability sku (s\<lparr>replies := Reply 403 body # rs\<rparr>)) =
     (JNull, [AUTHENTICATION_ERROR, COOKIE_UPDATE_INSTRUCTIONS])"
  "fst (IC_check_product_availability sku (s\<lparr>replies := Reply 500 body # rs\<rparr>)) = (JNull, [])"
  by (simp_all add: IC_check_product_availability_def exchange_eq case_prod_beta)

lemmas FC_eval =
  FC_complete_checkout_flow_def FC_defs formatted_total_def
  exchange_def new_session_def tracking_case

text \<open>
  C1, as stated, fails: the outcome of a run is the \<open>bool\<close> that the flow returns,
  and it carries no failure kind. A 403 at \<open>add_to_cart\<close> and a 500 at
  \<open>add_to_cart\<close> give the same outcome, \<open>False\<close>; likewise
  \<open>check_product_availability\<close> of ImprovedFootlockerCheckout returns \<open>None\<close> for
  both.
\<close>

theorem auth_expired_counterexample:
  "fst (FC_complete_checkout_flow ''H7980100'' ''04.5'' SHIPPING_INFO PAYMENT_INFO
         (new_session
            [Reply 200 (Inl JSONDecodeError),
             Reply 200 (Inr (JDict [(''name'', JStr ''Jordan Air Jordan 5 Retro OG'')])),
             Reply 403 (Inl JSONDecodeError)]
            sample_env)) = False
   \<and> fst (FC_complete_checkout_flow ''H7980100'' ''04.5'' SHIPPING_INFO PAYMENT_INFO
         (new_session
            [Reply 200 (Inl JSONDecodeError),
             Reply 200 (Inr (JDict [(''name'', JStr ''Jordan Air Jordan 5 Retro OG'')])),
             Reply 500 (Inl JSONDecodeError)]
            sample_env)) = False
   \<and> fst (fst (IC_check_product_availability ''H7980100''
         (new_session [Reply 403 (Inl JSONDecodeError)] sample_env))) = JNull
   \<and> fst (fst (IC_check_product_availability ''H7980100''
         (new_session [Reply 500 (Inl JSONDecodeError)] sample_env))) = JNull"
  by (simp add: FC_eval IC_check_product_availability_def IC_get_tracking_headers_def)

text \<open>
  C1, amended. For every run of \<open>complete_checkout_flow\<close> and every exchange in it,
  whichever stage made it: if the answer's status is 403, or any other status but 200,
  the run returns \<open>False\<close> and that exchange is the last of the run, so no later
  stage is invoked. The outcome does not tell a 403 from another rejected status.
  \<open>check_product_availability\<close> of ImprovedFootlockerCheckout returns \<open>None\<close> on a
  403 as on a 500; on a 403 it also prints the instructions for refreshing the cookies.
\<close>

theorem rejected_status_ends_run:
  assumes "(rq, Reply status_code body) \<in>
             set (drop (length (trace s))
                    (trace (snd (FC_complete_checkout_flow sku sz shipping_info payment_info s))))"
    and "status_code \<noteq> 200"
  shows "fst (FC_complete_checkout_flow sku sz shipping_info payment_info s) = False
     \<and> last (trace (snd (FC_complete_checkout_flow sku sz shipping_info payment_info s))) =
         (rq, Reply status_code body)
     \<and> fst (IC_check_product_availability sku (s\<lparr>replies := Reply 403 body # rs\<rparr>)) =
         (JNull, [AUTHENTICATION_ERROR, COOKIE_UPDATE_INSTRUCTIONS])
     \<and> fst (IC_check_product_availability sku (s\<lparr>replies := Reply 500 body # rs\<rparr>)) =
         (JNull, [])"
proof -
  let ?flow = "FC_complete_checkout_flow sku sz shipping_info payment_info s"
  from FC_flow_all_200 [of sku sz shipping_info payment_info s] obtain new where
    new: "trace (snd ?flow) = trace s @ new" "all_200 (butlast new)" "fst ?flow \<longrightarrow> all_200 new"
    by blast
  from assms(1) new(1) have mem: "(rq, Reply status_code body) \<in> set new" by simp
  have not_ok: "\<not> all_200 [(rq, Reply status_code body)]"
    using assms(2) by simp
  have bad: "\<not> all_200 t" if "(rq, Reply status_code body) \<in> set t" for t
    using that assms(2) by (force simp add: all_200_def list_all_iff)
  from mem have "new \<noteq> []" by auto
  then have split: "new = butlast new @ [last new]" by simp
  from bad [of "butlast new"] new(2) have "(rq, Reply status_code body) \<notin> set (butlast new)"
    by blast
  with mem split have "last new = (rq, Reply status_code body)"
    by (metis Un_iff empty_iff empty_set set_ConsD set_append)
  moreover from bad [OF mem] new(3) have "\<not> fst ?flow" by blast
  ultimately show ?thesis
    using new(1) \<open>new \<noteq> []\<close> by (simp add: IC_rejected)
qed

theorem rejected_status_ends_run_witness:
  "fst (FC_complete_checkout_flow ''H7980100'' ''04.5'' SHIPPING_INFO PAYMENT_INFO
         (new_session
            [Reply 200 (Inl JSONDecodeError),
             Reply 200 (Inr (JDict [(''name'', JStr ''Jordan Air Jordan 5 Retro OG'')])),
             Reply 403 (Inl JSONDecodeError)]
            sample_env)) = False
   \<and> snd (last (trace (snd (FC_complete_checkout_flow ''H7980100'' ''04.5'' SHIPPING_INFO PAYMENT_INFO
         (new_session
            [Reply 200 (Inl JSONDecodeError),
             Reply 200 (Inr (JDict [(''name'', JStr ''Jordan Air Jordan 5 Retro OG'')])),
             Reply 403 (Inl JSONDecodeError)]
            sample_env))))) = Reply 403 (Inl JSONDecodeError)
   \<and> length (trace (snd (FC_complete_checkout_flow ''H7980100'' ''04.5'' SHIPPING_INFO PAYMENT_INFO
         (new_session
            [Reply 200 (Inl JSONDecodeError),
             Reply 200 (Inr (JDict [(''name'', JStr ''Jordan Air Jordan 5 Retro OG'')])),
             Reply 403 (Inl JSONDecodeError)]
            sample_env)))) = 3"
proof -
  let ?s = "new_session
            [Reply 200 (Inl JSONDecodeError),
             Reply 200 (Inr (JDict [(''name'', JStr ''Jordan Air Jordan 5 Retro OG'')])),
             Reply 403 (Inl JSONDecodeError)]
            sample_env"
  let ?flow = "FC_complete_checkout_flow ''H7980100'' ''04.5'' SHIPPING_INFO PAYMENT_INFO ?s"
  have len: "length (trace (snd ?flow)) = 3"
    by (simp add: FC_eval)
  have "\<exists>rq. (rq, Reply 403 (Inl JSONDecodeError)) \<in> set (drop (length (trace ?s)) (trace (snd ?flow)))"
    by (simp add: FC_eval)
  then obtain rq where
    "(rq, Reply 403 (Inl JSONDecodeError)) \<in> set (drop (length (trace ?s)) (trace (snd ?flow)))" ..
  from rejected_status_ends_run [OF this] len show ?thesis by simp
qed

subsection \<open>Tracking headers\<close>

lemma hex_draws:
  "hex n e =
     (map (\<lambda>i. ''0123456789abcdef'' ! (rnd e i mod 16)) [0..<n], e\<lparr>rnd := \<lambda>i. rnd e (i + n)\<rparr>)"
  by (simp add: hex_def choices_draws)

lemma EC_get_tracking_headers_eq:
  "EC_get_tracking_headers e =
     ([(''newrelic'',
          ''{\"v\": [0, 1], \"d\": {\"ty\": \"Browser\", \"ac\": \"2684125\", \"ap\": \"655559411\", \"id\": \"''
          @ map (\<lambda>i. ''0123456789abcdef'' ! (rnd e (i + 32) mod 16)) [0..<16]
          @ ''\", \"tr\": \"''
          @ map (\<lambda>i. ''0123456789abcdef'' ! (rnd e i mod 16)) [0..<32]
          @ ''\", \"ti\": '' @ str_int (clock e 0) @ '', \"tk\": \"3671077\"}}''),
       (''traceparent'',
          ''00-'' @ map (\<lambda>i. ''0123456789abcdef'' ! (rnd e i mod 16)) [0..<32]
          @ ''-'' @ map (\<lambda>i. ''0123456789abcdef'' ! (rnd e (i + 32) mod 16)) [0..<16] @ ''-01''),
       (''tracestate'',
          ''3671077@nr=0-1-2684125-655559411-''
          @ map (\<lambda>i. ''0123456789abcdef'' ! (rnd e (i + 32) mod 16)) [0..<16]
          @ ''----'' @ str_int (clock e 0)),
       (''x-fl-request-id'',
          map (\<lambda>i. ''0123456789abcdef'' ! (rnd e (i + 48) mod 16)) [0..<8]
          @ ''-56d8-11f0-af56-''
          @ map (\<lambda>i. ''0123456789abcdef'' ! (rnd e (i + 56) mod 16)) [0..<12]),
       (''x-kpsdk-v'', ''j-1.1.0''),
       (''priority'', ''u=1, i'')],
      e\<lparr>rnd := \<lambda>i. rnd e (i + 68), clock := \<lambda>i. clock e (Suc i)\<rparr>)"
  by (simp add: EC_get_tracking_headers_def time_ms_def hex_draws add.assoc
      del: upt.simps map_eq_conv)

lemma FC_get_tracking_headers_eq:
  "FC_get_tracking_headers e =
     ([(''newrelic'',
          ''{\"v\":[0,1],\"d\":{\"ty\":\"Browser\",\"ac\":\"2684125\",\"ap\":\"655559411\",\"id\":\"''
          @ map (\<lambda>i. ''0123456789abcdef'' ! (rnd e i mod 16)) [0..<16]
          @ ''\",\"tr\":\"''
          @ map (\<lambda>i. ''0123456789abcdef'' ! (rnd e (i + 16) mod 16)) [0..<32]
          @ ''\",\"ti\":'' @ str_int (clock e 0) @ '',\"tk\":\"3671077\"}}''),
       (''traceparent'',
          ''00-'' @ map (\<lambda>i. ''0123456789abcdef'' ! (rnd e (i + 48) mod 16)) [0..<32]
          @ ''-'' @ map (\<lambda>i. ''0123456789abcdef'' ! (rnd e (i + 80) mod 16)) [0..<16] @ ''-01''),
       (''x-fl-request-id'',
          map (\<lambda>i. ''0123456789abcdef'' ! (rnd e (i + 96) mod 16)) [0..<8]
          @ ''-'' @ map (\<lambda>i. ''0123456789abcdef'' ! (rnd e (i + 104) mod 16)) [0..<4]
          @ ''-11f0-'' @ map (\<lambda>i. ''0123456789abcdef'' ! (rnd e (i + 108) mod 16)) [0..<4]
          @ ''-'' @ map (\<lambda>i. ''0123456789abcdef'' ! (rnd e (i + 112) mod 16)) [0..<12])],
      e\<lparr>rnd := \<lambda>i. rnd e (i + 124), clock := \<lambda>i. clock e (Suc i)\<rparr>)"
  by (simp add: FC_get_tracking_headers_def time_ms_def hex_draws add.assoc
      del: upt.simps map_eq_conv)

lemma OP_get_tracking_headers_eq:
  "OP_get_tracking_headers e =
     ([(''newrelic'',
          ''{\"v\":[0,1],\"d\":{\"ty\":\"Browser\",\"ac\":\"2684125\",\"ap\":\"655559411\",\"id\":\"''
          @ map (\<lambda>i. ''0123456789abcdef'' ! (rnd e (i + 28) mod 16)) [0..<16]
          @ ''\",\"tr\":\"''
          @ map (\<lambda>i. ''0123456789abcdef'' ! (rnd e (i + 44) mod 16)) [0..<32]
          @ ''\",\"ti\":'' @ str_int (clock e 0) @ '',\"tk\":\"3671077\"}}''),
       (''priority'', ''u=1, i''),
       (''traceparent'',
          ''00-'' @ map (\<lambda>i. ''0123456789abcdef'' ! (rnd e (i + 76) mod 16)) [0..<32]
          @ ''-'' @ map (\<lambda>i. ''0123456789abcdef'' ! (rnd e (i + 108) mod 16)) [0..<16] @ ''-01''),
       (''tracestate'',
          ''3671077@nr=0-1-2684125-655559411-''
          @ map (\<lambda>i. ''0123456789abcdef'' ! (rnd e (i + 124) mod 16)) [0..<16]
          @ ''-\"\"--'' @ str_int (clock e 0)),
       (''x-api-lang'', ''en-US''),
       (''x-api-simulation'', ''undefined''),
       (''x-fl-request-id'',
          map (\<lambda>i. ''0123456789abcdef'' ! (rnd e i mod 16)) [0..<8]
          @ ''-'' @ map (\<lambda>i. ''0123456789abcdef'' ! (rnd e (i + 8) mod 16)) [0..<4]
          @ ''-11f0-'' @ map (\<lambda>i. ''0123456789abcdef'' ! (rnd e (i + 12) mod 16)) [0..<4]
          @ ''-'' @ map (\<lambda>i. ''0123456789abcdef'' ! (rnd e (i + 16) mod 16)) [0..<12]),
       (''x-kpsdk-cd'',
          ''{\"workTime\":'' @ str_int (clock e 0) @ '',\"id\":\"''
          @ map (\<lambda>i. ''0123456789abcdef'' ! (rnd e (i + 140) mod 16)) [0..<32]
          @ ''\",\"answers\":[9,7],\"duration\":98,\"d\":-439,\"st\":1751392861410,\"rst\":1751392860971}''),
       (''x-kpsdk-ct'', ak_bmsc_fl_com),
       (''x-kpsdk-v'', ''j-1.1.0'')],
      e\<lparr>rnd := \<lambda>i. rnd e (i + 172), clock := \<lambda>i. clock e (Suc i)\<rparr>)"
  by (simp add: OP_get_tracking_headers_def time_ms_def hex_draws add.assoc
      del: upt.simps map_eq_conv)

lemma hex_digits_eq:
  "(map (\<lambda>i. ''0123456789abcdef'' ! (f i mod 16)) [0..<n] =
    map (\<lambda>i. ''0123456789abcdef'' ! (g i mod 16)) [0..<n]) =
   (map (\<lambda>i. f i mod 16) [0..<n] = map (\<lambda>i. (g i :: nat) mod 16) [0..<n])"
proof -
  have d: "distinct ''0123456789abcdef''" by simp
  have "(''0123456789abcdef'' ! (a mod 16) = ''0123456789abcdef'' ! (b mod 16)) =
        (a mod 16 = b mod 16)" for a b :: nat
    using nth_eq_iff_index_eq [OF d, of "a mod 16" "b mod 16"] by simp
  then show ?thesis by (simp add: map_eq_conv)
qed


lemma headers_coincide:
  "(map_of (fst (EC_get_tracking_headers e1)) ''traceparent'' =
    map_of (fst (EC_get_tracking_headers e2)) ''traceparent'') =
   (map (\<lambda>i. rnd e1 i mod 16) [0..<32] = map (\<lambda>i. rnd e2 i mod 16) [0..<32] \<and>
    map (\<lambda>i. rnd e1 (i + 32) mod 16) [0..<16] = map (\<lambda>i. rnd e2 (i + 32) mod 16) [0..<16])"
  "(map_of (fst (EC_get_tracking_headers e1)) ''x-fl-request-id'' =
    map_of (fst (EC_get_tracking_headers e2)) ''x-fl-request-id'') =
   (map (\<lambda>i. rnd e1 (i + 48) mod 16) [0..<8] = map (\<lambda>i. rnd e2 (i + 48) mod 16) [0..<8] \<and>
    map (\<lambda>i. rnd e1 (i + 56) mod 16) [0..<12] = map (\<lambda>i. rnd e2 (i + 56) mod 16) [0..<12])"
  "(map_of (fst (FC_get_tracking_headers e1)) ''traceparent'' =
    map_of (fst (FC_get_tracking_headers e2)) ''traceparent'') =
   (map (\<lambda>i. rnd e1 (i + 48) mod 16) [0..<32] = map (\<lambda>i. rnd e2 (i + 48) mod 16) [0..<32] \<and>
    map (\<lambda>i. rnd e1 (i + 80) mod 16) [0..<16] = map (\<lambda>i. rnd e2 (i + 80) mod 16) [0..<16])"
  "(map_of (fst (FC_get_tracking_headers e1)) ''x-fl-request-id'' =
    map_of (fst (FC_get_tracking_headers e2)) ''x-fl-request-id'') =
   (map (\<lambda>i. rnd e1 (i + 96) mod 16) [0..<8] = map (\<lambda>i. rnd e2 (i + 96) mod 16) [0..<8] \<and>
    map (\<lambda>i. rnd e1 (i + 104) mod 16) [0..<4] = map (\<lambda>i. rnd e2 (i + 104) mod 16) [0..<4] \<and>
    map (\<lambda>i. rnd e1 (i + 108) mod 16) [0..<4] = map (\<lambda>i. rnd e2 (i + 108) mod 16) [0..<4] \<and>
    map (\<lambda>i. rnd e1 (i + 112) mod 16) [0..<12] = map (\<lambda>i. rnd e2 (i + 112) mod 16) [0..<12])"
  "(map_of (fst (OP_get_tracking_headers e1)) ''traceparent'' =
    map_of (fst (OP_get_tracking_headers e2)) ''traceparent'') =
   (map (\<lambda>i. rnd e1 (i + 76) mod 16) [0..<32] = map (\<lambda>i. rnd e2 (i + 76) mod 16) [0..<32] \<and>
    map (\<lambda>i. rnd e1 (i + 108) mod 16) [0..<16] = map (\<lambda>i. rnd e2 (i + 108) mod 16) [0..<16])"
  "(map_of (fst (OP_get_tracking_headers e1)) ''x-fl-request-id'' =
    map_of (fst (OP_get_tracking_headers e2)) ''x-fl-request-id'') =
   (map (\<lambda>i. rnd e1 i mod 16) [0..<8] = map (\<lambda>i. rnd e2 i mod 16) [0..<8] \<and>
    map (\<lambda>i. rnd e1 (i + 8) mod 16) [0..<4] = map (\<lambda>i. rnd e2 (i + 8) mod 16) [0..<4] \<and>
    map (\<lambda>i. rnd e1 (i + 12) mod 16) [0..<4] = map (\<lambda>i. rnd e2 (i + 12) mod 16) [0..<4] \<and>
    map (\<lambda>i. rnd e1 (i + 16) mod 16) [0..<12] = map (\<lambda>i. rnd e2 (i + 16) mod 16) [0..<12])"
  by (simp_all add: EC_get_tracking_headers_eq FC_get_tracking_headers_eq
      OP_get_tracking_headers_eq hex_digits_eq del: upt.simps map_eq_conv)


lemma executor_sends:
  "trace (snd (FC_initialize_session s)) = trace s @ [(GET base_url [], next_reply s)]"
  "trace (snd (FC_get_product_details sku s)) =
     trace s @
     [(GET (api_base @ ''/product-core/v1/pdp/sku/'' @ sku) (dict_update (fst
         (FC_get_tracking_headers (environ s))) [(''x-kpsdk-v'', ''j-1.1.0'')]),
       next_reply s)]"
  "trace (snd (FC_get_updated_cart s)) =
     trace s @
     [(GET (api_base @
         ''/carts-experience/carts-experience-service/site/fl/cart/getUpdatedCart'')
         (dict_update (fst (FC_get_tracking_headers (environ s))) [(''accept'',
         ''application/json''), (''x-api-lang'', ''en-US''), (''x-kpsdk-v'', ''j-1.1.0'')]),
       next_reply s)]"
  "trace (snd (FC_submit_shipping_info shipping_info s)) =
     trace s @
     [(POST (api_base @ ''/checkout/shipping'') (dict_update (fst (FC_get_tracking_headers
         (environ s))) [(''content-type'', ''application/json''), (''x-api-lang'', ''en-US''),
         (''x-kpsdk-v'', ''j-1.1.0'')]) shipping_info,
       next_reply s)]"
  "trace (snd (FC_submit_payment_info payment_info s)) =
     trace s @
     [(POST (api_base @ ''/checkout/payment'') (dict_update (fst (FC_get_tracking_headers
         (environ s))) [(''content-type'', ''application/json''), (''x-api-lang'', ''en-US''),
         (''x-kpsdk-v'', ''j-1.1.0'')]) payment_info,
       next_reply s)]"
  "trace (snd (FC_place_order s)) =
     trace s @
     [(POST (api_base @ ''/checkout/placeorder'') (dict_update (fst (FC_get_tracking_headers
         (environ s))) [(''content-type'', ''application/json''), (''x-api-lang'', ''en-US''),
         (''x-kpsdk-v'', ''j-1.1.0'')]) (JDict [(''cartId'', cart_id s), (''guestId'', guest_id
         s)]),
       next_reply s)]"
  "trace (snd (EC_check_product_availability sku s)) =
     trace s @
     [(GET (api_base @ ''/product-core/v1/pdp/sku/'' @ sku) (fst (EC_get_tracking_headers
         (environ s))),
       next_reply s)]"
  "trace (snd (EC_add_to_cart_real sku sz quantity s)) =
     trace s @
     [(POST (api_base @ ''/carts-experience/carts-experience-service/site/fl/cart/add'')
         (dict_update (fst (EC_get_tracking_headers (environ s))) [(''accept'',
         ''application/json''), (''content-type'', ''application/json''), (''x-api-lang'',
         ''en-US''), (''x-api-simulation'', ''undefined'')]) (JDict [(''productCode'', JStr
         sku), (''quantity'', JNum quantity), (''size'', JStr sz), (''fulfillmentType'', JStr
         ''JC'')]),
       next_reply s)]"
  "trace (snd (EC_get_cart_status s)) =
     trace s @
     [(GET (api_base @
         ''/carts-experience/carts-experience-service/site/fl/cart/getUpdatedCart'')
         (dict_update (fst (EC_get_tracking_headers (environ s))) [(''accept'',
         ''application/json''), (''accept-language'', ''undefined''), (''x-api-lang'',
         ''en-US''), (''x-api-simulation'', ''undefined''), (''referer'',
         ''https://www.footlocker.com/checkout'')]),
       next_reply s)]"
  "trace (snd (OP_get_updated_cart_with_shipping s)) =
     trace s @
     [(GET (api_base @ ''/carts/co-cart-aggregation-service/site/fl/cart/userInfo'')
         (dict_update (fst (OP_get_tracking_headers (environ s))) [(''accept'',
         ''application/json''), (''accept-language'', ''undefined'')]),
       next_reply s)]"
  "trace (snd (EC_set_shipping_address shipping_info s)) =
     (case EC_address_payload shipping_info of
        Inl x \<Rightarrow> trace s
      | Inr address_payload \<Rightarrow>
          trace s @
          [(POST (api_base @
              ''/carts-experience/carts-experience-service/site/fl/cart/setShippingAddress'')
              (dict_update (fst (EC_get_tracking_headers (environ s))) [(''accept'',
              ''application/json''), (''content-type'', ''application/json''), (''x-api-lang'',
              ''en-US''), (''referer'', ''https://www.footlocker.com/checkout'')])
              address_payload,
            next_reply s)])"
  "trace (snd (OP_submit_user_info user_info s)) =
     (case OP_user_payload user_info of
        Inl x \<Rightarrow> trace s
      | Inr payload \<Rightarrow>
          trace s @
          [(POST (api_base @ ''/carts/co-cart-aggregation-service/site/fl/cart/userInfo'')
              (dict_update (fst (OP_get_tracking_headers (environ s))) [(''accept'',
              ''application/json''), (''accept-language'', ''undefined'')]) payload,
            next_reply s)])"
  "trace (snd (OP_verify_shipping_address address s)) =
     (case OP_verification_payload address of
        Inl x \<Rightarrow> trace s
      | Inr payload \<Rightarrow>
          trace s @
          [(POST (api_base @ ''/address-verification/v0/address/verification'') (dict_update
              (fst (OP_get_tracking_headers (environ s))) [(''x-functions-key'',
              ''m663XzcEgqHJqzbq4JH6FrDIStLZh4FMUMAzXct09W6HAzFuozxPuA=='')]) payload,
            next_reply s)])"
  "trace (snd (OP_set_shipping_address verified_address s)) =
     (case OP_shipping_payload verified_address of
        Inl x \<Rightarrow> trace s
      | Inr payload \<Rightarrow>
          trace s @
          [(POST (api_base @
              ''/carts-experience/carts-experience-service/site/fl/cart/address'') (fst
              (OP_get_tracking_headers (environ s))) payload,
            next_reply s)])"
  "trace (snd (OP_submit_payment_info payment_info s)) = trace s"
  "trace (snd (OP_place_final_order s)) = trace s"
  by (simp_all add: FC_defs EC_defs OP_defs exchange_eq case_prod_beta
      split: reply.splits sum.splits)

lemma executor_environment:
  "environ (snd (FC_initialize_session s)) = environ s"
  "environ (snd (FC_get_product_details sku s)) = snd (FC_get_tracking_headers (environ s))"
  "environ (snd (FC_get_updated_cart s)) = snd (FC_get_tracking_headers (environ s))"
  "environ (snd (FC_submit_shipping_info shipping_info s)) = snd (FC_get_tracking_headers (environ s))"
  "environ (snd (FC_submit_payment_info payment_info s)) = snd (FC_get_tracking_headers (environ s))"
  "environ (snd (FC_place_order s)) = snd (FC_get_tracking_headers (environ s))"
  "environ (snd (EC_check_product_availability sku s)) = snd (EC_get_tracking_headers (environ s))"
  "environ (snd (EC_add_to_cart_real sku sz quantity s)) = snd (EC_get_tracking_headers (environ s))"
  "environ (snd (EC_get_cart_status s)) = snd (EC_get_tracking_headers (environ s))"
  "environ (snd (OP_get_updated_cart_with_shipping s)) = snd (OP_get_tracking_headers (environ s))"
  "environ (snd (EC_set_shipping_address shipping_info s)) = snd (EC_get_tracking_headers (environ s))"
  "environ (snd (OP_submit_user_info user_info s)) = snd (OP_get_tracking_headers (environ s))"
  "environ (snd (OP_verify_shipping_address address s)) = snd (OP_get_tracking_headers (environ s))"
  "environ (snd (OP_set_shipping_address verified_address s)) = snd (OP_get_tracking_headers (environ s))"
  "environ (snd (OP_submit_payment_info payment_info s)) = snd (OP_get_tracking_headers (environ s))"
  "environ (snd (OP_place_final_order s)) = snd (OP_get_tracking_headers (environ s))"
  by (simp_all add: FC_defs EC_defs OP_defs exchange_eq case_prod_beta
      split: reply.splits sum.splits)

lemma two_exchange_executor_sends:
  "trace (snd (FC_add_to_cart sku sz quantity s)) =
     (if truthy (fst (FC_get_product_details sku s))
      then trace (snd (FC_get_product_details sku s)) @
           [(POST (api_base @ ''/carts-experience/carts-experience-service/site/fl/cart/add'')
               (dict_update (fst (FC_get_tracking_headers (snd (FC_get_tracking_headers
               (environ s))))) [(''content-type'', ''application/json''), (''x-api-lang'',
               ''en-US''), (''x-kpsdk-v'', ''j-1.1.0'')]) (JDict [(''sku'', JStr sku),
               (''size'', JStr sz), (''quantity'', JNum quantity), (''fulfillmentType'', JStr
               ''JC''), (''selectedSizeGroup'', JStr []), (''selectedSizeValue'', JStr [])]),
             next_reply (s\<lparr>replies := tl (replies s)\<rparr>))]
      else trace (snd (FC_get_product_details sku s)))"
  "trace (snd (FC_checkout_as_guest s)) =
     (if truthy (fst (FC_get_updated_cart s))
      then trace (snd (FC_get_updated_cart s)) @
           [(GET (api_base @
               ''/carts-experience/carts-experience-service/site/fl/cart/getUpdatedCart'')
               (dict_update (fst (FC_get_tracking_headers (snd (FC_get_tracking_headers
               (environ s))))) [(''accept'', ''application/json''), (''referer'',
               ''https://www.footlocker.com/checkout''), (''x-api-lang'', ''en-US''),
               (''x-kpsdk-v'', ''j-1.1.0'')]),
             next_reply (s\<lparr>replies := tl (replies s)\<rparr>))]
      else trace (snd (FC_get_updated_cart s)))"
  by (simp_all add: FC_add_to_cart_def FC_checkout_as_guest_def exchange_eq case_prod_beta
      executor_environment FC_lookup_frame split: reply.splits sum.splits)

lemma two_exchange_executor_environment:
  "environ (snd (FC_add_to_cart sku sz quantity s)) =
     (if truthy (fst (FC_get_product_details sku s))
      then snd (FC_get_tracking_headers (snd (FC_get_tracking_headers (environ s))))
      else snd (FC_get_tracking_headers (environ s)))"
  "environ (snd (FC_checkout_as_guest s)) =
     (if truthy (fst (FC_get_updated_cart s))
      then snd (FC_get_tracking_headers (snd (FC_get_tracking_headers (environ s))))
      else snd (FC_get_tracking_headers (environ s)))"
  by (simp_all add: FC_add_to_cart_def FC_checkout_as_guest_def exchange_eq case_prod_beta
      executor_environment split: reply.splits sum.splits)


lemma results_independent:
  "fst (FC_get_product_details sku (s\<lparr>environ := e\<rparr>)) = fst (FC_get_product_details sku s)"
  "fst (FC_get_updated_cart (s\<lparr>environ := e\<rparr>)) = fst (FC_get_updated_cart s)"
  by (simp_all add: FC_defs exchange_eq case_prod_beta split: reply.splits sum.splits)

lemma next_reply_environ_replies:
  "next_reply (s\<lparr>environ := e, replies := rs\<rparr>) = next_reply (s\<lparr>replies := rs\<rparr>)"
  by (simp add: next_reply_def)

lemma attributes_independent:
  "(cart_id (snd (FC_initialize_session (s\<lparr>environ := e\<rparr>))), guest_id (snd (FC_initialize_session (s\<lparr>environ := e\<rparr>)))) =
     (cart_id (snd (FC_initialize_session s)), guest_id (snd (FC_initialize_session s)))"
  "(cart_id (snd (FC_get_product_details sku (s\<lparr>environ := e\<rparr>))), guest_id (snd (FC_get_product_details sku (s\<lparr>environ := e\<rparr>)))) =
     (cart_id (snd (FC_get_product_details sku s)), guest_id (snd (FC_get_product_details sku s)))"
  "(cart_id (snd (FC_add_to_cart sku sz quantity (s\<lparr>environ := e\<rparr>))), guest_id (snd (FC_add_to_cart sku sz quantity (s\<lparr>environ := e\<rparr>)))) =
     (cart_id (snd (FC_add_to_cart sku sz quantity s)), guest_id (snd (FC_add_to_cart sku sz quantity s)))"
  "(cart_id (snd (FC_get_updated_cart (s\<lparr>environ := e\<rparr>))), guest_id (snd (FC_get_updated_cart (s\<lparr>environ := e\<rparr>)))) =
     (cart_id (snd (FC_get_updated_cart s)), guest_id (snd (FC_get_updated_cart s)))"
  "(cart_id (snd (FC_checkout_as_guest (s\<lparr>environ := e\<rparr>))), guest_id (snd (FC_checkout_as_guest (s\<lparr>environ := e\<rparr>)))) =
     (cart_id (snd (FC_checkout_as_guest s)), guest_id (snd (FC_checkout_as_guest s)))"
  "(cart_id (snd (FC_submit_shipping_info shipping_info (s\<lparr>environ := e\<rparr>))), guest_id (snd (FC_submit_shipping_info shipping_info (s\<lparr>environ := e\<rparr>)))) =
     (cart_id (snd (FC_submit_shipping_info shipping_info s)), guest_id (snd (FC_submit_shipping_info shipping_info s)))"
  "(cart_id (snd (FC_submit_payment_info payment_info (s\<lparr>environ := e\<rparr>))), guest_id (snd (FC_submit_payment_info payment_info (s\<lparr>environ := e\<rparr>)))) =
     (cart_id (snd (FC_submit_payment_info payment_info s)), guest_id (snd (FC_submit_payment_info payment_info s)))"
  "(cart_id (snd (FC_place_order (s\<lparr>environ := e\<rparr>))), guest_id (snd (FC_place_order (s\<lparr>environ := e\<rparr>)))) =
     (cart_id (snd (FC_place_order s)), guest_id (snd (FC_place_order s)))"
  "(cart_id (snd (EC_check_product_availability sku (s\<lparr>environ := e\<rparr>))), guest_id (snd (EC_check_product_availability sku (s\<lparr>environ := e\<rparr>)))) =
     (cart_id (snd (EC_check_product_availability sku s)), guest_id (snd (EC_check_product_availability sku s)))"
  "(cart_id (snd (EC_add_to_cart_real sku sz quantity (s\<lparr>environ := e\<rparr>))), guest_id (snd (EC_add_to_cart_real sku sz quantity (s\<lparr>environ := e\<rparr>)))) =
     (cart_id (snd (EC_add_to_cart_real sku sz quantity s)), guest_id (snd (EC_add_to_cart_real sku sz quantity s)))"
  "(cart_id (snd (EC_get_cart_status (s\<lparr>environ := e\<rparr>))), guest_id (snd (EC_get_cart_status (s\<lparr>environ := e\<rparr>)))) =
     (cart_id (snd (EC_get_cart_status s)), guest_id (snd (EC_get_cart_status s)))"
  "(cart_id (snd (EC_set_shipping_address shipping_info (s\<lparr>environ := e\<rparr>))), guest_id (snd (EC_set_shipping_address shipping_info (s\<lparr>environ := e\<rparr>)))) =
     (cart_id (snd (EC_set_shipping_address shipping_info s)), guest_id (snd (EC_set_shipping_address shipping_info s)))"
  "(cart_id (snd (OP_submit_user_info user_info (s\<lparr>environ := e\<rparr>))), guest_id (snd (OP_submit_user_info user_info (s\<lparr>environ := e\<rparr>)))) =
     (cart_id (snd (OP_submit_user_info user_info s)), guest_id (snd (OP_submit_user_info user_info s)))"
  "(cart_id (snd (OP_verify_shipping_address address (s\<lparr>environ := e\<rparr>))), guest_id (snd (OP_verify_shipping_address address (s\<lparr>environ := e\<rparr>)))) =
     (cart_id (snd (OP_verify_shipping_address address s)), guest_id (snd (OP_verify_shipping_address address s)))"
  "(cart_id (snd (OP_set_shipping_address verified_address (s\<lparr>environ := e\<rparr>))), guest_id (snd (OP_set_shipping_address verified_address (s\<lparr>environ := e\<rparr>)))) =
     (cart_id (snd (OP_set_shipping_address verified_address s)), guest_id (snd (OP_set_shipping_address verified_address s)))"
  "(cart_id (snd (OP_get_updated_cart_with_shipping (s\<lparr>environ := e\<rparr>))), guest_id (snd (OP_get_updated_cart_with_shipping (s\<lparr>environ := e\<rparr>)))) =
     (cart_id (snd (OP_get_updated_cart_with_shipping s)), guest_id (snd (OP_get_updated_cart_with_shipping s)))"
  "(cart_id (snd (OP_submit_payment_info payment_info (s\<lparr>environ := e\<rparr>))), guest_id (snd (OP_submit_payment_info payment_info (s\<lparr>environ := e\<rparr>)))) =
     (cart_id (snd (OP_submit_payment_info payment_info s)), guest_id (snd (OP_submit_payment_info payment_info s)))"
  "(cart_id (snd (OP_place_final_order (s\<lparr>environ := e\<rparr>))), guest_id (snd (OP_place_final_order (s\<lparr>environ := e\<rparr>)))) =
     (cart_id (snd (OP_place_final_order s)), guest_id (snd (OP_place_final_order s)))"
  "(cart_id (snd (IC_check_product_availability sku (s\<lparr>environ := e\<rparr>))), guest_id (snd (IC_check_product_availability sku (s\<lparr>environ := e\<rparr>)))) =
     (cart_id (snd (IC_check_product_availability sku s)), guest_id (snd (IC_check_product_availability sku s)))"
  by (simp_all add: cart_id_written cart_id_unchanged guest_id_written guest_id_unchanged
      FC_get_updated_cart_step EC_get_cart_status_step results_independent
      next_reply_environ_replies split: reply.splits sum.splits json.splits)

lemma IC_headers_constant:
  "IC_get_tracking_headers e = (fst (IC_get_tracking_headers e'), e)"
  by (simp add: IC_get_tracking_headers_def)

text \<open>
  C7, as stated, fails: the tracking headers of ImprovedFootlockerCheckout are literals,
  so two calls of its \<open>check_product_availability\<close> send the same
  \<open>traceparent\<close>; and \<open>initialize_session\<close> of FootlockerCheckout sends no
  tracking headers at all.
\<close>

theorem tracking_reused_counterexample:
  "map (\<lambda>x. map_of (req_headers (fst x)) ''traceparent'')
     (trace (snd (IC_check_product_availability ''H7980100''
        (snd (IC_check_product_availability ''H7980100'' (new_session [] sample_env)))))) =
     [Some ''00-aa36ef94772156c118a3e81eed5f9c95-2eec2cd4a5037165-01'',
      Some ''00-aa36ef94772156c118a3e81eed5f9c95-2eec2cd4a5037165-01'']
   \<and> req_headers (fst (hd (trace (snd (FC_initialize_session (new_session [] sample_env)))))) = []"
  by (simp add: IC_check_product_availability_def IC_get_tracking_headers_def
      FC_initialize_session_def exchange_def new_session_def dict_update_def)

text \<open>
  C7, amended. In EnhancedFootlockerCheckout, FootlockerCheckout and the order placer the
  tracking headers are generated for each call: \<open>_get_tracking_headers\<close> always
  returns, its values are made of one reading of the clock and of 68, 124 and 172 draws
  of the random source respectively, and it leaves the environment with that reading
  and those draws consumed. Every executor of the three classes sends, in each exchange
  it makes, the headers generated from the environment as it is at that exchange (under
  the step's own headers), and leaves the consumed environment behind, so that the next
  exchange is sent headers made of the next reading and the next draws;
  \<open>initialize_session\<close> alone sends no tracking headers and generates none, and the
  two placeholders of the order placer generate headers and send nothing. Freshness is
  that of the source: two generations give the same \<open>traceparent\<close> (trace id and
  span id), or the same \<open>x-fl-request-id\<close>, exactly when the draws these are made
  of agree. Nothing of the tracking context is stored in the object: \<open>cart_id\<close> and
  \<open>guest_id\<close> after any executor do not depend on the clock or the random source.
  In ImprovedFootlockerCheckout the headers are the same whatever the clock and the
  source.
\<close>

theorem tracking_headers_per_call:
  "EC_get_tracking_headers e =
        ([(''newrelic'',
             ''{\"v\": [0, 1], \"d\": {\"ty\": \"Browser\", \"ac\": \"2684125\", \"ap\": \"655559411\", \"id\": \"''
             @ map (\<lambda>i. ''0123456789abcdef'' ! (rnd e (i + 32) mod 16)) [0..<16]
             @ ''\", \"tr\": \"''
             @ map (\<lambda>i. ''0123456789abcdef'' ! (rnd e i mod 16)) [0..<32]
             @ ''\", \"ti\": '' @ str_int (clock e 0) @ '', \"tk\": \"3671077\"}}''),
          (''traceparent'',
             ''00-'' @ map (\<lambda>i. ''0123456789abcdef'' ! (rnd e i mod 16)) [0..<32]
             @ ''-'' @ map (\<lambda>i. ''0123456789abcdef'' ! (rnd e (i + 32) mod 16)) [0..<16] @ ''-01''),
          (''tracestate'',
             ''3671077@nr=0-1-2684125-655559411-''
             @ map (\<lambda>i. ''0123456789abcdef'' ! (rnd e (i + 32) mod 16)) [0..<16]
             @ ''----'' @ str_int (clock e 0)),
          (''x-fl-request-id'',
             map (\<lambda>i. ''0123456789abcdef'' ! (rnd e (i + 48) mod 16)) [0..<8]
             @ ''-56d8-11f0-af56-''
             @ map (\<lambda>i. ''0123456789abcdef'' ! (rnd e (i + 56) mod 16)) [0..<12]),
          (''x-kpsdk-v'', ''j-1.1.0''),
          (''priority'', ''u=1, i'')],
         e\<lparr>rnd := \<lambda>i. rnd e (i + 68), clock := \<lambda>i. clock e (Suc i)\<rparr>)
   \<and> FC_get_tracking_headers e =
        ([(''newrelic'',
             ''{\"v\":[0,1],\"d\":{\"ty\":\"Browser\",\"ac\":\"2684125\",\"ap\":\"655559411\",\"id\":\"''
             @ map (\<lambda>i. ''0123456789abcdef'' ! (rnd e i mod 16)) [0..<16]
             @ ''\",\"tr\":\"''
             @ map (\<lambda>i. ''0123456789abcdef'' ! (rnd e (i + 16) mod 16)) [0..<32]
             @ ''\",\"ti\":'' @ str_int (clock e 0) @ '',\"tk\":\"3671077\"}}''),
          (''traceparent'',
             ''00-'' @ map (\<lambda>i. ''0123456789abcdef'' ! (rnd e (i + 48) mod 16)) [0..<32]
             @ ''-'' @ map (\<lambda>i. ''0123456789abcdef'' ! (rnd e (i + 80) mod 16)) [0..<16] @ ''-01''),
          (''x-fl-request-id'',
             map (\<lambda>i. ''0123456789abcdef'' ! (rnd e (i + 96) mod 16)) [0..<8]
             @ ''-'' @ map (\<lambda>i. ''0123456789abcdef'' ! (rnd e (i + 104) mod 16)) [0..<4]
             @ ''-11f0-'' @ map (\<lambda>i. ''0123456789abcdef'' ! (rnd e (i + 108) mod 16)) [0..<4]
             @ ''-'' @ map (\<lambda>i. ''0123456789abcdef'' ! (rnd e (i + 112) mod 16)) [0..<12])],
         e\<lparr>rnd := \<lambda>i. rnd e (i + 124), clock := \<lambda>i. clock e (Suc i)\<rparr>)
   \<and> OP_get_tracking_headers e =
        ([(''newrelic'',
             ''{\"v\":[0,1],\"d\":{\"ty\":\"Browser\",\"ac\":\"2684125\",\"ap\":\"655559411\",\"id\":\"''
             @ map (\<lambda>i. ''0123456789abcdef'' ! (rnd e (i + 28) mod 16)) [0..<16]
             @ ''\",\"tr\":\"''
             @ map (\<lambda>i. ''0123456789abcdef'' ! (rnd e (i + 44) mod 16)) [0..<32]
             @ ''\",\"ti\":'' @ str_int (clock e 0) @ '',\"tk\":\"3671077\"}}''),
          (''priority'', ''u=1, i''),
          (''traceparent'',
             ''00-'' @ map (\<lambda>i. ''0123456789abcdef'' ! (rnd e (i + 76) mod 16)) [0..<32]
             @ ''-'' @ map (\<lambda>i. ''0123456789abcdef'' ! (rnd e (i + 108) mod 16)) [0..<16] @ ''-01''),
          (''tracestate'',
             ''3671077@nr=0-1-2684125-655559411-''
             @ map (\<lambda>i. ''0123456789abcdef'' ! (rnd e (i + 124) mod 16)) [0..<16]
             @ ''-\"\"--'' @ str_int (clock e 0)),
          (''x-api-lang'', ''en-US''),
          (''x-api-simulation'', ''undefined''),
          (''x-fl-request-id'',
             map (\<lambda>i. ''0123456789abcdef'' ! (rnd e i mod 16)) [0..<8]
             @ ''-'' @ map (\<lambda>i. ''0123456789abcdef'' ! (rnd e (i + 8) mod 16)) [0..<4]
             @ ''-11f0-'' @ map (\<lambda>i. ''0123456789abcdef'' ! (rnd e (i + 12) mod 16)) [0..<4]
             @ ''-'' @ map (\<lambda>i. ''0123456789abcdef'' ! (rnd e (i + 16) mod 16)) [0..<12]),
          (''x-kpsdk-cd'',
             ''{\"workTime\":'' @ str_int (clock e 0) @ '',\"id\":\"''
             @ map (\<lambda>i. ''0123456789abcdef'' ! (rnd e (i + 140) mod 16)) [0..<32]
             @ ''\",\"answers\":[9,7],\"duration\":98,\"d\":-439,\"st\":1751392861410,\"rst\":1751392860971}''),
          (''x-kpsdk-ct'', ak_bmsc_fl_com),
          (''x-kpsdk-v'', ''j-1.1.0'')],
         e\<lparr>rnd := \<lambda>i. rnd e (i + 172), clock := \<lambda>i. clock e (Suc i)\<rparr>)
   \<and> IC_get_tracking_headers e = (fst (IC_get_tracking_headers e'), e)
   \<and> trace (snd (FC_initialize_session s)) = trace s @ [(GET base_url [], next_reply s)]
   \<and> trace (snd (FC_get_product_details sku s)) =
        trace s @
        [(GET (api_base @ ''/product-core/v1/pdp/sku/'' @ sku) (dict_update (fst
            (FC_get_tracking_headers (environ s))) [(''x-kpsdk-v'', ''j-1.1.0'')]),
          next_reply s)]
   \<and> trace (snd (FC_get_updated_cart s)) =
        trace s @
        [(GET (api_base @
            ''/carts-experience/carts-experience-service/site/fl/cart/getUpdatedCart'')
            (dict_update (fst (FC_get_tracking_headers (environ s))) [(''accept'',
            ''application/json''), (''x-api-lang'', ''en-US''), (''x-kpsdk-v'', ''j-1.1.0'')]),
          next_reply s)]
   \<and> trace (snd (FC_submit_shipping_info shipping_info s)) =
        trace s @
        [(POST (api_base @ ''/checkout/shipping'') (dict_update (fst (FC_get_tracking_headers
            (environ s))) [(''content-type'', ''application/json''), (''x-api-lang'', ''en-US''),
            (''x-kpsdk-v'', ''j-1.1.0'')]) shipping_info,
          next_reply s)]
   \<and> trace (snd (FC_submit_payment_info payment_info s)) =
        trace s @
        [(POST (api_base @ ''/checkout/payment'') (dict_update (fst (FC_get_tracking_headers
            (environ s))) [(''content-type'', ''application/json''), (''x-api-lang'', ''en-US''),
            (''x-kpsdk-v'', ''j-1.1.0'')]) payment_info,
          next_reply s)]
   \<and> trace (snd (FC_place_order s)) =
        trace s @
        [(POST (api_base @ ''/checkout/placeorder'') (dict_update (fst (FC_get_tracking_headers
            (environ s))) [(''content-type'', ''application/json''), (''x-api-lang'', ''en-US''),
            (''x-kpsdk-v'', ''j-1.1.0'')]) (JDict [(''cartId'', cart_id s), (''guestId'', guest_id
            s)]),
          next_reply s)]
   \<and> trace (snd (EC_check_product_availability sku s)) =
        trace s @
        [(GET (api_base @ ''/product-core/v1/pdp/sku/'' @ sku) (fst (EC_get_tracking_headers
            (environ s))),
          next_reply s)]
   \<and> trace (snd (EC_add_to_cart_real sku sz quantity s)) =
        trace s @
        [(POST (api_base @ ''/carts-experience/carts-experience-service/site/fl/cart/add'')
            (dict_update (fst (EC_get_tracking_headers (environ s))) [(''accept'',
            ''application/json''), (''content-type'', ''application/json''), (''x-api-lang'',
            ''en-US''), (''x-api-simulation'', ''undefined'')]) (JDict [(''productCode'', JStr
            sku), (''quantity'', JNum quantity), (''size'', JStr sz), (''fulfillmentType'', JStr
            ''JC'')]),
          next_reply s)]
   \<and> trace (snd (EC_get_cart_status s)) =
        trace s @
        [(GET (api_base @
            ''/carts-experience/carts-experience-service/site/fl/cart/getUpdatedCart'')
            (dict_update (fst (EC_get_tracking_headers (environ s))) [(''accept'',
            ''application/json''), (''accept-language'', ''undefined''), (''x-api-lang'',
            ''en-US''), (''x-api-simulation'', ''undefined''), (''referer'',
            ''https://www.footlocker.com/checkout'')]),
          next_reply s)]
   \<and> trace (snd (OP_get_updated_cart_with_shipping s)) =
        trace s @
        [(GET (api_base @ ''/carts/co-cart-aggregation-service/site/fl/cart/userInfo'')
            (dict_update (fst (OP_get_tracking_headers (environ s))) [(''accept'',
            ''application/json''), (''accept-language'', ''undefined'')]),
          next_reply s)]
   \<and> trace (snd (EC_set_shipping_address shipping_info s)) =
        (case EC_address_payload shipping_info of
           Inl x \<Rightarrow> trace s
         | Inr address_payload \<Rightarrow>
             trace s @
             [(POST (api_base @
                 ''/carts-experience/carts-experience-service/site/fl/cart/setShippingAddress'')
                 (dict_update (fst (EC_get_tracking_headers (environ s))) [(''accept'',
                 ''application/json''), (''content-type'', ''application/json''), (''x-api-lang'',
                 ''en-US''), (''referer'', ''https://www.footlocker.com/checkout'')])
                 address_payload,
               next_reply s)])
   \<and> trace (snd (OP_submit_user_info user_info s)) =
        (case OP_user_payload user_info of
           Inl x \<Rightarrow> trace s
         | Inr payload \<Rightarrow>
             trace s @
             [(POST (api_base @ ''/carts/co-cart-aggregation-service/site/fl/cart/userInfo'')
                 (dict_update (fst (OP_get_tracking_headers (environ s))) [(''accept'',
                 ''application/json''), (''accept-language'', ''undefined'')]) payload,
               next_reply s)])
   \<and> trace (snd (OP_verify_shipping_address address s)) =
        (case OP_verification_payload address of
           Inl x \<Rightarrow> trace s
         | Inr payload \<Rightarrow>
             trace s @
             [(POST (api_base @ ''/address-verification/v0/address/verification'') (dict_update
                 (fst (OP_get_tracking_headers (environ s))) [(''x-functions-key'',
                 ''m663XzcEgqHJqzbq4JH6FrDIStLZh4FMUMAzXct09W6HAzFuozxPuA=='')]) payload,
               next_reply s)])
   \<and> trace (snd (OP_set_shipping_address verified_address s)) =
        (case OP_shipping_payload verified_address of
           Inl x \<Rightarrow> trace s
         | Inr payload \<Rightarrow>
             trace s @
             [(POST (api_base @
                 ''/carts-experience/carts-experience-service/site/fl/cart/address'') (fst
                 (OP_get_tracking_headers (environ s))) payload,
               next_reply s)])
   \<and> trace (snd (OP_submit_payment_info payment_info s)) = trace s
   \<and> trace (snd (OP_place_final_order s)) = trace s
   \<and> trace (snd (FC_add_to_cart sku sz quantity s)) =
        (if truthy (fst (FC_get_product_details sku s))
         then trace (snd (FC_get_product_details sku s)) @
              [(POST (api_base @ ''/carts-experience/carts-experience-service/site/fl/cart/add'')
                  (dict_update (fst (FC_get_tracking_headers (snd (FC_get_tracking_headers
                  (environ s))))) [(''content-type'', ''application/json''), (''x-api-lang'',
                  ''en-US''), (''x-kpsdk-v'', ''j-1.1.0'')]) (JDict [(''sku'', JStr sku),
                  (''size'', JStr sz), (''quantity'', JNum quantity), (''fulfillmentType'', JStr
                  ''JC''), (''selectedSizeGroup'', JStr []), (''selectedSizeValue'', JStr [])]),
                next_reply (s\<lparr>replies := tl (replies s)\<rparr>))]
         else trace (snd (FC_get_product_details sku s)))
   \<and> trace (snd (FC_checkout_as_guest s)) =
        (if truthy (fst (FC_get_updated_cart s))
         then trace (snd (FC_get_updated_cart s)) @
              [(GET (api_base @
                  ''/carts-experience/carts-experience-service/site/fl/cart/getUpdatedCart'')
                  (dict_update (fst (FC_get_tracking_headers (snd (FC_get_tracking_headers
                  (environ s))))) [(''accept'', ''application/json''), (''referer'',
                  ''https://www.footlocker.com/checkout''), (''x-api-lang'', ''en-US''),
                  (''x-kpsdk-v'', ''j-1.1.0'')]),
                next_reply (s\<lparr>replies := tl (replies s)\<rparr>))]
         else trace (snd (FC_get_updated_cart s)))
   \<and> environ (snd (FC_initialize_session s)) = environ s
   \<and> environ (snd (FC_get_product_details sku s)) = snd (FC_get_tracking_headers (environ s))
   \<and> environ (snd (FC_get_updated_cart s)) = snd (FC_get_tracking_headers (environ s))
   \<and> environ (snd (FC_submit_shipping_info shipping_info s)) = snd (FC_get_tracking_headers (environ s))
   \<and> environ (snd (FC_submit_payment_info payment_info s)) = snd (FC_get_tracking_headers (environ s))
   \<and> environ (snd (FC_place_order s)) = snd (FC_get_tracking_headers (environ s))
   \<and> environ (snd (EC_check_product_availability sku s)) = snd (EC_get_tracking_headers (environ s))
   \<and> environ (snd (EC_add_to_cart_real sku sz quantity s)) = snd (EC_get_tracking_headers (environ s))
   \<and> environ (snd (EC_get_cart_status s)) = snd (EC_get_tracking_headers (environ s))
   \<and> environ (snd (OP_get_updated_cart_with_shipping s)) = snd (OP_get_tracking_headers (environ s))
   \<and> environ (snd (EC_set_shipping_address shipping_info s)) = snd (EC_get_tracking_headers (environ s))
   \<and> environ (snd (OP_submit_user_info user_info s)) = snd (OP_get_tracking_headers (environ s))
   \<and> environ (snd (OP_verify_shipping_address address s)) = snd (OP_get_tracking_headers (environ s))
   \<and> environ (snd (OP_set_shipping_address verified_address s)) = snd (OP_get_tracking_headers (environ s))
   \<and> environ (snd (OP_submit_payment_info payment_info s)) = snd (OP_get_tracking_headers (environ s))
   \<and> environ (snd (OP_place_final_order s)) = snd (OP_get_tracking_headers (environ s))
   \<and> environ (snd (FC_add_to_cart sku sz quantity s)) =
        (if truthy (fst (FC_get_product_details sku s))
         then snd (FC_get_tracking_headers (snd (FC_get_tracking_headers (environ s))))
         else snd (FC_get_tracking_headers (environ s)))
   \<and> environ (snd (FC_checkout_as_guest s)) =
        (if truthy (fst (FC_get_updated_cart s))
         then snd (FC_get_tracking_headers (snd (FC_get_tracking_headers (environ s))))
         else snd (FC_get_tracking_headers (environ s)))
   \<and> (map_of (fst (EC_get_tracking_headers e1)) ''traceparent'' =
       map_of (fst (EC_get_tracking_headers e2)) ''traceparent'') =
      (map (\<lambda>i. rnd e1 i mod 16) [0..<32] = map (\<lambda>i. rnd e2 i mod 16) [0..<32] \<and>
       map (\<lambda>i. rnd e1 (i + 32) mod 16) [0..<16] = map (\<lambda>i. rnd e2 (i + 32) mod 16) [0..<16])
   \<and> (map_of (fst (EC_get_tracking_headers e1)) ''x-fl-request-id'' =
       map_of (fst (EC_get_tracking_headers e2)) ''x-fl-request-id'') =
      (map (\<lambda>i. rnd e1 (i + 48) mod 16) [0..<8] = map (\<lambda>i. rnd e2 (i + 48) mod 16) [0..<8] \<and>
       map (\<lambda>i. rnd e1 (i + 56) mod 16) [0..<12] = map (\<lambda>i. rnd e2 (i + 56) mod 16) [0..<12])
   \<and> (map_of (fst (FC_get_tracking_headers e1)) ''traceparent'' =
       map_of (fst (FC_get_tracking_headers e2)) ''traceparent'') =
      (map (\<lambda>i. rnd e1 (i + 48) mod 16) [0..<32] = map (\<lambda>i. rnd e2 (i + 48) mod 16) [0..<32] \<and>
       map (\<lambda>i. rnd e1 (i + 80) mod 16) [0..<16] = map (\<lambda>i. rnd e2 (i + 80) mod 16) [0..<16])
   \<and> (map_of (fst (FC_get_tracking_headers e1)) ''x-fl-request-id'' =
       map_of (fst (FC_get_tracking_headers e2)) ''x-fl-request-id'') =
      (map (\<lambda>i. rnd e1 (i + 96) mod 16) [0..<8] = map (\<lambda>i. rnd e2 (i + 96) mod 16) [0..<8] \<and>
       map (\<lambda>i. rnd e1 (i + 104) mod 16) [0..<4] = map (\<lambda>i. rnd e2 (i + 104) mod 16) [0..<4] \<and>
       map (\<lambda>i. rnd e1 (i + 108) mod 16) [0..<4] = map (\<lambda>i. rnd e2 (i + 108) mod 16) [0..<4] \<and>
       map (\<lambda>i. rnd e1 (i + 112) mod 16) [0..<12] = map (\<lambda>i. rnd e2 (i + 112) mod 16) [0..<12])
   \<and> (map_of (fst (OP_get_tracking_headers e1)) ''traceparent'' =
       map_of (fst (OP_get_tracking_headers e2)) ''traceparent'') =
      (map (\<lambda>i. rnd e1 (i + 76) mod 16) [0..<32] = map (\<lambda>i. rnd e2 (i + 76) mod 16) [0..<32] \<and>
       map (\<lambda>i. rnd e1 (i + 108) mod 16) [0..<16] = map (\<lambda>i. rnd e2 (i + 108) mod 16) [0..<16])
   \<and> (map_of (fst (OP_get_tracking_headers e1)) ''x-fl-request-id'' =
       map_of (fst (OP_get_tracking_headers e2)) ''x-fl-request-id'') =
      (map (\<lambda>i. rnd e1 i mod 16) [0..<8] = map (\<lambda>i. rnd e2 i mod 16) [0..<8] \<and>
       map (\<lambda>i. rnd e1 (i + 8) mod 16) [0..<4] = map (\<lambda>i. rnd e2 (i + 8) mod 16) [0..<4] \<and>
       map (\<lambda>i. rnd e1 (i + 12) mod 16) [0..<4] = map (\<lambda>i. rnd e2 (i + 12) mod 16) [0..<4] \<and>
       map (\<lambda>i. rnd e1 (i + 16) mod 16) [0..<12] = map (\<lambda>i. rnd e2 (i + 16) mod 16) [0..<12])
   \<and> (cart_id (snd (FC_initialize_session (s\<lparr>environ := e\<rparr>))), guest_id (snd (FC_initialize_session (s\<lparr>environ := e\<rparr>)))) =
        (cart_id (snd (FC_initialize_session s)), guest_id (snd (FC_initialize_session s)))
   \<and> (cart_id (snd (FC_get_product_details sku (s\<lparr>environ := e\<rparr>))), guest_id (snd (FC_get_product_details sku (s\<lparr>environ := e\<rparr>)))) =
        (cart_id (snd (FC_get_product_details sku s)), guest_id (snd (FC_get_product_details sku s)))
   \<and> (cart_id (snd (FC_add_to_cart sku sz quantity (s\<lparr>environ := e\<rparr>))), guest_id (snd (FC_add_to_cart sku sz quantity (s\<lparr>environ := e\<rparr>)))) =
        (cart_id (snd (FC_add_to_cart sku sz quantity s)), guest_id (snd (FC_add_to_cart sku sz quantity s)))
   \<and> (cart_id (snd (FC_get_updated_cart (s\<lparr>environ := e\<rparr>))), guest_id (snd (FC_get_updated_cart (s\<lparr>environ := e\<rparr>)))) =
        (cart_id (snd (FC_get_updated_cart s)), guest_id (snd (FC_get_updated_cart s)))
   \<and> (cart_id (snd (FC_checkout_as_guest (s\<lparr>environ := e\<rparr>))), guest_id (snd (FC_checkout_as_guest (s\<lparr>environ := e\<rparr>)))) =
        (cart_id (snd (FC_checkout_as_guest s)), guest_id (snd (FC_checkout_as_guest s)))
   \<and> (cart_id (snd (FC_submit_shipping_info shipping_info (s\<lparr>environ := e\<rparr>))), guest_id (snd (FC_submit_shipping_info shipping_info (s\<lparr>environ := e\<rparr>)))) =
        (cart_id (snd (FC_submit_shipping_info shipping_info s)), guest_id (snd (FC_submit_shipping_info shipping_info s)))
   \<and> (cart_id (snd (FC_submit_payment_info payment_info (s\<lparr>environ := e\<rparr>))), guest_id (snd (FC_submit_payment_info payment_info (s\<lparr>environ := e\<rparr>)))) =
        (cart_id (snd (FC_submit_payment_info payment_info s)), guest_id (snd (FC_submit_payment_info payment_info s)))
   \<and> (cart_id (snd (FC_place_order (s\<lparr>environ := e\<rparr>))), guest_id (snd (FC_place_order (s\<lparr>environ := e\<rparr>)))) =
        (cart_id (snd (FC_place_order s)), guest_id (snd (FC_place_order s)))
   \<and> (cart_id (snd (EC_check_product_availability sku (s\<lparr>environ := e\<rparr>))), guest_id (snd (EC_check_product_availability sku (s\<lparr>environ := e\<rparr>)))) =
        (cart_id (snd (EC_check_product_availability sku s)), guest_id (snd (EC_check_product_availability sku s)))
   \<and> (cart_id (snd (EC_add_to_cart_real sku sz quantity (s\<lparr>environ := e\<rparr>))), guest_id (snd (EC_add_to_cart_real sku sz quantity (s\<lparr>environ := e\<rparr>)))) =
        (cart_id (snd (EC_add_to_cart_real sku sz quantity s)), guest_id (snd (EC_add_to_cart_real sku sz quantity s)))
   \<and> (cart_id (snd (EC_get_cart_status (s\<lparr>environ := e\<rparr>))), guest_id (snd (EC_get_cart_status (s\<lparr>environ := e\<rparr>)))) =
        (cart_id (snd (EC_get_cart_status s)), guest_id (snd (EC_get_cart_status s)))
   \<and> (cart_id (snd (EC_set_shipping_address shipping_info (s\<lparr>environ := e\<rparr>))), guest_id (snd (EC_set_shipping_address shipping_info (s\<lparr>environ := e\<rparr>)))) =
        (cart_id (snd (EC_set_shipping_address shipping_info s)), guest_id (snd (EC_set_shipping_address shipping_info s)))
   \<and> (cart_id (snd (OP_submit_user_info user_info (s\<lparr>environ := e\<rparr>))), guest_id (snd (OP_submit_user_info user_info (s\<lparr>environ := e\<rparr>)))) =
        (cart_id (snd (OP_submit_user_info user_info s)), guest_id (snd (OP_submit_user_info user_info s)))
   \<and> (cart_id (snd (OP_verify_shipping_address address (s\<lparr>environ := e\<rparr>))), guest_id (snd (OP_verify_shipping_address address (s\<lparr>environ := e\<rparr>)))) =
        (cart_id (snd (OP_verify_shipping_address address s)), guest_id (snd (OP_verify_shipping_address address s)))
   \<and> (cart_id (snd (OP_set_shipping_address verified_address (s\<lparr>environ := e\<rparr>))), guest_id (snd (OP_set_shipping_address verified_address (s\<lparr>environ := e\<rparr>)))) =
        (cart_id (snd (OP_set_shipping_address verified_address s)), guest_id (snd (OP_set_shipping_address verified_address s)))
   \<and> (cart_id (snd (OP_get_updated_cart_with_shipping (s\<lparr>environ := e\<rparr>))), guest_id (snd (OP_get_updated_cart_with_shipping (s\<lparr>environ := e\<rparr>)))) =
        (cart_id (snd (OP_get_updated_cart_with_shipping s)), guest_id (snd (OP_get_updated_cart_with_shipping s)))
   \<and> (cart_id (snd (OP_submit_payment_info payment_info (s\<lparr>environ := e\<rparr>))), guest_id (snd (OP_submit_payment_info payment_info (s\<lparr>environ := e\<rparr>)))) =
        (cart_id (snd (OP_submit_payment_info payment_info s)), guest_id (snd (OP_submit_payment_info payment_info s)))
   \<and> (cart_id (snd (OP_place_final_order (s\<lparr>environ := e\<rparr>))), guest_id (snd (OP_place_final_order (s\<lparr>environ := e\<rparr>)))) =
        (cart_id (snd (OP_place_final_order s)), guest_id (snd (OP_place_final_order s)))
   \<and> (cart_id (snd (IC_check_product_availability sku (s\<lparr>environ := e\<rparr>))), guest_id (snd (IC_check_product_availability sku (s\<lparr>environ := e\<rparr>)))) =
        (cart_id (snd (IC_check_product_availability sku s)), guest_id (snd (IC_check_product_availability sku s)))"
  by (intro conjI)
     (rule EC_get_tracking_headers_eq FC_get_tracking_headers_eq OP_get_tracking_headers_eq
        IC_headers_constant executor_sends two_exchange_executor_sends executor_environment
        two_exchange_executor_environment headers_coincide attributes_independent)+

end
